theory Spec2Isabelle
  imports Complex_Main "HOL-Library.Product_Lexorder"
begin

section \<open>Python values and built-ins used by the trading engine\<close>

text \<open>
  Prices, volumes and equity are Python floats in the source.  They are modelled
  as reals: every comparison, \<open>max\<close>, \<open>min\<close>, \<open>abs\<close> and arithmetic operation
  is the exact one.  NaN and the infinities have no counterpart, so \<open>np.isfinite\<close>
  holds of every modelled value.
\<close>

text \<open>
  Python's \<open>round(x, n)\<close> on a float rounds to the nearest multiple of \<open>10 ^ - n\<close>
  and resolves an exact tie towards the even neighbour.
\<close>

definition round_half_even :: "real \<Rightarrow> int" where
  "round_half_even x =
     (let f = \<lfloor>x\<rfloor>; d = x - of_int f
      in if d < 1 / 2 then f
         else if 1 / 2 < d then f + 1
         else if even f then f else f + 1)"

definition py_round :: "real \<Rightarrow> nat \<Rightarrow> real" where
  "py_round x n = of_int (round_half_even (x * 10 ^ n)) / 10 ^ n"

section \<open>Bars\<close>

text \<open>
  A row of the OHLC frame returned by \<open>fetch_rates\<close>.  A frame is the list of its
  rows, oldest first; \<open>df.iloc[-1]\<close> is \<open>last\<close>.  The frame \<open>None\<close> and the empty
  frame are both the empty list: every function below treats them alike.
\<close>

record bar =
  bar_time :: int
  bar_open :: real
  bar_high :: real
  bar_low :: real
  bar_close :: real

section \<open>swing\_strategy.py\<close>

text \<open>
  \<^verbatim>\<open>_is_rejection_wick(df, direction, body_wick_ratio=0.4)\<close>: the test on the latest
  bar.  Every direction other than \<open>"bull"\<close> takes the \<open>else\<close> branch.
\<close>

definition is_rejection_wick :: "bar list \<Rightarrow> string \<Rightarrow> real \<Rightarrow> bool" where
  "is_rejection_wick df direction body_wick_ratio =
     (if length df < 1 then False
      else
        let c = last df;
            op = bar_open c; h = bar_high c; l = bar_low c; cl = bar_close c;
            body = \<bar>cl - op\<bar>;
            full = h - l
        in if full \<le> 0 then False
           else
             let wick_top = h - max op cl;
                 wick_bottom = min op cl - l
             in if direction = ''bull''
                then wick_bottom \<ge> body * (1.5 / max 1.0 body_wick_ratio) \<and> wick_top \<le> body * 1.0
                else wick_top \<ge> body * (1.5 / max 1.0 body_wick_ratio) \<and> wick_bottom \<le> body * 1.0)"

section \<open>config.py\<close>

text \<open>
  The configuration constants the modelled functions read.  They are loaded from the
  environment at import time, so they are parameters here; \<open>default_config\<close> holds
  the defaults written in \<^verbatim>\<open>config.py\<close>.
\<close>

record config =
  POSITION_MODE :: string
  RISK_PCT :: real
  MAX_RISK_PER_TRADE_PCT :: real
  LOTS_FIXED :: real
  FAT_FINGER_MAX_LOTS :: real
  MAX_DRAWDOWN_PCT :: real
  MAX_DAILY_LOSS_PCT :: real
  CONSECUTIVE_LOSS_LIMIT :: int
  MAX_POSITIONS_PER_SYMBOL :: int
  USE_TRAILING :: bool
  TRAILING_R_MULT :: real
  BREAKEVEN_RR :: real
  PARTIAL_TP_ENABLED :: bool
  PARTIAL_TP_PERCENT :: real
  PARTIAL_TP_RR :: real
  PARTIAL_TP_MIN_LOT :: real
  TRADE_ENABLED :: bool
  NOTIFY_ONLY :: bool
  COOLDOWN_SECONDS :: int
  STARTUP_PROTECTION_CYCLES :: int

definition default_config :: config where
  "default_config =
     \<lparr>POSITION_MODE = ''PERCENT'',
      RISK_PCT = 1 / 100,
      MAX_RISK_PER_TRADE_PCT = 5 / 1000,
      LOTS_FIXED = 1 / 100,
      FAT_FINGER_MAX_LOTS = 5,
      MAX_DRAWDOWN_PCT = 8 / 100,
      MAX_DAILY_LOSS_PCT = 2 / 100,
      CONSECUTIVE_LOSS_LIMIT = 2,
      MAX_POSITIONS_PER_SYMBOL = 2,
      USE_TRAILING = True,
      TRAILING_R_MULT = 1 / 2,
      BREAKEVEN_RR = 1,
      PARTIAL_TP_ENABLED = False,
      PARTIAL_TP_PERCENT = 50,
      PARTIAL_TP_RR = 1,
      PARTIAL_TP_MIN_LOT = 1 / 100,
      TRADE_ENABLED = True,
      NOTIFY_ONLY = False,
      COOLDOWN_SECONDS = 30,
      STARTUP_PROTECTION_CYCLES = 3\<rparr>"

section \<open>The venue's symbol description\<close>

text \<open>
  What \<^verbatim>\<open>mt5.symbol_info(symbol)\<close> returns.  The source reads every field with
  \<^verbatim>\<open>getattr(info, name, default)\<close>, so a field is \<open>None\<close> when the attribute is
  absent and \<open>Some v\<close> when it is present.
\<close>

record symbol_info =
  trade_tick_value :: "real option"
  trade_tick_size :: "real option"
  trade_contract_size :: "real option"
  volume_step :: "real option"
  volume_min :: "real option"
  volume_max :: "real option"
  trade_allowed :: "bool option"

text \<open>\<^verbatim>\<open>getattr(info, name, d)\<close>, and \<^verbatim>\<open>getattr(info, name, d) or e\<close>: a zero is falsy.\<close>

definition getattr :: "'a option \<Rightarrow> 'a \<Rightarrow> 'a" where
  "getattr a d = (case a of None \<Rightarrow> d | Some v \<Rightarrow> v)"

definition py_or :: "real \<Rightarrow> real \<Rightarrow> real" where
  "py_or v e = (if v = 0 then e else v)"

datatype error = RuntimeError | ZeroDivisionError | ValueError

section \<open>risk.py\<close>

definition endswith :: "string \<Rightarrow> string \<Rightarrow> bool" where
  "endswith s suf \<longleftrightarrow> length suf \<le> length s \<and> drop (length s - length suf) s = suf"

definition startswith :: "string \<Rightarrow> string \<Rightarrow> bool" where
  "startswith s pre \<longleftrightarrow> take (length pre) s = pre"

definition pip_size :: "string \<Rightarrow> real" where
  "pip_size symbol =
     (if endswith symbol ''JPY'' then 1 / 100
      else if startswith symbol ''XAU'' then 1 / 10
      else 1 / 10000)"

text \<open>
  \<^verbatim>\<open>compute_lots(symbol, entry, sl, equity)\<close>.  The first argument is the result
  of \<^verbatim>\<open>mt5.symbol_info(symbol)\<close>.  The function raises when the symbol is unknown
  and when a divisor is zero; \<^verbatim>\<open>math.log10\<close> raises on a non-positive step, which
  the source catches (two decimals are used then).
\<close>

definition raw_lots :: "config \<Rightarrow> symbol_info \<Rightarrow> string \<Rightarrow> real \<Rightarrow> real \<Rightarrow> real \<Rightarrow> error + real" where
  "raw_lots cfg info symbol entry sl equity =
     (if POSITION_MODE cfg = ''FIXED'' then Inr (LOTS_FIXED cfg)
      else
        let stop_pips = max (1 / 10 ^ 9) (\<bar>entry - sl\<bar> / pip_size symbol);
            tick_value = py_or (getattr (trade_tick_value info) 0) 1;
            tick_size = py_or (getattr (trade_tick_size info) 0) (pip_size symbol);
            value_per_pip = tick_value * (pip_size symbol / tick_size);
            chosen_risk_pct = min (RISK_PCT cfg) (MAX_RISK_PER_TRADE_PCT cfg);
            risk_amount = equity * chosen_risk_pct;
            contract = getattr (trade_contract_size info) 1
        in if stop_pips * value_per_pip = 0 \<or> contract = 0 then Inl ZeroDivisionError
           else Inr ((risk_amount / (stop_pips * value_per_pip)) / contract))"

definition step_decimals :: "real \<Rightarrow> nat" where
  "step_decimals lot_step =
     (if 0 < lot_step then nat (max 0 (round_half_even (- log 10 lot_step))) else 2)"

definition compute_lots ::
  "config \<Rightarrow> symbol_info option \<Rightarrow> string \<Rightarrow> real \<Rightarrow> real \<Rightarrow> real \<Rightarrow> error + real" where
  "compute_lots cfg info_opt symbol entry sl equity =
     (case info_opt of
        None \<Rightarrow> Inl RuntimeError
      | Some info \<Rightarrow>
          (case raw_lots cfg info symbol entry sl equity of
             Inl e \<Rightarrow> Inl e
           | Inr lots \<Rightarrow>
               let lot_step = py_or (getattr (volume_step info) (1 / 100)) (1 / 100);
                   min_lot = py_or (getattr (volume_min info) (1 / 100)) (1 / 100);
                   max_lot = min (py_or (getattr (volume_max info) 100) 100) (FAT_FINGER_MAX_LOTS cfg);
                   lots1 = (if 0 < lot_step
                            then of_int \<lfloor>max 0 lots / lot_step\<rfloor> * lot_step
                            else lots);
                   lots2 = max min_lot (min max_lot lots1)
               in Inr (py_round lots2 (step_decimals lot_step))))"

text \<open>
  \<^verbatim>\<open>risk_gates_ok(equity_start, balance, equity)\<close>.  The two journal readers
  \<^verbatim>\<open>daily_pnl_from_logs()\<close> and \<^verbatim>\<open>consecutive_losses_today()\<close> are
  collaborators: their outcome (\<open>Inl\<close> when they raise, which the source catches and
  passes over) is an argument.
\<close>

definition risk_gates_ok ::
  "config \<Rightarrow> (error + nat \<times> real) \<Rightarrow> (error + int) \<Rightarrow> real \<Rightarrow> real \<Rightarrow> real \<Rightarrow> bool" where
  "risk_gates_ok cfg daily cons equity_start balance equity =
     (let dd = (equity_start - equity) / max (1 / 10 ^ 9) equity_start
      in if dd \<ge> MAX_DRAWDOWN_PCT cfg then False
         else if (case daily of
                    Inr (cnt, daily_pnl) \<Rightarrow>
                      daily_pnl < 0 \<and> \<bar>daily_pnl\<bar> \<ge> balance * MAX_DAILY_LOSS_PCT cfg
                  | Inl e \<Rightarrow> False) then False
         else if (case cons of
                    Inr c \<Rightarrow> c \<ge> CONSECUTIVE_LOSS_LIMIT cfg
                  | Inl e \<Rightarrow> False) then False
         else True)"

section \<open>zones.py\<close>

text \<open>Python's \<open>str.upper\<close> and \<open>str.lower\<close> on ASCII letters, and the substring test \<open>needle in hay\<close>.\<close>

definition upper_char :: "char \<Rightarrow> char" where
  "upper_char c =
     (let n = (of_char c :: nat) in if 97 \<le> n \<and> n \<le> 122 then char_of (n - 32) else c)"

definition lower_char :: "char \<Rightarrow> char" where
  "lower_char c =
     (let n = (of_char c :: nat) in if 65 \<le> n \<and> n \<le> 90 then char_of (n + 32) else c)"

definition upper :: "string \<Rightarrow> string" where
  "upper s = map upper_char s"

definition lower :: "string \<Rightarrow> string" where
  "lower s = map lower_char s"

fun contains :: "string \<Rightarrow> string \<Rightarrow> bool" where
  "contains [] needle = (needle = [])"
| "contains (c # cs) needle = (take (length needle) (c # cs) = needle \<or> contains cs needle)"

definition symbol_pip :: "string \<Rightarrow> real" where
  "symbol_pip symbol = (if contains (upper symbol) ''JPY'' then 1 / 100 else 1 / 10000)"

text \<open>
  \<^verbatim>\<open>_local_extrema(series, order)\<close>: the indices whose value is the maximum (minimum)
  of the window of \<open>order\<close> neighbours on each side.
\<close>

definition local_extrema :: "real list \<Rightarrow> nat \<Rightarrow> nat list \<times> nat list" where
  "local_extrema series order =
     (let n = length series
      in if n < order * 2 + 1 then ([], [])
         else
           let window = (\<lambda>i. take (2 * order + 1) (drop (i - order) series));
               idx = [order ..< n - order]
           in (filter (\<lambda>i. series ! i \<ge> Max (set (window i)) \<and> series ! i = Max (set (window i))) idx,
               filter (\<lambda>i. series ! i \<le> Min (set (window i)) \<and> series ! i = Min (set (window i))) idx))"

text \<open>\<^verbatim>\<open>np.mean\<close> of a non-empty list, and \<^verbatim>\<open>np.isfinite\<close>, which every real passes.\<close>

definition mean :: "real list \<Rightarrow> real" where
  "mean xs = sum_list xs / real (length xs)"

definition isfinite :: "real \<Rightarrow> bool" where
  "isfinite x = True"

text \<open>
  The loop of \<^verbatim>\<open>_cluster_levels\<close> over the sorted levels: \<open>clusters\<close> are the means
  of the clusters closed so far, \<open>cur\<close> is the open cluster.
\<close>

fun cluster_loop :: "real \<Rightarrow> real list \<Rightarrow> real list \<Rightarrow> real list \<Rightarrow> real list" where
  "cluster_loop tol clusters cur [] = (if cur \<noteq> [] then clusters @ [mean cur] else clusters)"
| "cluster_loop tol clusters cur (lv # rest) =
     (if \<bar>lv - mean cur\<bar> \<le> tol then cluster_loop tol clusters (cur @ [lv]) rest
      else cluster_loop tol (clusters @ [mean cur]) [lv] rest)"

text \<open>
  \<^verbatim>\<open>_cluster_levels(levels, pip, cluster_tol_multiplier, max_levels)\<close>.  When no level
  is finite, \<^verbatim>\<open>levels_sorted[0]\<close> raises; the source catches it and returns the empty
  list.  \<open>max_levels\<close> is a natural number: the callers pass 20, 60 and three times
  \<open>keep_top\<close>.
\<close>

definition cluster_levels :: "real list \<Rightarrow> real \<Rightarrow> real \<Rightarrow> nat \<Rightarrow> real list" where
  "cluster_levels levels pip cluster_tol_multiplier max_levels =
     (if levels = [] then []
      else
        let tol = max (1 / 10 ^ 8) (pip * cluster_tol_multiplier);
            levels_sorted = sort (filter isfinite levels)
        in case levels_sorted of
             [] \<Rightarrow> []
           | l0 # rest \<Rightarrow>
               let clusters = cluster_loop tol [] [l0] rest;
                   prec = (if pip < 5 / 10000 then 6 else 4);
                   rounded = sort (remdups (map (\<lambda>x. py_round x prec) clusters))
               in if length rounded \<le> max_levels then rounded
                  else
                    let sig = map (\<lambda>r. (r, length (filter (\<lambda>v. \<bar>v - r\<bar> \<le> tol) levels))) rounded;
                        sig_sorted = sort_key (\<lambda>(r, c). (- int c, r)) sig;
                        top = map fst (take max_levels sig_sorted)
                    in sort top)"

text \<open>
  \<^verbatim>\<open>Series.nlargest(n).unique()\<close> and \<^verbatim>\<open>Series.nsmallest(n).unique()\<close>:
  \<open>unique\<close> keeps the first occurrence of each value.
\<close>

fun unique :: "'a list \<Rightarrow> 'a list" where
  "unique [] = []"
| "unique (x # xs) = x # unique (filter (\<lambda>y. y \<noteq> x) xs)"

definition nlargest :: "nat \<Rightarrow> real list \<Rightarrow> real list" where
  "nlargest n xs = take n (rev (sort xs))"

definition nsmallest :: "nat \<Rightarrow> real list \<Rightarrow> real list" where
  "nsmallest n xs = take n (sort xs)"

text \<open>
  \<^verbatim>\<open>compute_zones_from_tf(symbol, tf, lookback_bars, days_limit)\<close>.  \<open>fetch\<close> is
  \<^verbatim>\<open>data.fetch_rates\<close>, which raises or returns a frame; \<open>now\<close> is the clock read by
  \<^verbatim>\<open>_filter_last_days\<close>, in seconds, as \<open>bar_time\<close> is.
\<close>

definition filter_last_days :: "int \<Rightarrow> bar list \<Rightarrow> int \<Rightarrow> bar list" where
  "filter_last_days now df days = filter (\<lambda>b. bar_time b \<ge> now - days * 86400) df"

definition compute_zones_from_tf ::
  "(string \<Rightarrow> string \<Rightarrow> nat \<Rightarrow> error + bar list) \<Rightarrow> int \<Rightarrow> string \<Rightarrow> string \<Rightarrow> nat \<Rightarrow> int option
     \<Rightarrow> real list" where
  "compute_zones_from_tf fetch now symbol tf lookback_bars days_limit =
     (let df0 = (case fetch symbol tf lookback_bars of Inl e \<Rightarrow> [] | Inr d \<Rightarrow> d)
      in if df0 = [] then []
         else
           let df = (case days_limit of
                       None \<Rightarrow> df0
                     | Some days \<Rightarrow> if days = 0 then df0 else filter_last_days now df0 days)
           in if df = [] then []
              else if length df < 5 then []
              else
                let highs = map bar_high df;
                    lows = map bar_low df;
                    highs_idx = fst (local_extrema highs 3);
                    lows_idx = snd (local_extrema lows 3);
                    levels = filter isfinite (map (\<lambda>i. highs ! i) highs_idx)
                             @ filter isfinite (map (\<lambda>i. lows ! i) lows_idx)
                             @ filter isfinite (unique (nlargest 12 highs) @ unique (nsmallest 12 lows));
                    pip = symbol_pip symbol;
                    clustered = cluster_levels levels pip 8 60
                in sort clustered)"

text \<open>
  \<^verbatim>\<open>compute_zones_for_symbol(symbol, tfs, lookback_bars, keep_top)\<close>, the
  multi-timeframe variant.  \<open>keep_top\<close> is a natural number (the default is 12).
\<close>

definition compute_zones_for_symbol ::
  "(string \<Rightarrow> string \<Rightarrow> nat \<Rightarrow> error + bar list) \<Rightarrow> int \<Rightarrow> string \<Rightarrow> string list option \<Rightarrow> nat \<Rightarrow> nat
     \<Rightarrow> real list" where
  "compute_zones_for_symbol fetch now symbol tfs_opt lookback_bars keep_top =
     (let tfs = (case tfs_opt of None \<Rightarrow> [''D1'', ''H4''] | Some t \<Rightarrow> t);
          all_levels = concat (map (\<lambda>tf. compute_zones_from_tf fetch now symbol tf lookback_bars None) tfs);
          pip = symbol_pip symbol;
          merged = cluster_levels all_levels pip 8 (keep_top * 3)
      in if merged = [] then []
         else
           let tol = pip * 8;
               significance = map (\<lambda>m. (m, length (filter (\<lambda>v. \<bar>v - m\<bar> \<le> tol) all_levels))) merged;
               significance_sorted = sort_key (\<lambda>(m, c). (- int c, - m)) significance;
               top = map (\<lambda>(m, c). py_round m 6) (take keep_top significance_sorted);
               merged_sorted = rev (sort top)
           in merged_sorted)"

section \<open>The venue\<close>

text \<open>
  The MetaTrader5 package is outside the repository.  Its answers are parameters: the
  \<open>n\<close>-th call of \<^verbatim>\<open>symbol_info_tick\<close> and the \<open>n\<close>-th call of \<^verbatim>\<open>order_send\<close>
  made by the engine get the \<open>n\<close>-th answer of the venue, whatever it is, so a property
  proved for every venue holds for every behaviour of the broker.  A call of
  \<^verbatim>\<open>order_send\<close> raises, returns \<open>None\<close> or returns a result.  The constants that
  the source looks up with \<^verbatim>\<open>hasattr\<close> are optional.
\<close>

datatype order_type = ORDER_TYPE_BUY | ORDER_TYPE_SELL

datatype position_type = POSITION_TYPE_BUY | POSITION_TYPE_SELL

record tick =
  bid :: real
  ask :: real

record order_result =
  res_retcode :: int
  res_comment :: string
  res_deal :: int
  res_order :: int

datatype send_outcome = Raises | Returns "order_result option"

record mt5 =
  mt5_symbol_info :: "string \<Rightarrow> symbol_info option"
  mt5_symbol_info_tick :: "nat \<Rightarrow> tick option"
  mt5_order_send :: "nat \<Rightarrow> send_outcome"
  TRADE_RETCODE_DONE :: "int option"
  ORDER_FILLING_IOC :: "int option"
  ORDER_FILLING_FOK :: "int option"
  ORDER_FILLING_RETURN :: "int option"

text \<open>
  The request dictionaries: a market order built from a plan (symbol, volume, type,
  price, sl, tp, comment, type\_filling), the opposite market order of a partial close
  (symbol, volume, type, price) and a stop/target modification (position, sl, tp).
  The constant entries (deviation, magic, type\_time) and the formatted comment of the
  partial close are left out.
\<close>

datatype request =
    DealRequest string real order_type real real real string "int option"
  | CloseRequest string real order_type real
  | SltpRequest int real "real option"

text \<open>The place in the source a request is sent from.\<close>

datatype site = Entry | Fallback | Breakeven | PartialTP | Trailing

section \<open>trade.py: plans and module state\<close>

record TradePlan =
  plan_symbol :: string
  plan_direction :: string
  plan_entry_price :: real
  plan_sl :: real
  plan_tp :: real
  plan_lots :: real
  plan_tf_entry :: string
  plan_score :: real
  plan_comment :: string

text \<open>
  The string \<^verbatim>\<open>f"{plan.symbol}|{plan.direction}|{round(plan.entry_price, 5)}"\<close> is
  determined by its three parts, which stand for it.
\<close>

type_synonym signature = "string \<times> string \<times> real"

text \<open>
  Two lines of the log are kept as events: the \<^verbatim>\<open>OPEN | ...\<close> notification that
  \<^verbatim>\<open>place_trade\<close> sends when it is entered, and the \<^verbatim>\<open>PLAN_SKIP | symbol | reason\<close>
  line of \<^verbatim>\<open>execute_plan\<close>.  All other logging and notification calls are left out:
  their failures are caught and they do not influence the control flow.
\<close>

datatype event = OPEN TradePlan | PLAN_SKIP string string

text \<open>
  The module-level state of \<^verbatim>\<open>trade.py\<close>, \<^verbatim>\<open>executor.py\<close> and \<^verbatim>\<open>main.py\<close>,
  together with the record of what was sent to the venue, the number of tick queries
  made, the events and the journal rows appended.
\<close>

record state =
  sent :: "(site \<times> request) list"
  ticks_asked :: nat
  events :: "event list"
  journal :: "(TradePlan \<times> int) list"
  breakeven_set_tickets :: "int set"
  partial_closed_tickets :: "int set"
  bars_seen :: "string \<rightharpoonup> int"
  started :: "string \<rightharpoonup> bool"
  last_signal :: "string \<rightharpoonup> bool"
  last_open_time :: "string \<rightharpoonup> real"
  journal_logged_signature :: "string \<rightharpoonup> signature"
  last_plan_signature :: "string \<rightharpoonup> signature"

definition initial_state :: state where
  "initial_state =
     \<lparr>sent = [], ticks_asked = 0, events = [], journal = [],
      breakeven_set_tickets = {}, partial_closed_tickets = {},
      bars_seen = Map.empty, started = Map.empty, last_signal = Map.empty,
      last_open_time = Map.empty, journal_logged_signature = Map.empty,
      last_plan_signature = Map.empty\<rparr>"

definition symbol_info_tick :: "mt5 \<Rightarrow> state \<Rightarrow> tick option \<times> state" where
  "symbol_info_tick v st =
     (mt5_symbol_info_tick v (ticks_asked st), st\<lparr>ticks_asked := Suc (ticks_asked st)\<rparr>)"

definition order_send :: "mt5 \<Rightarrow> site \<Rightarrow> request \<Rightarrow> state \<Rightarrow> send_outcome \<times> state" where
  "order_send v origin req st =
     (mt5_order_send v (length (sent st)), st\<lparr>sent := sent st @ [(origin, req)]\<rparr>)"

section \<open>trade.py: place\_trade\<close>

text \<open>\<^verbatim>\<open>_round_volume_to_step(vol, vol_min, vol_max, vol_step)\<close>.\<close>

definition round_volume_to_step :: "real \<Rightarrow> real \<Rightarrow> real \<Rightarrow> real \<Rightarrow> real" where
  "round_volume_to_step vol vol_min vol_max vol_step =
     (if vol_step \<le> 0 then max (min vol vol_max) vol_min
      else
        let vol1 = max vol_min (min vol vol_max);
            steps = \<lfloor>(vol1 - vol_min) / vol_step\<rfloor>;
            vol_adj0 = vol_min + of_int steps * vol_step;
            vol_adj = (if vol_adj0 < vol_min then vol_min else vol_adj0);
            prec = (if vol_step < 1 then max 0 (- \<lfloor>log 10 vol_step\<rfloor>) else 0)
        in py_round vol_adj (nat (prec + 2)))"

text \<open>\<^verbatim>\<open>_extract_ticket_from_result(res)\<close>: \<^verbatim>\<open>int(deal or order or 0)\<close>.\<close>

definition extract_ticket_from_result :: "order_result \<Rightarrow> int" where
  "extract_ticket_from_result res = (if res_deal res \<noteq> 0 then res_deal res else res_order res)"

definition is_long :: "string \<Rightarrow> bool" where
  "is_long d \<longleftrightarrow> lower d \<in> {''long'', ''buy'', ''bull''}"

text \<open>
  \<^verbatim>\<open>build_order_request(plan, volume_override, type_filling)\<close> asks for a tick and
  raises when there is none.
\<close>

definition build_order_request ::
  "mt5 \<Rightarrow> TradePlan \<Rightarrow> real option \<Rightarrow> int option \<Rightarrow> state \<Rightarrow> (error + request) \<times> state" where
  "build_order_request v plan volume_override type_filling st =
     (case symbol_info_tick v st of
        (None, st1) \<Rightarrow> (Inl RuntimeError, st1)
      | (Some t, st1) \<Rightarrow>
          let price = (if is_long (plan_direction plan) then ask t else bid t);
              otype = (if is_long (plan_direction plan) then ORDER_TYPE_BUY else ORDER_TYPE_SELL);
              vol = (case volume_override of Some vo \<Rightarrow> vo | None \<Rightarrow> plan_lots plan)
          in (Inr (DealRequest (plan_symbol plan) vol otype price (plan_sl plan) (plan_tp plan)
                     (take 255 (plan_comment plan)) type_filling), st1))"

text \<open>The local function \<^verbatim>\<open>_is_success(r)\<close> and the test for an unsupported filling mode.\<close>

definition is_success :: "mt5 \<Rightarrow> order_result option \<Rightarrow> bool" where
  "is_success v r =
     (case r of
        None \<Rightarrow> False
      | Some res \<Rightarrow>
          res_retcode res = 0
          \<or> (case TRADE_RETCODE_DONE v of Some d \<Rightarrow> res_retcode res = d | None \<Rightarrow> False)
          \<or> res_retcode res = 10009)"

definition unsupported_filling :: "order_result \<Rightarrow> bool" where
  "unsupported_filling res \<longleftrightarrow>
     res_retcode res = 10030
     \<or> contains (lower (res_comment res)) ''unsupported filling''
     \<or> contains (lower (res_comment res)) ''filling''"

definition returned :: "send_outcome \<Rightarrow> order_result option" where
  "returned out = (case out of Raises \<Rightarrow> None | Returns r \<Rightarrow> r)"

definition filling_candidates :: "mt5 \<Rightarrow> int list" where
  "filling_candidates v =
     unique (List.map_filter (\<lambda>x. x) [ORDER_FILLING_IOC v, ORDER_FILLING_FOK v, ORDER_FILLING_RETURN v])"

text \<open>
  The loop over the fallback filling modes.  A failure to build the request is caught
  inside the loop body and the next mode is tried; so is a call that raises or returns
  \<open>None\<close>.  A rejection that is not about the filling mode ends the attempt.
\<close>

fun fallback_fillings :: "mt5 \<Rightarrow> TradePlan \<Rightarrow> real \<Rightarrow> int list \<Rightarrow> state \<Rightarrow> int option \<times> state" where
  "fallback_fillings v plan vol_ok [] st = (None, st)"
| "fallback_fillings v plan vol_ok (fm # fms) st =
     (case build_order_request v plan (Some vol_ok) (Some fm) st of
        (Inl e, st1) \<Rightarrow> fallback_fillings v plan vol_ok fms st1
      | (Inr req_f, st1) \<Rightarrow>
          (case order_send v Fallback req_f st1 of
             (out, st2) \<Rightarrow>
               let r2 = returned out
               in if is_success v r2
                  then (map_option extract_ticket_from_result r2, st2)
                  else (case r2 of
                          None \<Rightarrow> fallback_fillings v plan vol_ok fms st2
                        | Some res2 \<Rightarrow>
                            if unsupported_filling res2
                            then fallback_fillings v plan vol_ok fms st2
                            else (None, st2))))"

text \<open>The volume \<^verbatim>\<open>vol_ok\<close> that \<^verbatim>\<open>place_trade\<close> derives from the symbol's constraints.\<close>

definition adjusted_volume :: "TradePlan \<Rightarrow> symbol_info \<Rightarrow> real" where
  "adjusted_volume plan si =
     round_volume_to_step (plan_lots plan)
       (py_or (getattr (volume_min si) (1 / 100)) (1 / 100))
       (py_or (getattr (volume_max si) (max (plan_lots plan) 100)) (max (plan_lots plan) 100))
       (py_or (getattr (volume_step si) (1 / 100)) (1 / 100))"

text \<open>
  \<^verbatim>\<open>place_trade(plan)\<close>: the ticket, or \<open>None\<close>.  Every exception is caught inside
  the function.
\<close>

definition place_trade :: "config \<Rightarrow> mt5 \<Rightarrow> TradePlan \<Rightarrow> state \<Rightarrow> int option \<times> state" where
  "place_trade cfg v plan st0 =
     (let st = st0\<lparr>events := events st0 @ [OPEN plan]\<rparr>
      in if NOTIFY_ONLY cfg \<or> \<not> TRADE_ENABLED cfg then (None, st)
         else if plan_lots plan > FAT_FINGER_MAX_LOTS cfg then (None, st)
         else
           (case symbol_info_tick v st of
              (t, st1) \<Rightarrow>
                (case mt5_symbol_info v (plan_symbol plan) of
                   None \<Rightarrow> (None, st1)
                 | Some si \<Rightarrow>
                     if \<not> getattr (trade_allowed si) True then (None, st1)
                     else
                       let vol_min = py_or (getattr (volume_min si) (1 / 100)) (1 / 100);
                           vol_max = py_or (getattr (volume_max si) (max (plan_lots plan) 100))
                                       (max (plan_lots plan) 100);
                           vol_ok = adjusted_volume plan si
                       in if vol_ok < vol_min \<or> vol_ok > vol_max then (None, st1)
                          else
                            (case build_order_request v plan (Some vol_ok) None st1 of
                               (Inl e, st2) \<Rightarrow> (None, st2)
                             | (Inr req, st2) \<Rightarrow>
                                 (case order_send v Entry req st2 of
                                    (out, st3) \<Rightarrow>
                                      let res = returned out
                                      in if is_success v res
                                         then (map_option extract_ticket_from_result res, st3)
                                         else
                                           (case res of
                                              Some r \<Rightarrow>
                                                if unsupported_filling r
                                                then fallback_fillings v plan vol_ok
                                                       (filling_candidates v) st3
                                                else (None, st3)
                                            | None \<Rightarrow>
                                                fallback_fillings v plan vol_ok
                                                  (filling_candidates v) st3))))))"

section \<open>trade.py: manage\_open\_positions\<close>

text \<open>
  An open position as \<^verbatim>\<open>mt5.positions_get()\<close> returns it.  A stop or target of
  zero means that none is set: the source reads \<^verbatim>\<open>float(p.sl) if p.sl else None\<close>.
\<close>

record position =
  pos_ticket :: int
  pos_symbol :: string
  pos_type :: position_type
  pos_price_open :: real
  pos_sl :: real
  pos_tp :: real
  pos_volume :: real

definition nonzero :: "real \<Rightarrow> real option" where
  "nonzero x = (if x \<noteq> 0 then Some x else None)"

text \<open>\<^verbatim>\<open>sl or d\<close> for an optional stop: \<open>None\<close> and zero are falsy.\<close>

definition opt_or :: "real option \<Rightarrow> real \<Rightarrow> real" where
  "opt_or x d = (case x of None \<Rightarrow> d | Some y \<Rightarrow> if y = 0 then d else y)"

text \<open>
  The break-even block.  The ticket is added to \<^verbatim>\<open>_breakeven_set_tickets\<close> after
  \<^verbatim>\<open>order_send\<close> has returned, whatever it returned; when the call raises, the
  exception handler of the block is entered and the ticket is not added.
\<close>

definition breakeven_send :: "mt5 \<Rightarrow> position \<Rightarrow> real \<Rightarrow> real option \<Rightarrow> state \<Rightarrow> state" where
  "breakeven_send v p entry tp_opt st =
     (case order_send v Breakeven (SltpRequest (pos_ticket p) entry tp_opt) st of
        (Raises, st1) \<Rightarrow> st1
      | (Returns r, st1) \<Rightarrow>
          st1\<lparr>breakeven_set_tickets := insert (pos_ticket p) (breakeven_set_tickets st1)\<rparr>)"

definition breakeven_step ::
  "config \<Rightarrow> mt5 \<Rightarrow> bool \<Rightarrow> position \<Rightarrow> real \<Rightarrow> real option \<Rightarrow> real option \<Rightarrow> real \<Rightarrow> real
     \<Rightarrow> state \<Rightarrow> state" where
  "breakeven_step cfg v use_trailing p entry sl_opt tp_opt risk rr st =
     (if USE_TRAILING cfg \<and> use_trailing \<and> risk > 0 \<and> rr \<ge> BREAKEVEN_RR cfg
      then
        if pos_ticket p \<notin> breakeven_set_tickets st
        then
          if pos_type p = POSITION_TYPE_BUY
          then
            if (case sl_opt of None \<Rightarrow> True | Some s \<Rightarrow> s < entry - 1 / 10 ^ 9)
            then breakeven_send v p entry tp_opt st else st
          else
            if (case sl_opt of None \<Rightarrow> True | Some s \<Rightarrow> s > entry + 1 / 10 ^ 9)
            then breakeven_send v p entry tp_opt st else st
        else st
      else st)"

text \<open>The partial take-profit block.\<close>

definition partial_tp_step ::
  "config \<Rightarrow> mt5 \<Rightarrow> position \<Rightarrow> tick \<Rightarrow> real \<Rightarrow> real \<Rightarrow> real \<Rightarrow> state \<Rightarrow> state" where
  "partial_tp_step cfg v p t vol risk rr st =
     (if PARTIAL_TP_ENABLED cfg \<and> risk > 0 \<and> rr \<ge> PARTIAL_TP_RR cfg
      then
        if pos_ticket p \<notin> partial_closed_tickets st
        then
          let si = mt5_symbol_info v (pos_symbol p);
              vol_min = py_or (case si of None \<Rightarrow> PARTIAL_TP_MIN_LOT cfg
                               | Some i \<Rightarrow> getattr (volume_min i) (PARTIAL_TP_MIN_LOT cfg))
                          (PARTIAL_TP_MIN_LOT cfg);
              vol_step = py_or (case si of None \<Rightarrow> 1 / 100
                                | Some i \<Rightarrow> getattr (volume_step i) (1 / 100)) (1 / 100);
              percent = max 0 (min 100 (PARTIAL_TP_PERCENT cfg));
              desired_close_vol = vol * (percent / 100);
              partial_vol = round_volume_to_step desired_close_vol vol_min vol vol_step
          in if partial_vol \<ge> vol_min \<and> partial_vol < vol - 1 / 10 ^ 9
             then
               let otype = (if pos_type p = POSITION_TYPE_BUY then ORDER_TYPE_SELL else ORDER_TYPE_BUY);
                   price_close = (if otype = ORDER_TYPE_SELL then bid t else ask t)
               in (case order_send v PartialTP
                          (CloseRequest (pos_symbol p) partial_vol otype price_close) st of
                     (Raises, st1) \<Rightarrow> st1
                   | (Returns r, st1) \<Rightarrow>
                       if is_success v r
                       then st1\<lparr>partial_closed_tickets :=
                                  insert (pos_ticket p) (partial_closed_tickets st1)\<rparr>
                       else st1)
             else st
        else st
      else st)"

text \<open>
  The trailing block.  The stop compared with and the stop improved on is the one read
  from the position at the start of its processing.
\<close>

definition trailing_send ::
  "mt5 \<Rightarrow> position \<Rightarrow> real option \<Rightarrow> real option \<Rightarrow> real \<Rightarrow> state \<Rightarrow> send_outcome option \<times> state" where
  "trailing_send v p sl_opt tp_opt new_sl st =
     (if (case sl_opt of None \<Rightarrow> True | Some s \<Rightarrow> \<bar>new_sl - s\<bar> > 1 / 10 ^ 8)
      then (case order_send v Trailing (SltpRequest (pos_ticket p) new_sl tp_opt) st of
              (out, st1) \<Rightarrow> (Some out, st1))
      else (None, st))"

definition trailing_step ::
  "config \<Rightarrow> mt5 \<Rightarrow> bool \<Rightarrow> real \<Rightarrow> position \<Rightarrow> real \<Rightarrow> real \<Rightarrow> real option \<Rightarrow> real option \<Rightarrow> real
     \<Rightarrow> state \<Rightarrow> state" where
  "trailing_step cfg v use_trailing trailing_r_mult p price entry sl_opt tp_opt risk st =
     (if use_trailing \<and> risk > 0 \<and> USE_TRAILING cfg
      then
        (case (if pos_type p = POSITION_TYPE_BUY \<and> price - entry \<ge> trailing_r_mult * risk
               then trailing_send v p sl_opt tp_opt
                      (max (opt_or sl_opt (- (10 ^ 9))) (price - trailing_r_mult * risk)) st
               else (None, st)) of
           (Some Raises, st1) \<Rightarrow> st1
         | (r, st1) \<Rightarrow>
             if pos_type p = POSITION_TYPE_SELL \<and> entry - price \<ge> trailing_r_mult * risk
             then snd (trailing_send v p sl_opt tp_opt
                         (min (opt_or sl_opt (10 ^ 9)) (price + trailing_r_mult * risk)) st1)
             else st1)
      else st)"

text \<open>The body of the loop over the open positions, and the loop.\<close>

definition manage_position :: "config \<Rightarrow> mt5 \<Rightarrow> bool \<Rightarrow> real \<Rightarrow> position \<Rightarrow> state \<Rightarrow> state" where
  "manage_position cfg v use_trailing trailing_r_mult p st =
     (case symbol_info_tick v st of
        (None, st1) \<Rightarrow> st1
      | (Some t, st1) \<Rightarrow>
          let price = (if pos_type p = POSITION_TYPE_SELL then bid t else ask t);
              entry = pos_price_open p;
              sl_opt = nonzero (pos_sl p);
              tp_opt = nonzero (pos_tp p);
              vol = pos_volume p;
              risk = (case sl_opt of None \<Rightarrow> 0 | Some s \<Rightarrow> \<bar>entry - s\<bar>);
              rr = (if risk > 0
                    then if pos_type p = POSITION_TYPE_BUY
                         then (price - entry) / risk else (entry - price) / risk
                    else 0);
              st2 = breakeven_step cfg v use_trailing p entry sl_opt tp_opt risk rr st1;
              st3 = partial_tp_step cfg v p t vol risk rr st2
          in trailing_step cfg v use_trailing trailing_r_mult p price entry sl_opt tp_opt risk st3)"

fun manage_open_positions ::
  "config \<Rightarrow> mt5 \<Rightarrow> bool \<Rightarrow> real \<Rightarrow> position list \<Rightarrow> state \<Rightarrow> state" where
  "manage_open_positions cfg v use_trailing trailing_r_mult [] st = st"
| "manage_open_positions cfg v use_trailing trailing_r_mult (p # ps) st =
     manage_open_positions cfg v use_trailing trailing_r_mult ps
       (manage_position cfg v use_trailing trailing_r_mult p st)"

text \<open>
  A run of the engine's position management: one call per cycle, each with the list of
  positions that the venue reports in that cycle.
\<close>

fun manage_cycles :: "config \<Rightarrow> mt5 \<Rightarrow> bool \<Rightarrow> real \<Rightarrow> position list list \<Rightarrow> state \<Rightarrow> state" where
  "manage_cycles cfg v use_trailing trailing_r_mult [] st = st"
| "manage_cycles cfg v use_trailing trailing_r_mult (ps # cycles) st =
     manage_cycles cfg v use_trailing trailing_r_mult cycles
       (manage_open_positions cfg v use_trailing trailing_r_mult ps st)"

text \<open>The break-even modifications for a ticket that have been sent so far.\<close>

definition breakeven_modifications :: "int \<Rightarrow> state \<Rightarrow> (site \<times> request) list" where
  "breakeven_modifications t st =
     filter (\<lambda>(origin, req). origin = Breakeven
               \<and> (case req of SltpRequest pos new_sl new_tp \<Rightarrow> pos = t | _ \<Rightarrow> False)) (sent st)"

section \<open>executor.py\<close>

definition tick_symbol :: "config \<Rightarrow> string \<Rightarrow> state \<Rightarrow> state" where
  "tick_symbol cfg s st =
     (let c = (case bars_seen st s of None \<Rightarrow> 0 | Some n \<Rightarrow> n) + 1;
          st1 = st\<lparr>bars_seen := (bars_seen st)(s \<mapsto> c)\<rparr>
      in if c > STARTUP_PROTECTION_CYCLES cfg
         then st1\<lparr>started := (started st1)(s \<mapsto> True)\<rparr>
         else st1)"

definition clear_signal :: "string \<Rightarrow> state \<Rightarrow> state" where
  "clear_signal s st = st\<lparr>last_signal := (last_signal st)(s \<mapsto> False)\<rparr>"

definition plan_signature :: "TradePlan \<Rightarrow> signature" where
  "plan_signature plan =
     (plan_symbol plan, plan_direction plan, py_round (plan_entry_price plan) 5)"

text \<open>
  What the collaborators answer during one call of \<^verbatim>\<open>execute_plan\<close>: the comment
  file, the number of open positions of the symbol (or an exception, which
  \<^verbatim>\<open>_has_open_trade\<close> catches), and the clock, read for the cool-down test and again
  when an opening is recorded.
\<close>

record exec_env =
  loaded_comment :: "error + string"
  open_positions :: "error + nat"
  clock :: real
  clock_opened :: real

text \<open>Python's truth value of a returned ticket: \<open>None\<close> and 0 are falsy.\<close>

definition truthy :: "int option \<Rightarrow> bool" where
  "truthy t = (case t of None \<Rightarrow> False | Some n \<Rightarrow> n \<noteq> 0)"

definition has_open_trade :: "config \<Rightarrow> exec_env \<Rightarrow> bool" where
  "has_open_trade cfg env =
     (case open_positions env of
        Inl e \<Rightarrow> False
      | Inr n \<Rightarrow> int n \<ge> MAX_POSITIONS_PER_SYMBOL cfg)"

definition can_open_now :: "config \<Rightarrow> exec_env \<Rightarrow> state \<Rightarrow> string \<Rightarrow> bool" where
  "can_open_now cfg env st s \<longleftrightarrow>
     clock env - (case last_open_time st s of None \<Rightarrow> 0 | Some t \<Rightarrow> t)
       \<ge> of_int (COOLDOWN_SECONDS cfg)"

text \<open>
  \<^verbatim>\<open>execute_plan(plan)\<close>.  A \<^verbatim>\<open>TradePlan\<close> always has a symbol, so the early
  return for a plan without one is not modelled; \<^verbatim>\<open>sig_present\<close> is the constant
  \<open>True\<close>, so the reason \<^verbatim>\<open>no_signal\<close> cannot arise.
\<close>

definition execute_plan ::
  "config \<Rightarrow> mt5 \<Rightarrow> exec_env \<Rightarrow> TradePlan \<Rightarrow> state \<Rightarrow> int option \<times> state" where
  "execute_plan cfg v env plan0 st =
     (let s = plan_symbol plan0;
          plan = (case loaded_comment env of
                    Inr c \<Rightarrow> if c \<noteq> [] then plan0\<lparr>plan_comment := c\<rparr> else plan0
                  | Inl e \<Rightarrow> plan0);
          is_started = (case started st s of None \<Rightarrow> False | Some b \<Rightarrow> b);
          prev_sig = (case last_signal st s of None \<Rightarrow> False | Some b \<Rightarrow> b);
          reason_no_open =
            (if \<not> is_started then Some ''startup_protection''
             else if prev_sig then Some ''no_rising_edge''
             else if has_open_trade cfg env then Some ''existing_position''
             else if \<not> can_open_now cfg env st s then Some ''cooldown''
             else None)
      in case (case reason_no_open of
                 None \<Rightarrow>
                   (case place_trade cfg v plan st of
                      (ticket, st1) \<Rightarrow>
                        (ticket,
                         if truthy ticket
                         then st1\<lparr>last_open_time := (last_open_time st1)(s \<mapsto> clock_opened env)\<rparr>
                         else st1))
               | Some reason \<Rightarrow> (None, st\<lparr>events := events st @ [PLAN_SKIP s reason]\<rparr>)) of
           (ticket, st2) \<Rightarrow>
             let sig = plan_signature plan;
                 should_write = (truthy ticket \<or> journal_logged_signature st2 s \<noteq> Some sig);
                 st3 = (if should_write
                        then st2\<lparr>journal := journal st2
                                    @ [(plan, case ticket of None \<Rightarrow> 0 | Some n \<Rightarrow> n)],
                                journal_logged_signature :=
                                  (journal_logged_signature st2)(s \<mapsto> sig)\<rparr>
                        else st2)
             in (ticket, st3\<lparr>last_signal := (last_signal st3)(s \<mapsto> True)\<rparr>))"

section \<open>main.py: the body of the loop over the symbols\<close>

text \<open>
  The outcome of \<^verbatim>\<open>build_plan\<close> for a symbol: it raises, returns \<open>None\<close> or returns
  a plan.  \<^verbatim>\<open>tick_symbol\<close> runs before it in the same \<^verbatim>\<open>try\<close> block, so its effect
  stays when \<^verbatim>\<open>build_plan\<close> raises.
\<close>

datatype build_result = BuildRaises | NoPlan | Plan TradePlan

definition symbol_cycle ::
  "config \<Rightarrow> mt5 \<Rightarrow> exec_env \<Rightarrow> string \<Rightarrow> build_result \<Rightarrow> state \<Rightarrow> state" where
  "symbol_cycle cfg v env s built st =
     (let st1 = tick_symbol cfg s st
      in case built of
           BuildRaises \<Rightarrow> st1
         | NoPlan \<Rightarrow> clear_signal s st1
         | Plan plan \<Rightarrow>
             let sig = plan_signature plan
             in if last_plan_signature st1 s = Some sig then st1
                else
                  (case execute_plan cfg v env plan st1 of
                     (ticket, st2) \<Rightarrow>
                       if truthy ticket
                       then st2\<lparr>last_plan_signature := (last_plan_signature st2)(s \<mapsto> sig)\<rparr>
                       else st2))"

text \<open>
  Vocabulary for the coordinator properties: the execution attempts made so far are
  the \<^verbatim>\<open>OPEN\<close> notifications, one for each call of \<^verbatim>\<open>place_trade\<close>.
\<close>

definition execution_attempts :: "state \<Rightarrow> event list" where
  "execution_attempts st = filter (\<lambda>e. case e of OPEN p \<Rightarrow> True | PLAN_SKIP s r \<Rightarrow> False) (events st)"

text \<open>
  The part of the state that the venue calls of \<^verbatim>\<open>place_trade\<close> do not touch:
  everything except the requests sent, the number of tick queries and the events.
\<close>

definition coordinator_view ::
  "state \<Rightarrow> (TradePlan \<times> int) list \<times> int set \<times> int set \<times> (string \<rightharpoonup> int) \<times> (string \<rightharpoonup> bool)
     \<times> (string \<rightharpoonup> bool) \<times> (string \<rightharpoonup> real) \<times> (string \<rightharpoonup> signature) \<times> (string \<rightharpoonup> signature)" where
  "coordinator_view st =
     (journal st, breakeven_set_tickets st, partial_closed_tickets st, bars_seen st, started st,
      last_signal st, last_open_time st, journal_logged_signature st, last_plan_signature st)"

text \<open>Vocabulary for the fallback property: the filling mode that a sent request asks for.\<close>

definition filling_of :: "site \<times> request \<Rightarrow> int option" where
  "filling_of e = (case snd e of DealRequest s vol ot pr sl' tp' c fm \<Rightarrow> fm
                   | CloseRequest s vol ot pr \<Rightarrow> None | SltpRequest t n tp' \<Rightarrow> None)"

text \<open>
  Vocabulary for the trailing property: a request moves the stop of position \<open>p\<close>, by
  more than \<open>1e-8\<close>, to a value that is at least as favourable as the stop the
  position has (not lower for a long position, not higher for a short one).
\<close>

definition tightens :: "position \<Rightarrow> request \<Rightarrow> bool" where
  "tightens p req =
     (case req of
        SltpRequest t new_sl new_tp \<Rightarrow>
          t = pos_ticket p \<and> pos_sl p \<noteq> 0 \<and> 0 < \<bar>pos_price_open p - pos_sl p\<bar>
          \<and> (if pos_type p = POSITION_TYPE_BUY then pos_sl p \<le> new_sl else new_sl \<le> pos_sl p)
          \<and> 1 / 10 ^ 8 < \<bar>new_sl - pos_sl p\<bar>
      | DealRequest s vol ot pr sl' tp' c fm \<Rightarrow> False
      | CloseRequest s vol ot pr \<Rightarrow> False)"

text \<open>
  Vocabulary for the clustering properties: adjacent elements of a list are more than
  \<open>tol\<close> apart, the second above the first.
\<close>

fun apart :: "real \<Rightarrow> real list \<Rightarrow> bool" where
  "apart tol (a # b # xs) = (tol < b - a \<and> apart tol (b # xs))"
| "apart tol xs = True"

section \<open>Properties of the rejection-wick test\<close>

text \<open>
  C9, as stated, at the default ratio \<open>0.4\<close>: a bullish bar with body \<open>0.1\<close>, lower wick
  \<open>0.2\<close> and no upper wick is accepted, although its lower wick is below
  \<open>1.5 / 0.4 = 3.75\<close> bodies.  The source divides by \<open>max(1.0, ratio)\<close>.
\<close>

theorem C9_rejection_wick_counterexample:
  "is_rejection_wick
     [\<lparr>bar_time = 0, bar_open = 1, bar_high = 11 / 10, bar_low = 8 / 10, bar_close = 11 / 10\<rparr>]
     ''bull'' (4 / 10)
   \<and> \<not> ((1.5 / (4 / 10)) * \<bar>11 / 10 - (1::real)\<bar> \<le> min (1::real) (11 / 10) - 8 / 10
          \<and> 11 / 10 - max (1::real) (11 / 10) \<le> \<bar>11 / 10 - (1::real)\<bar>)"
  by (simp add: is_rejection_wick_def Let_def)

text \<open>
  At a ratio of at least one the factor \<open>1.5 / max(1, ratio)\<close> is the \<open>1.5 / ratio\<close>
  of the specification.
\<close>

lemma is_rejection_wick_ratio_ge_1:
  assumes "df \<noteq> []" and "bar_low (last df) < bar_high (last df)" and "1 \<le> ratio"
  shows "is_rejection_wick df direction ratio \<longleftrightarrow>
           (let c = last df;
                body = \<bar>bar_close c - bar_open c\<bar>;
                upper = bar_high c - max (bar_open c) (bar_close c);
                lower = min (bar_open c) (bar_close c) - bar_low c;
                rejecting = (if direction = ''bull'' then lower else upper);
                other = (if direction = ''bull'' then upper else lower)
            in (1.5 / ratio) * body \<le> rejecting \<and> other \<le> body)"
  using assms by (auto simp: is_rejection_wick_def Let_def max_def mult.commute)

text \<open>
  C9, amended: on a series whose latest bar has a positive high-low range the test
  holds exactly when the rejection wick (the lower wick for \<open>"bull"\<close>, the upper wick
  for any other direction) is at least \<open>1.5 / max(1, ratio)\<close> bodies and the other
  wick is at most one body.
\<close>

theorem C9_rejection_wick_amended:
  assumes "df \<noteq> []" and "bar_low (last df) < bar_high (last df)"
  shows "is_rejection_wick df direction ratio \<longleftrightarrow>
           (let c = last df;
                body = \<bar>bar_close c - bar_open c\<bar>;
                upper = bar_high c - max (bar_open c) (bar_close c);
                lower = min (bar_open c) (bar_close c) - bar_low c;
                rejecting = (if direction = ''bull'' then lower else upper);
                other = (if direction = ''bull'' then upper else lower)
            in (1.5 / max 1 ratio) * body \<le> rejecting \<and> other \<le> body)"
  using assms by (auto simp: is_rejection_wick_def Let_def max_def mult.commute)

theorem C9_rejection_wick_amended_witness:
  "[\<lparr>bar_time = 0, bar_open = 1, bar_high = 11 / 10, bar_low = 8 / 10, bar_close = 11 / 10\<rparr>] \<noteq> []
   \<and> (8 / 10 :: real) < 11 / 10
   \<and> is_rejection_wick
     [\<lparr>bar_time = 0, bar_open = 1, bar_high = 11 / 10, bar_low = 8 / 10, bar_close = 11 / 10\<rparr>]
     ''bull'' (4 / 10)"
  using C9_rejection_wick_amended
    [of "[\<lparr>bar_time = 0, bar_open = 1, bar_high = 11 / 10, bar_low = 8 / 10, bar_close = 11 / 10\<rparr>]"
        "''bull''" "4 / 10"]
  by (simp add: Let_def)

section \<open>Properties of the position sizer\<close>

lemma round_half_even_of_int: "round_half_even (of_int n) = n"
  by (simp add: round_half_even_def)

lemma py_round_grid: "py_round (of_int n / 10 ^ k) k = of_int n / 10 ^ k"
  by (simp add: py_round_def round_half_even_of_int)

lemma step_decimals_pow10: "step_decimals (1 / 10 ^ k) = k"
proof -
  have "log 10 (1 / 10 ^ k) = - real k"
    by (simp add: log_divide log_nat_power)
  then have "round_half_even (- log 10 (1 / 10 ^ k)) = int k"
    using round_half_even_of_int [of "int k"] by simp
  then show ?thesis by (simp add: step_decimals_def)
qed

text \<open>
  The sizing formula raises only through a zero contract size: the pip size, the tick
  value and the tick size it divides by are never zero.
\<close>

lemma raw_lots_returns:
  assumes "POSITION_MODE cfg = ''FIXED'' \<or> getattr (trade_contract_size info) 1 \<noteq> 0"
  shows "\<exists>lots. raw_lots cfg info symbol entry sl equity = Inr lots"
proof -
  have "pip_size symbol \<noteq> 0" by (simp add: pip_size_def)
  moreover have "0 < max (1 / 10 ^ 9) (\<bar>entry - sl\<bar> / pip_size symbol)"
    by (simp add: less_max_iff_disj)
  ultimately show ?thesis using assms
    by (auto simp: raw_lots_def Let_def py_or_def)
qed

text \<open>
  C4, as stated, on a symbol whose minimum volume (10 lots, step 1) is above the
  fat-finger ceiling of 5 lots: the clamp \<open>max(min_lot, min(max_lot, lots))\<close> lets the
  minimum win, and the result 10 is above \<open>min(volume_max, FAT_FINGER_MAX_LOTS) = 5\<close>.
\<close>

theorem C4_compute_lots_counterexample:
  "compute_lots default_config
     (Some \<lparr>trade_tick_value = Some 1, trade_tick_size = Some (1 / 100000),
            trade_contract_size = Some 100000, volume_step = Some 1,
            volume_min = Some 10, volume_max = Some 1000, trade_allowed = Some True\<rparr>)
     ''EURUSD'' (11 / 10) (1095 / 1000) 10000 = Inr 10
   \<and> \<not> ((10::real) \<le> min 1000 (FAT_FINGER_MAX_LOTS default_config))"
  using step_decimals_pow10 [of 0]
  by (simp add: compute_lots_def raw_lots_def default_config_def Let_def getattr_def py_or_def
      pip_size_def endswith_def startswith_def py_round_def round_half_even_def)

text \<open>
  C4, amended: when the step is a power of ten \<open>10 ^ - k\<close>, the minimum volume and the
  ceiling \<open>min(volume_max, FAT_FINGER_MAX_LOTS)\<close> are whole multiples \<open>a\<close> and \<open>b\<close> of
  the step with \<open>a \<le> b\<close>, and the contract size is not zero (or the mode is FIXED),
  \<open>compute_lots\<close> returns a volume, and that volume is a whole multiple of the step
  between the minimum and the ceiling.
\<close>

theorem C4_compute_lots_amended:
  assumes step: "py_or (getattr (volume_step info) (1 / 100)) (1 / 100) = 1 / 10 ^ k"
    and lo: "py_or (getattr (volume_min info) (1 / 100)) (1 / 100) = of_int a / 10 ^ k"
    and hi: "min (py_or (getattr (volume_max info) 100) 100) (FAT_FINGER_MAX_LOTS cfg)
               = of_int b / 10 ^ k"
    and le: "a \<le> b"
    and div: "POSITION_MODE cfg = ''FIXED'' \<or> getattr (trade_contract_size info) 1 \<noteq> 0"
  shows "\<exists>v n. compute_lots cfg (Some info) symbol entry sl equity = Inr v
           \<and> v = of_int n * (1 / 10 ^ k)
           \<and> of_int a / 10 ^ k \<le> v \<and> v \<le> of_int b / 10 ^ k"
proof -
  obtain lots where raw: "raw_lots cfg info symbol entry sl equity = Inr lots"
    using raw_lots_returns [OF div] by blast
  define m where "m = \<lfloor>max 0 lots / (1 / 10 ^ k)\<rfloor>"
  define n where "n = max a (min b m)"
  have clamp: "max (of_int a / 10 ^ k) (min (of_int b / 10 ^ k) (of_int m * (1 / 10 ^ k)))
        = (of_int n / 10 ^ k :: real)"
    by (simp add: n_def max_def min_def divide_le_cancel divide_right_mono)
  have res: "compute_lots cfg (Some info) symbol entry sl equity = Inr (of_int n / 10 ^ k)"
    using clamp
    by (simp add: compute_lots_def raw step lo hi Let_def m_def step_decimals_pow10 py_round_grid)
  have "a \<le> n" "n \<le> b" using le by (simp_all add: n_def)
  then have "(of_int a / 10 ^ k :: real) \<le> of_int n / 10 ^ k"
    "(of_int n / 10 ^ k :: real) \<le> of_int b / 10 ^ k"
    by (simp_all add: divide_right_mono)
  with res show ?thesis by auto
qed

theorem C4_compute_lots_amended_witness:
  "\<exists>v n. compute_lots default_config
       (Some \<lparr>trade_tick_value = Some 1, trade_tick_size = Some (1 / 100000),
              trade_contract_size = Some 100000, volume_step = Some (1 / 100),
              volume_min = Some (1 / 100), volume_max = Some 100, trade_allowed = Some True\<rparr>)
       ''EURUSD'' (11 / 10) (1095 / 1000) 10000 = Inr v
     \<and> v = of_int n * (1 / 10 ^ 2)
     \<and> of_int 1 / 10 ^ 2 \<le> v \<and> v \<le> of_int 500 / 10 ^ 2"
  using C4_compute_lots_amended
    [of "\<lparr>trade_tick_value = Some 1, trade_tick_size = Some (1 / 100000),
          trade_contract_size = Some 100000, volume_step = Some (1 / 100),
          volume_min = Some (1 / 100), volume_max = Some 100, trade_allowed = Some True\<rparr>"
        2 1 default_config 500 "''EURUSD''" "11 / 10" "1095 / 1000" 10000]
  by (simp add: default_config_def getattr_def py_or_def)

section \<open>Properties of the risk gate\<close>

text \<open>
  From a starting equity of at least \<open>1e-9\<close> the guarded ratio is the relative loss
  \<open>(equity_start - equity) / equity_start\<close> of the specification, so the gate denies from
  the threshold on (equality included) and allows strictly below it.
\<close>

lemma risk_gates_ok_relative_loss:
  assumes "case daily of
             Inr (cnt, daily_pnl) \<Rightarrow>
               \<not> (daily_pnl < 0 \<and> \<bar>daily_pnl\<bar> \<ge> balance * MAX_DAILY_LOSS_PCT cfg)
           | Inl e \<Rightarrow> True"
    and "case cons of Inr c \<Rightarrow> c < CONSECUTIVE_LOSS_LIMIT cfg | Inl e \<Rightarrow> True"
    and "1 / 10 ^ 9 \<le> equity_start"
  shows "risk_gates_ok cfg daily cons equity_start balance equity
           \<longleftrightarrow> (equity_start - equity) / equity_start < MAX_DRAWDOWN_PCT cfg"
  using assms
  by (auto simp: risk_gates_ok_def Let_def max_def split: sum.splits)

text \<open>
  C5, as stated, at a starting equity below the guard \<open>1e-9\<close> of the divisor: half of
  the starting equity is lost, which is above the threshold \<open>0.08\<close>, and the gate allows.
\<close>

theorem C5_drawdown_gate_counterexample:
  "risk_gates_ok default_config (Inr (0, 0)) (Inr 0) (1 / 10 ^ 10) 0 (5 / 10 ^ 11)
   \<and> ((1 / 10 ^ 10 - 5 / 10 ^ 11) / (1 / 10 ^ 10) :: real) \<ge> MAX_DRAWDOWN_PCT default_config"
  by (simp add: risk_gates_ok_def default_config_def Let_def)

text \<open>
  C5, amended: with the daily-loss and consecutive-loss gates not tripping, the gate
  denies exactly when \<open>(equity_start - equity) / max(1e-9, equity_start)\<close> is at least
  \<open>MAX_DRAWDOWN_PCT\<close>, equality included, and allows when it is strictly below.
\<close>

theorem C5_drawdown_gate_amended:
  assumes "case daily of
             Inr (cnt, daily_pnl) \<Rightarrow>
               \<not> (daily_pnl < 0 \<and> \<bar>daily_pnl\<bar> \<ge> balance * MAX_DAILY_LOSS_PCT cfg)
           | Inl e \<Rightarrow> True"
    and "case cons of Inr c \<Rightarrow> c < CONSECUTIVE_LOSS_LIMIT cfg | Inl e \<Rightarrow> True"
  shows "risk_gates_ok cfg daily cons equity_start balance equity
           \<longleftrightarrow> (equity_start - equity) / max (1 / 10 ^ 9) equity_start < MAX_DRAWDOWN_PCT cfg"
  using assms
  by (auto simp: risk_gates_ok_def Let_def split: sum.splits)

theorem C5_drawdown_gate_amended_witness:
  "\<not> risk_gates_ok default_config (Inr (0, 0)) (Inr 0) 10000 10000 9200
   \<and> risk_gates_ok default_config (Inr (0, 0)) (Inr 0) 10000 10000 9201"
  using
    C5_drawdown_gate_amended [where daily = "Inr (0, 0)" and cons = "Inr 0" and cfg = default_config
      and balance = 10000 and equity_start = 10000 and equity = 9200]
    C5_drawdown_gate_amended [where daily = "Inr (0, 0)" and cons = "Inr 0" and cfg = default_config
      and balance = 10000 and equity_start = 10000 and equity = 9201]
  by (simp add: default_config_def)

section \<open>Properties of the zone detector\<close>

text \<open>Rounded values lie on the decimal grid, and a value on a coarser grid is not moved.\<close>

lemma py_round_on_grid: "\<exists>n::int. py_round x k = of_int n / 10 ^ k"
  by (auto simp: py_round_def)

lemma py_round_finer:
  assumes "k \<le> j"
  shows "py_round (of_int n / 10 ^ k) j = of_int n / 10 ^ k"
proof -
  obtain d where j: "j = k + d" using assms le_Suc_ex by blast
  have "(of_int n / 10 ^ k :: real) = of_int (n * 10 ^ d) / 10 ^ j"
    by (simp add: j power_add)
  then show ?thesis using py_round_grid by metis
qed

lemma distinct_map_fst_tagged:
  assumes "distinct (map fst sg)"
  shows "distinct (map fst (take m (sort_key k sg)))"
proof -
  have "inj_on fst (set sg)" "distinct sg"
    using assms by (simp_all add: distinct_map)
  then have "distinct (map fst (sort_key k sg))"
    by (simp add: distinct_map)
  then show ?thesis by (simp add: take_map [symmetric])
qed

lemma set_top_subset:
  "set (map fst (take m (sort_key k (map (\<lambda>r. (r, g r)) rs)))) \<subseteq> set rs"
proof -
  have "set (take m (sort_key k (map (\<lambda>r. (r, g r)) rs))) \<subseteq> set (map (\<lambda>r. (r, g r)) rs)"
    using set_take_subset [of m "sort_key k (map (\<lambda>r. (r, g r)) rs)"] by simp
  then show ?thesis by auto
qed

lemma cluster_levels_cases:
  fixes levels pip mult max_levels
  defines "prec \<equiv> (if pip < 5 / 10000 then 6 else 4 :: nat)"
  obtains (empty) "cluster_levels levels pip mult max_levels = []"
  | (rounded) cl where
      "cluster_levels levels pip mult max_levels = sort (remdups (map (\<lambda>x. py_round x prec) cl))"
      "length (sort (remdups (map (\<lambda>x. py_round x prec) cl))) \<le> max_levels"
  | (trimmed) cl g k where
      "cluster_levels levels pip mult max_levels =
         sort (map fst (take max_levels (sort_key (k :: real \<times> nat \<Rightarrow> int \<times> real)
           (map (\<lambda>r. (r, g r :: nat)) (sort (remdups (map (\<lambda>x. py_round x prec) cl)))))))"
      "max_levels < length (sort (remdups (map (\<lambda>x. py_round x prec) cl)))"
proof (cases "levels = []")
  case True
  then show ?thesis using empty by (simp add: cluster_levels_def)
next
  case False
  show ?thesis
  proof (cases "sort (filter isfinite levels)")
    case Nil
    then show ?thesis using empty False by (simp add: cluster_levels_def)
  next
    case (Cons l0 rest)
    define cl where "cl = cluster_loop (max (1 / 10 ^ 8) (pip * mult)) [] [l0] rest"
    show ?thesis
    proof (cases "length (sort (remdups (map (\<lambda>x. py_round x prec) cl))) \<le> max_levels")
      case True
      have eq: "cluster_levels levels pip mult max_levels = sort (remdups (map (\<lambda>x. py_round x prec) cl))"
        using False Cons True by (simp add: cluster_levels_def Let_def cl_def prec_def)
      show ?thesis by (rule rounded [OF eq True])
    next
      case gt: False
      have eq: "cluster_levels levels pip mult max_levels =
         sort (map fst (take max_levels (sort_key (\<lambda>(r, c). (- int c, r))
           (map (\<lambda>r. (r, length (filter (\<lambda>v. \<bar>v - r\<bar> \<le> max (1 / 10 ^ 8) (pip * mult)) levels)))
              (sort (remdups (map (\<lambda>x. py_round x prec) cl)))))))"
        using False Cons gt by (simp add: cluster_levels_def Let_def cl_def prec_def)
      have lt: "max_levels < length (sort (remdups (map (\<lambda>x. py_round x prec) cl)))"
        using gt by simp
      show ?thesis by (rule trimmed [OF eq lt])
    qed
  qed
qed


lemma cluster_levels_set_grid:
  assumes "x \<in> set (cluster_levels levels pip mult max_levels)"
  shows "\<exists>n::int. x = of_int n / 10 ^ (if pip < 5 / 10000 then 6 else 4)"
proof -
  define prec :: nat where "prec = (if pip < 5 / 10000 then 6 else 4)"
  have grid: "\<exists>n::int. x = of_int n / 10 ^ prec"
    if "x \<in> set (sort (remdups (map (\<lambda>x. py_round x prec) cl)))" for cl
  proof -
    from that obtain y where "x = py_round y prec" by auto
    then show ?thesis using py_round_on_grid by simp
  qed
  have "\<exists>n::int. x = of_int n / 10 ^ prec"
  proof (cases levels pip mult max_levels rule: cluster_levels_cases)
    case empty
    then show ?thesis using assms by simp
  next
    case (rounded cl)
    then show ?thesis using assms grid [of cl] unfolding prec_def by simp
  next
    case (trimmed cl g k)
    have "x \<in> set (sort (remdups (map (\<lambda>x. py_round x prec) cl)))"
      using assms set_top_subset [of max_levels k g "sort (remdups (map (\<lambda>x. py_round x prec) cl))"]
      unfolding trimmed(1) prec_def by auto
    then show ?thesis by (rule grid)
  qed
  then show ?thesis by (simp only: prec_def)
qed

lemma cluster_levels_sorted: "sorted (cluster_levels levels pip mult max_levels)"
proof (cases levels pip mult max_levels rule: cluster_levels_cases)
  case empty
  then show ?thesis by simp
next
  case (rounded cl)
  show ?thesis unfolding rounded(1) by (rule sorted_sort)
next
  case (trimmed cl g k)
  show ?thesis unfolding trimmed(1) by (rule sorted_sort)
qed

lemma cluster_levels_distinct: "distinct (cluster_levels levels pip mult max_levels)"
proof (cases levels pip mult max_levels rule: cluster_levels_cases)
  case empty
  then show ?thesis by simp
next
  case (rounded cl)
  show ?thesis unfolding rounded(1) by simp
next
  case (trimmed cl g k)
  have "distinct (map fst (map (\<lambda>r. (r, g r))
     (sort (remdups (map (\<lambda>x. py_round x (if pip < 5 / 10000 then 6 else 4)) cl)))))"
    by (simp add: comp_def)
  then show ?thesis unfolding trimmed(1)
    by (simp only: distinct_sort distinct_map_fst_tagged)
qed

lemma cluster_levels_length:
  "length (cluster_levels levels pip mult max_levels) \<le> max_levels"
proof (cases levels pip mult max_levels rule: cluster_levels_cases)
  case empty
  then show ?thesis by simp
next
  case (rounded cl)
  show ?thesis unfolding rounded(1) using rounded(2) by simp
next
  case (trimmed cl g k)
  show ?thesis unfolding trimmed(1) by simp
qed

lemma cluster_levels_py_round_6:
  assumes "x \<in> set (cluster_levels levels pip mult max_levels)"
  shows "py_round x 6 = x"
proof -
  obtain n :: int where "x = of_int n / 10 ^ (if pip < 5 / 10000 then 6 else 4)"
    using cluster_levels_set_grid [OF assms] by blast
  then show ?thesis using py_round_finer [of "if pip < 5 / 10000 then 6 else 4" 6 n]
    by (simp split: if_splits)
qed

lemma cluster_levels_py_round_prec:
  assumes "x \<in> set (cluster_levels levels pip mult max_levels)"
  shows "py_round x (if pip < 5 / 10000 then 6 else 4) = x"
proof -
  obtain n :: int where "x = of_int n / 10 ^ (if pip < 5 / 10000 then 6 else 4)"
    using cluster_levels_set_grid [OF assms] by blast
  then show ?thesis using py_round_grid by metis
qed

lemma compute_zones_from_tf_sorted:
  "sorted (compute_zones_from_tf fetch now symbol tf lookback_bars days_limit)"
  by (simp add: compute_zones_from_tf_def Let_def)

lemma compute_zones_from_tf_distinct:
  "distinct (compute_zones_from_tf fetch now symbol tf lookback_bars days_limit)"
  by (simp add: compute_zones_from_tf_def Let_def cluster_levels_distinct)

lemma compute_zones_from_tf_insufficient:
  assumes "case fetch symbol tf lookback_bars of Inl e \<Rightarrow> True | Inr d \<Rightarrow> length d < 5"
  shows "compute_zones_from_tf fetch now symbol tf lookback_bars days_limit = []"
proof (cases "fetch symbol tf lookback_bars")
  case (Inl e)
  then show ?thesis by (simp add: compute_zones_from_tf_def)
next
  case (Inr d)
  then have short: "length d < 5" using assms by simp
  have "length (filter_last_days now d days) < 5" for days
    unfolding filter_last_days_def
    using short length_filter_le [of _ d] by (meson le_less_trans)
  then show ?thesis using Inr short
    by (simp add: compute_zones_from_tf_def Let_def split: option.splits)
qed

lemma top_round_is_fst:
  assumes "\<And>x. x \<in> set merged \<Longrightarrow> py_round x 6 = x"
  shows "map (\<lambda>(m, c). py_round m 6) (take kt (sort_key k (map (\<lambda>m. (m, g m)) merged)))
         = map fst (take kt (sort_key k (map (\<lambda>m. (m, g m)) merged)))"
proof (rule map_cong [OF refl])
  fix p assume "p \<in> set (take kt (sort_key k (map (\<lambda>m. (m, g m)) merged)))"
  then have "p \<in> set (map (\<lambda>m. (m, g m)) merged)"
    using set_take_subset [of kt "sort_key k (map (\<lambda>m. (m, g m)) merged)"] by auto
  then have "fst p \<in> set merged" by auto
  then show "(case p of (m, c) \<Rightarrow> py_round m 6) = fst p"
    using assms by (cases p) simp
qed

lemma compute_zones_for_symbol_cases:
  obtains (empty) "compute_zones_for_symbol fetch now symbol tfs lookback_bars keep_top = []"
  | (top) merged g and k :: "real \<times> nat \<Rightarrow> int \<times> real" where
      "compute_zones_for_symbol fetch now symbol tfs lookback_bars keep_top
         = rev (sort (map fst (take keep_top (sort_key k (map (\<lambda>m. (m, g m :: nat)) merged)))))"
      "distinct merged"
proof -
  define all_levels where "all_levels =
    concat (map (\<lambda>tf. compute_zones_from_tf fetch now symbol tf lookback_bars None)
      (case tfs of None \<Rightarrow> [''D1'', ''H4''] | Some t \<Rightarrow> t))"
  define merged where "merged = cluster_levels all_levels (symbol_pip symbol) 8 (keep_top * 3)"
  show ?thesis
  proof (cases "merged = []")
    case True
    then have "compute_zones_for_symbol fetch now symbol tfs lookback_bars keep_top = []"
      by (simp add: compute_zones_for_symbol_def Let_def merged_def all_levels_def)
    then show ?thesis by (rule empty)
  next
    case False
    have fix6: "\<And>x. x \<in> set merged \<Longrightarrow> py_round x 6 = x"
      unfolding merged_def by (rule cluster_levels_py_round_6)
    define sg where "sg = take keep_top (sort_key (\<lambda>(m, c). (- int c, - m))
             (map (\<lambda>m. (m, length (filter (\<lambda>v. \<bar>v - m\<bar> \<le> symbol_pip symbol * 8) all_levels))) merged))"
    have "compute_zones_for_symbol fetch now symbol tfs lookback_bars keep_top
         = rev (sort (map (\<lambda>(m, c). py_round m 6) sg))"
      using False
      by (simp add: compute_zones_for_symbol_def Let_def merged_def [symmetric]
          all_levels_def [symmetric] sg_def)
    also have "map (\<lambda>(m, c). py_round m 6) sg = map fst sg"
      unfolding sg_def by (rule top_round_is_fst) (rule fix6)
    finally have eq: "compute_zones_for_symbol fetch now symbol tfs lookback_bars keep_top
         = rev (sort (map fst (take keep_top (sort_key (\<lambda>(m, c). (- int c, - m))
             (map (\<lambda>m. (m, length (filter (\<lambda>v. \<bar>v - m\<bar> \<le> symbol_pip symbol * 8) all_levels))) merged)))))"
      by (simp only: sg_def)
    have "distinct merged" unfolding merged_def by (rule cluster_levels_distinct)
    with eq show ?thesis by (rule top)
  qed
qed

lemma compute_zones_for_symbol_descending:
  "sorted (rev (compute_zones_for_symbol fetch now symbol tfs lookback_bars keep_top))"
proof (cases fetch now symbol tfs lookback_bars keep_top rule: compute_zones_for_symbol_cases)
  case empty
  then show ?thesis by simp
next
  case (top merged g k)
  show ?thesis unfolding top(1) by simp
qed

lemma compute_zones_for_symbol_distinct:
  "distinct (compute_zones_for_symbol fetch now symbol tfs lookback_bars keep_top)"
proof (cases fetch now symbol tfs lookback_bars keep_top rule: compute_zones_for_symbol_cases)
  case empty
  then show ?thesis by simp
next
  case (top merged g k)
  have "distinct (map fst (map (\<lambda>m. (m, g m)) merged))"
    using top(2) by (simp add: comp_def)
  then show ?thesis unfolding top(1)
    by (simp only: distinct_rev distinct_sort distinct_map_fst_tagged)
qed

lemma compute_zones_for_symbol_insufficient:
  assumes "\<And>tf. tf \<in> set (case tfs of None \<Rightarrow> [''D1'', ''H4''] | Some t \<Rightarrow> t) \<Longrightarrow>
             (case fetch symbol tf lookback_bars of Inl e \<Rightarrow> True | Inr d \<Rightarrow> length d < 5)"
  shows "compute_zones_for_symbol fetch now symbol tfs lookback_bars keep_top = []"
proof -
  have "concat (map (\<lambda>tf. compute_zones_from_tf fetch now symbol tf lookback_bars None)
      (case tfs of None \<Rightarrow> [''D1'', ''H4''] | Some t \<Rightarrow> t)) = []"
    using assms compute_zones_from_tf_insufficient by simp
  then show ?thesis
    by (simp add: compute_zones_for_symbol_def Let_def cluster_levels_def)
qed

lemma symbol_pip_EURUSD: "symbol_pip ''EURUSD'' = 1 / 10000"
  by (simp add: symbol_pip_def upper_def upper_char_def)

lemma compute_zones_from_tf_five_bars:
  "compute_zones_from_tf
     (\<lambda>s t n. Inr (replicate 5 \<lparr>bar_time = 0, bar_open = 1, bar_high = 2, bar_low = 1, bar_close = 2\<rparr>))
     0 ''EURUSD'' ''D1'' 400 None = [1, 2]"
  by (simp add: compute_zones_from_tf_def local_extrema_def nlargest_def nsmallest_def
      symbol_pip_EURUSD cluster_levels_def isfinite_def mean_def py_round_def round_half_even_def
      Let_def numeral_eq_Suc)

text \<open>
  C8, as stated, on five daily bars with high 2 and low 1: the multi-timeframe variant
  returns the two levels highest first, which is not ascending.  Its last step is
  \<^verbatim>\<open>sorted(top, reverse=True)\<close>.
\<close>

theorem C8_zone_output_shape_counterexample:
  "compute_zones_for_symbol
     (\<lambda>s t n. Inr (replicate 5 \<lparr>bar_time = 0, bar_open = 1, bar_high = 2, bar_low = 1, bar_close = 2\<rparr>))
     0 ''EURUSD'' (Some [''D1'']) 400 12 = [2, 1]
   \<and> \<not> sorted [2, 1 :: real]"
  by (simp add: compute_zones_for_symbol_def compute_zones_from_tf_five_bars symbol_pip_EURUSD
      cluster_levels_def isfinite_def mean_def py_round_def round_half_even_def Let_def)

text \<open>
  C8, amended: the single-timeframe function returns distinct levels in ascending
  order; the multi-timeframe variant returns distinct levels in descending order
  (highest first); with a failed fetch, an empty frame or fewer than five bars (for
  the variant: on every timeframe asked for) the result is the empty list.  Both
  functions are total, so no error is raised.
\<close>

theorem C8_zone_output_shape_amended:
  "sorted (compute_zones_from_tf fetch now symbol tf lookback_bars days_limit)
   \<and> distinct (compute_zones_from_tf fetch now symbol tf lookback_bars days_limit)
   \<and> sorted (rev (compute_zones_for_symbol fetch now symbol tfs lookback_bars keep_top))
   \<and> distinct (compute_zones_for_symbol fetch now symbol tfs lookback_bars keep_top)
   \<and> ((case fetch symbol tf lookback_bars of Inl e \<Rightarrow> True | Inr d \<Rightarrow> length d < 5)
        \<longrightarrow> compute_zones_from_tf fetch now symbol tf lookback_bars days_limit = [])
   \<and> ((\<forall>t \<in> set (case tfs of None \<Rightarrow> [''D1'', ''H4''] | Some ts \<Rightarrow> ts).
          case fetch symbol t lookback_bars of Inl e \<Rightarrow> True | Inr d \<Rightarrow> length d < 5)
        \<longrightarrow> compute_zones_for_symbol fetch now symbol tfs lookback_bars keep_top = [])"
proof (intro conjI impI)
  show "sorted (compute_zones_from_tf fetch now symbol tf lookback_bars days_limit)"
    by (rule compute_zones_from_tf_sorted)
  show "distinct (compute_zones_from_tf fetch now symbol tf lookback_bars days_limit)"
    by (rule compute_zones_from_tf_distinct)
  show "sorted (rev (compute_zones_for_symbol fetch now symbol tfs lookback_bars keep_top))"
    by (rule compute_zones_for_symbol_descending)
  show "distinct (compute_zones_for_symbol fetch now symbol tfs lookback_bars keep_top)"
    by (rule compute_zones_for_symbol_distinct)
next
  assume "case fetch symbol tf lookback_bars of Inl e \<Rightarrow> True | Inr d \<Rightarrow> length d < 5"
  then show "compute_zones_from_tf fetch now symbol tf lookback_bars days_limit = []"
    by (rule compute_zones_from_tf_insufficient)
next
  assume "\<forall>t \<in> set (case tfs of None \<Rightarrow> [''D1'', ''H4''] | Some ts \<Rightarrow> ts).
          case fetch symbol t lookback_bars of Inl e \<Rightarrow> True | Inr d \<Rightarrow> length d < 5"
  then show "compute_zones_for_symbol fetch now symbol tfs lookback_bars keep_top = []"
    by (intro compute_zones_for_symbol_insufficient) blast
qed

theorem C8_zone_output_shape_amended_witness:
  "compute_zones_from_tf (\<lambda>s t n. Inr []) 0 ''EURUSD'' ''D1'' 400 None = []
   \<and> compute_zones_for_symbol (\<lambda>s t n. Inl RuntimeError) 0 ''EURUSD'' None 400 12 = []"
  using
    C8_zone_output_shape_amended [of "\<lambda>s t n. Inr []" 0 "''EURUSD''" "''D1''" 400 None None 12]
    C8_zone_output_shape_amended [of "\<lambda>s t n. Inl RuntimeError" 0 "''EURUSD''" "''D1''" 400 None None 12]
  by simp

text \<open>
  Clustering.  On levels that are more than the tolerance apart the loop closes every
  cluster after one element; the means the loop produces from sorted levels are more
  than the tolerance apart, so the loop run on its own output reproduces it.
\<close>

lemma mean_single: "mean [a] = a"
  by (simp add: mean_def)

lemma cluster_loop_apart_id:
  assumes "apart tol (a # rest)" and "0 \<le> tol"
  shows "cluster_loop tol acc [a] rest = acc @ a # rest"
  using assms
proof (induction rest arbitrary: acc a)
  case Nil
  then show ?case by (simp add: mean_single)
next
  case (Cons b rest)
  then have "tol < b - a" "apart tol (b # rest)" by simp_all
  then have "\<not> \<bar>b - a\<bar> \<le> tol" by linarith
  then have "cluster_loop tol acc [a] (b # rest) = cluster_loop tol (acc @ [a]) [b] rest"
    by (simp add: mean_single)
  also have "\<dots> = (acc @ [a]) @ b # rest"
    using Cons.IH [OF \<open>apart tol (b # rest)\<close> \<open>0 \<le> tol\<close>] .
  finally show ?case by simp
qed

lemma apart_snoc:
  "apart tol (acc @ [x]) \<longleftrightarrow> apart tol acc \<and> (acc \<noteq> [] \<longrightarrow> tol < x - last acc)"
  by (induction tol acc rule: apart.induct) auto

lemma sum_list_lower:
  fixes xs :: "real list"
  assumes "\<forall>x \<in> set xs. lo \<le> x"
  shows "lo * real (length xs) \<le> sum_list xs"
  using assms by (induction xs) (auto simp: algebra_simps)

lemma sum_list_upper:
  fixes xs :: "real list"
  assumes "\<forall>x \<in> set xs. x \<le> hi"
  shows "sum_list xs \<le> hi * real (length xs)"
  using assms by (induction xs) (auto simp: algebra_simps)

lemma mean_lower:
  assumes "xs \<noteq> []" and "\<forall>x \<in> set xs. lo \<le> x"
  shows "lo \<le> mean xs"
  using assms sum_list_lower [of xs lo]
  by (simp add: mean_def pos_le_divide_eq)

lemma mean_upper:
  assumes "xs \<noteq> []" and "\<forall>x \<in> set xs. x \<le> hi"
  shows "mean xs \<le> hi"
  using assms sum_list_upper [of xs hi]
  by (simp add: mean_def pos_divide_le_eq)

lemma sorted_hd_le_mean:
  assumes "cur \<noteq> []" and "sorted cur"
  shows "hd cur \<le> mean cur"
proof (rule mean_lower [OF assms(1)])
  show "\<forall>x\<in>set cur. hd cur \<le> x"
    using assms by (cases cur) auto
qed

lemma cluster_loop_apart:
  assumes "cur \<noteq> []" and "sorted (cur @ rest)" and "apart tol acc"
    and "acc \<noteq> [] \<longrightarrow> last acc + tol < hd cur"
  shows "apart tol (cluster_loop tol acc cur rest)"
  using assms
proof (induction rest arbitrary: acc cur)
  case Nil
  then have "hd cur \<le> mean cur" using sorted_hd_le_mean by simp
  with Nil show ?case by (auto simp: apart_snoc)
next
  case (Cons lv rest)
  have srt: "sorted cur" using Cons.prems(2) by (simp add: sorted_append)
  have lo: "hd cur \<le> mean cur" using sorted_hd_le_mean Cons.prems(1) srt by simp
  have hi: "mean cur \<le> lv"
    using Cons.prems(1,2) by (intro mean_upper) (auto simp: sorted_append)
  show ?case
  proof (cases "\<bar>lv - mean cur\<bar> \<le> tol")
    case True
    have "apart tol (cluster_loop tol acc (cur @ [lv]) rest)"
    proof (rule Cons.IH)
      show "cur @ [lv] \<noteq> []" by simp
      show "sorted ((cur @ [lv]) @ rest)" using Cons.prems(2) by simp
      show "apart tol acc" by (rule Cons.prems(3))
      show "acc \<noteq> [] \<longrightarrow> last acc + tol < hd (cur @ [lv])"
        using Cons.prems(1,4) by simp
    qed
    with True show ?thesis by simp
  next
    case False
    then have gap: "mean cur + tol < lv" using hi by linarith
    have "apart tol (cluster_loop tol (acc @ [mean cur]) [lv] rest)"
    proof (rule Cons.IH)
      show "[lv] \<noteq> []" by simp
      show "sorted ([lv] @ rest)" using Cons.prems(2) by (simp add: sorted_append)
      show "apart tol (acc @ [mean cur])"
        using Cons.prems(3,4) lo by (auto simp: apart_snoc)
      show "acc @ [mean cur] \<noteq> [] \<longrightarrow> last (acc @ [mean cur]) + tol < hd [lv]"
        using gap by simp
    qed
    with False show ?thesis by simp
  qed
qed

lemma cluster_means_apart:
  assumes "sorted (l0 # rest)"
  shows "apart tol (cluster_loop tol [] [l0] rest)"
  using assms by (intro cluster_loop_apart) simp_all

lemma cluster_means_idempotent:
  assumes "sorted (l0 # rest)" and "0 \<le> tol"
    and "cluster_loop tol [] [l0] rest = c0 # cs"
  shows "cluster_loop tol [] [c0] cs = c0 # cs"
  using cluster_loop_apart_id [of tol c0 cs "[]"] cluster_means_apart [OF assms(1), of tol] assms(2,3)
  by simp

lemma cluster_levels_fixpoint_if_apart:
  assumes "apart (max (1 / 10 ^ 8) (pip * mult)) (cluster_levels levels pip mult max_levels)"
  shows "cluster_levels (cluster_levels levels pip mult max_levels) pip mult max_levels
         = cluster_levels levels pip mult max_levels"
proof (cases "cluster_levels levels pip mult max_levels")
  case Nil
  then show ?thesis by (simp add: cluster_levels_def)
next
  case (Cons a rest)
  define out where "out = cluster_levels levels pip mult max_levels"
  define tol where "tol = max (1 / 10 ^ 8) (pip * mult)"
  have out: "out = a # rest" using Cons by (simp add: out_def)
  have "0 \<le> tol" by (simp add: tol_def le_max_iff_disj)
  have sorted_out: "sort out = out"
    unfolding out_def using cluster_levels_sorted by (rule sorted_sort_id)
  have "filter isfinite out = out" by (simp add: isfinite_def)
  with sorted_out have "sort (filter isfinite out) = out" by (simp only:)
  then have srt: "sort (filter isfinite out) = a # rest" using out by (simp only:)
  have loop: "cluster_loop tol [] [a] rest = out"
    using cluster_loop_apart_id [of tol a rest "[]"] assms \<open>0 \<le> tol\<close> out
    by (simp add: tol_def out_def)
  have m: "map (\<lambda>x. py_round x (if pip < 5 / 10000 then 6 else 4)) out = out"
    unfolding out_def by (rule map_idI) (rule cluster_levels_py_round_prec)
  have r: "remdups out = out"
    unfolding out_def using cluster_levels_distinct by (rule distinct_remdups_id)
  have rnd: "sort (remdups (map (\<lambda>x. py_round x (if pip < 5 / 10000 then 6 else 4)) out)) = out"
    by (simp only: m r sorted_out)
  have len: "length out \<le> max_levels"
    unfolding out_def by (rule cluster_levels_length)
  have ne: "out \<noteq> []" using out by simp
  have "cluster_levels out pip mult max_levels = out"
    unfolding cluster_levels_def [of out] Let_def tol_def [symmetric]
    by (simp only: ne srt list.case loop rnd len if_True if_False)
  then show ?thesis by (simp only: out_def)
qed


lemma grid_apart:
  assumes "sorted xs" and "distinct xs"
    and "\<forall>x \<in> set xs. \<exists>n::int. x = of_int n / 10 ^ p" and "tol < 1 / 10 ^ p"
  shows "apart tol xs"
  using assms
proof (induction tol xs rule: apart.induct)
  case (1 tol a b xs)
  obtain na nb :: int where ab: "a = of_int na / 10 ^ p" "b = of_int nb / 10 ^ p"
    using "1.prems"(3) by auto
  have "a < b" using "1.prems"(1,2) by auto
  then have "na < nb" using ab by (simp add: divide_less_cancel)
  then have "(1::real) \<le> of_int nb - of_int na" by linarith
  then have "1 / 10 ^ p \<le> (of_int nb - of_int na) / (10 ^ p :: real)"
    by (simp add: divide_right_mono)
  then have "tol < b - a" using "1.prems"(4) ab by (simp add: diff_divide_distrib)
  moreover have "apart tol (b # xs)" using "1.prems" by (intro "1.IH") auto
  ultimately show ?case by simp
qed simp_all

lemma cluster_levels_idempotent_fine_tolerance:
  assumes "max (1 / 10 ^ 8) (pip * mult) < 1 / 10 ^ (if pip < 5 / 10000 then 6 else 4)"
  shows "cluster_levels (cluster_levels levels pip mult max_levels) pip mult max_levels
         = cluster_levels levels pip mult max_levels"
proof (rule cluster_levels_fixpoint_if_apart)
  have "\<forall>x\<in>set (cluster_levels levels pip mult max_levels).
          \<exists>n::int. x = of_int n / 10 ^ (if pip < 5 / 10000 then 6 else 4)"
    using cluster_levels_set_grid by blast
  then show "apart (max (1 / 10 ^ 8) (pip * mult)) (cluster_levels levels pip mult max_levels)"
    by (intro grid_apart [OF cluster_levels_sorted cluster_levels_distinct _ assms])
qed

lemma cluster_levels_two_apart: "cluster_levels [1, 2] (1 / 10000) 8 60 = [1, 2]"
  by (simp add: cluster_levels_def isfinite_def mean_def py_round_def round_half_even_def Let_def)

lemma cluster_levels_rounding_example:
  "cluster_levels [4 / 100000, 50045 / 1000000] (1 / 100) 5 20 = [0, 5 / 100]"
  by (simp add: cluster_levels_def isfinite_def mean_def py_round_def round_half_even_def Let_def)

lemma cluster_levels_merging_example:
  "cluster_levels [0, 5 / 100] (1 / 100) 5 20 = [25 / 1000]"
  by (simp add: cluster_levels_def isfinite_def mean_def py_round_def round_half_even_def Let_def)

text \<open>
  C7, as stated, at pip \<open>0.01\<close> and the default multiplier 5 (tolerance \<open>0.05\<close>): the
  levels \<open>0.00004\<close> and \<open>0.050045\<close> are \<open>0.050005\<close> apart and form two clusters;
  rounding to four decimals gives \<open>0.0\<close> and \<open>0.05\<close>, which are within the tolerance, and
  the second application merges them into \<open>0.025\<close>.
\<close>

theorem C7_cluster_idempotent_counterexample:
  "cluster_levels (cluster_levels [4 / 100000, 50045 / 1000000] (1 / 100) 5 20) (1 / 100) 5 20
   \<noteq> cluster_levels [4 / 100000, 50045 / 1000000] (1 / 100) 5 20"
  unfolding cluster_levels_rounding_example cluster_levels_merging_example by simp

text \<open>
  C7, amended: applying \<open>_cluster_levels\<close> to an output of \<open>_cluster_levels\<close>, with the
  same pip size, tolerance multiplier and \<open>max_levels\<close>, returns that same list whenever
  the adjacent levels of that output are more than the tolerance
  \<open>max(1e-8, pip * multiplier)\<close> apart.
\<close>

theorem C7_cluster_idempotent_amended:
  assumes "apart (max (1 / 10 ^ 8) (pip * mult)) (cluster_levels levels pip mult max_levels)"
  shows "cluster_levels (cluster_levels levels pip mult max_levels) pip mult max_levels
         = cluster_levels levels pip mult max_levels"
  using assms by (rule cluster_levels_fixpoint_if_apart)

theorem C7_cluster_idempotent_amended_witness:
  "apart (max (1 / 10 ^ 8) (1 / 10000 * 8)) (cluster_levels [1, 2] (1 / 10000) 8 60)
   \<and> cluster_levels (cluster_levels [1, 2] (1 / 10000) 8 60) (1 / 10000) 8 60
       = cluster_levels [1, 2] (1 / 10000) 8 60"
  using C7_cluster_idempotent_amended [of "1 / 10000" 8 "[1, 2]" 60]
  by (simp add: cluster_levels_two_apart)

section \<open>Properties of the position lifecycle manager\<close>

lemma symbol_info_tick_frame:
  "sent (snd (symbol_info_tick v st)) = sent st"
  "breakeven_set_tickets (snd (symbol_info_tick v st)) = breakeven_set_tickets st"
  by (simp_all add: symbol_info_tick_def)

lemma order_send_sent: "sent (snd (order_send v origin req st)) = sent st @ [(origin, req)]"
  by (simp add: order_send_def)

lemma order_send_frame:
  "breakeven_set_tickets (snd (order_send v origin req st)) = breakeven_set_tickets st"
  by (simp add: order_send_def)

text \<open>What each block appends to the record of requests.\<close>

lemma breakeven_step_sent:
  "sent (breakeven_step cfg v ut p entry sl_opt tp_opt risk rr st) = sent st
   \<or> (pos_ticket p \<notin> breakeven_set_tickets st
      \<and> sent (breakeven_step cfg v ut p entry sl_opt tp_opt risk rr st)
          = sent st @ [(Breakeven, SltpRequest (pos_ticket p) entry tp_opt)])"
  by (simp add: breakeven_step_def breakeven_send_def order_send_def split: send_outcome.splits)

lemma breakeven_step_set:
  "breakeven_set_tickets st \<subseteq> breakeven_set_tickets (breakeven_step cfg v ut p entry sl_opt tp_opt risk rr st)"
  by (auto simp: breakeven_step_def breakeven_send_def order_send_def split: send_outcome.splits)

lemma partial_tp_step_sent:
  "\<exists>req. sent (partial_tp_step cfg v p t vol risk rr st) = sent st
     \<or> sent (partial_tp_step cfg v p t vol risk rr st) = sent st @ [(PartialTP, req)]"
  by (simp add: partial_tp_step_def order_send_def Let_def split: send_outcome.splits)

lemma partial_tp_step_set:
  "breakeven_set_tickets (partial_tp_step cfg v p t vol risk rr st) = breakeven_set_tickets st"
  by (simp add: partial_tp_step_def order_send_def Let_def split: send_outcome.splits)

lemma trailing_step_set:
  "breakeven_set_tickets (trailing_step cfg v ut m p price entry sl_opt tp_opt risk st) = breakeven_set_tickets st"
  by (simp add: trailing_step_def trailing_send_def order_send_def Let_def split: send_outcome.splits option.splits prod.splits)


lemma trailing_send_sent:
  "sent (snd (trailing_send v p (Some s) tp_opt new_sl st)) = sent st
   \<or> (1 / 10 ^ 8 < \<bar>new_sl - s\<bar>
      \<and> sent (snd (trailing_send v p (Some s) tp_opt new_sl st))
          = sent st @ [(Trailing, SltpRequest (pos_ticket p) new_sl tp_opt)])"
  by (simp add: trailing_send_def order_send_def)

lemma trailing_step_cases [consumes 1, case_names idle long short]:
  assumes "pos_sl p \<noteq> 0"
  obtains (idle) "trailing_step cfg v ut m p price entry (Some (pos_sl p)) tp_opt risk st = st"
  | (long) "pos_type p = POSITION_TYPE_BUY" "0 < risk"
      "trailing_step cfg v ut m p price entry (Some (pos_sl p)) tp_opt risk st
         = snd (trailing_send v p (Some (pos_sl p)) tp_opt
                  (max (pos_sl p) (price - m * risk)) st)"
  | (short) "pos_type p = POSITION_TYPE_SELL" "0 < risk"
      "trailing_step cfg v ut m p price entry (Some (pos_sl p)) tp_opt risk st
         = snd (trailing_send v p (Some (pos_sl p)) tp_opt
                  (min (pos_sl p) (price + m * risk)) st)"
proof (cases "ut \<and> risk > 0 \<and> USE_TRAILING cfg")
  case False
  then have "trailing_step cfg v ut m p price entry (Some (pos_sl p)) tp_opt risk st = st"
    by (auto simp: trailing_step_def)
  then show ?thesis by (rule idle)
next
  case True
  have o: "opt_or (Some (pos_sl p)) d = pos_sl p" for d
    using assms by (simp add: opt_or_def)
  show ?thesis
  proof (cases "pos_type p")
    case POSITION_TYPE_BUY
    show ?thesis
    proof (cases "price - entry \<ge> m * risk")
      case c: True
      have "trailing_step cfg v ut m p price entry (Some (pos_sl p)) tp_opt risk st
         = snd (trailing_send v p (Some (pos_sl p)) tp_opt (max (pos_sl p) (price - m * risk)) st)"
        using True POSITION_TYPE_BUY c
        by (simp add: trailing_step_def o trailing_send_def order_send_def
            split: send_outcome.splits)
      with POSITION_TYPE_BUY True show ?thesis using long by blast
    next
      case c: False
      have "trailing_step cfg v ut m p price entry (Some (pos_sl p)) tp_opt risk st = st"
        using True POSITION_TYPE_BUY c by (simp add: trailing_step_def)
      then show ?thesis by (rule idle)
    qed
  next
    case POSITION_TYPE_SELL
    show ?thesis
    proof (cases "entry - price \<ge> m * risk")
      case c: True
      have "trailing_step cfg v ut m p price entry (Some (pos_sl p)) tp_opt risk st
         = snd (trailing_send v p (Some (pos_sl p)) tp_opt (min (pos_sl p) (price + m * risk)) st)"
        using True POSITION_TYPE_SELL c
        by (simp add: trailing_step_def o)
      with POSITION_TYPE_SELL True show ?thesis using short by blast
    next
      case c: False
      have "trailing_step cfg v ut m p price entry (Some (pos_sl p)) tp_opt risk st = st"
        using True POSITION_TYPE_SELL c by (simp add: trailing_step_def)
      then show ?thesis by (rule idle)
    qed
  qed
qed

lemma tightens_long:
  assumes "pos_sl p \<noteq> 0" and "0 < \<bar>pos_price_open p - pos_sl p\<bar>"
    and "pos_type p = POSITION_TYPE_BUY" and "pos_sl p \<le> n" and "1 / 10 ^ 8 < \<bar>n - pos_sl p\<bar>"
  shows "tightens p (SltpRequest (pos_ticket p) n tp_opt)"
  using assms by (simp add: tightens_def)

lemma tightens_short:
  assumes "pos_sl p \<noteq> 0" and "0 < \<bar>pos_price_open p - pos_sl p\<bar>"
    and "pos_type p = POSITION_TYPE_SELL" and "n \<le> pos_sl p" and "1 / 10 ^ 8 < \<bar>n - pos_sl p\<bar>"
  shows "tightens p (SltpRequest (pos_ticket p) n tp_opt)"
  using assms by (simp add: tightens_def)

lemma trailing_step_sent:
  assumes "sl_opt = nonzero (pos_sl p)" and "entry = pos_price_open p"
    and "risk = (case sl_opt of None \<Rightarrow> 0 | Some s \<Rightarrow> \<bar>entry - s\<bar>)"
  shows "sent (trailing_step cfg v ut m p price entry sl_opt tp_opt risk st) = sent st
         \<or> (\<exists>req. sent (trailing_step cfg v ut m p price entry sl_opt tp_opt risk st)
                     = sent st @ [(Trailing, req)] \<and> tightens p req)"
proof (cases "pos_sl p = 0")
  case True
  then show ?thesis using assms by (simp add: trailing_step_def nonzero_def)
next
  case False
  then have sl: "sl_opt = Some (pos_sl p)"
    using assms(1) by (simp add: nonzero_def)
  have risk: "risk = \<bar>pos_price_open p - pos_sl p\<bar>"
    using assms(2,3) sl by simp
  from False have "sent (trailing_step cfg v ut m p price entry (Some (pos_sl p)) tp_opt risk st) = sent st
         \<or> (\<exists>req. sent (trailing_step cfg v ut m p price entry (Some (pos_sl p)) tp_opt risk st)
                     = sent st @ [(Trailing, req)] \<and> tightens p req)"
  proof (cases rule: trailing_step_cases [where cfg = cfg and v = v and ut = ut
        and m = m and price = price and entry = entry and tp_opt = tp_opt and risk = risk
        and st = st])
    case idle
    then show ?thesis by simp
  next
    case long
    have "tightens p (SltpRequest (pos_ticket p) (max (pos_sl p) (price - m * risk)) tp_opt)"
      if "1 / 10 ^ 8 < \<bar>max (pos_sl p) (price - m * risk) - pos_sl p\<bar>"
      using False _ long(1) max.cobounded1 that
      by (rule tightens_long) (use long(2) risk in simp)
    then show ?thesis
      using trailing_send_sent [of v p "pos_sl p" tp_opt "max (pos_sl p) (price - m * risk)" st]
      unfolding long(3) by blast
  next
    case short
    have "tightens p (SltpRequest (pos_ticket p) (min (pos_sl p) (price + m * risk)) tp_opt)"
      if "1 / 10 ^ 8 < \<bar>min (pos_sl p) (price + m * risk) - pos_sl p\<bar>"
      using False _ short(1) min.cobounded1 that
      by (rule tightens_short) (use short(2) risk in simp)
    then show ?thesis
      using trailing_send_sent [of v p "pos_sl p" tp_opt "min (pos_sl p) (price + m * risk)" st]
      unfolding short(3) by blast
  qed
  then show ?thesis by (simp only: sl)
qed

lemma breakeven_modifications_append:
  "sent st' = sent st @ news \<Longrightarrow>
   breakeven_modifications t st' = breakeven_modifications t st @
     filter (\<lambda>(origin, req). origin = Breakeven
               \<and> (case req of SltpRequest pos new_sl new_tp \<Rightarrow> pos = t | _ \<Rightarrow> False)) news"
  by (simp add: breakeven_modifications_def)

lemma breakeven_step_keeps:
  assumes "t \<in> breakeven_set_tickets st"
  shows "breakeven_modifications t (breakeven_step cfg v ut p entry sl_opt tp_opt risk rr st)
         = breakeven_modifications t st"
  using breakeven_step_sent [of cfg v ut p entry sl_opt tp_opt risk rr st] assms
  by (auto simp: breakeven_modifications_def)

lemma partial_tp_step_keeps:
  "breakeven_modifications t (partial_tp_step cfg v p tk vol risk rr st) = breakeven_modifications t st"
  using partial_tp_step_sent [of cfg v p tk vol risk rr st]
  by (auto simp: breakeven_modifications_def)

lemma trailing_step_keeps:
  "breakeven_modifications t (trailing_step cfg v ut m p price entry sl_opt tp_opt risk st)
   = breakeven_modifications t st"
  by (simp add: breakeven_modifications_def trailing_step_def trailing_send_def order_send_def
      split: send_outcome.splits option.splits prod.splits)

lemma manage_position_cases:
  obtains (no_tick) "manage_position cfg v ut m p st = st\<lparr>ticks_asked := Suc (ticks_asked st)\<rparr>"
  | (blocks) tk price entry sl_opt tp_opt risk rr where
      "entry = pos_price_open p" "sl_opt = nonzero (pos_sl p)"
      "risk = (case sl_opt of None \<Rightarrow> 0 | Some s \<Rightarrow> \<bar>entry - s\<bar>)"
      "manage_position cfg v ut m p st =
         trailing_step cfg v ut m p price entry sl_opt tp_opt risk
           (partial_tp_step cfg v p tk (pos_volume p) risk rr
             (breakeven_step cfg v ut p entry sl_opt tp_opt risk rr
               (st\<lparr>ticks_asked := Suc (ticks_asked st)\<rparr>)))"
proof (cases "mt5_symbol_info_tick v (ticks_asked st)")
  case None
  then have "manage_position cfg v ut m p st = st\<lparr>ticks_asked := Suc (ticks_asked st)\<rparr>"
    by (simp add: manage_position_def symbol_info_tick_def)
  then show ?thesis by (rule no_tick)
next
  case (Some tk)
  show ?thesis
    by (rule blocks [OF refl refl refl]) (simp add: manage_position_def symbol_info_tick_def Some Let_def)
qed

lemma manage_position_keeps:
  assumes "t \<in> breakeven_set_tickets st"
  shows "t \<in> breakeven_set_tickets (manage_position cfg v ut m p st)
         \<and> breakeven_modifications t (manage_position cfg v ut m p st) = breakeven_modifications t st"
proof (cases cfg v ut m p st rule: manage_position_cases)
  case no_tick
  then show ?thesis using assms by (simp add: breakeven_modifications_def)
next
  case (blocks tk price entry sl_opt tp_opt risk rr)
  define st1 where "st1 = st\<lparr>ticks_asked := Suc (ticks_asked st)\<rparr>"
  define st2 where "st2 = breakeven_step cfg v ut p entry sl_opt tp_opt risk rr st1"
  define st3 where "st3 = partial_tp_step cfg v p tk (pos_volume p) risk rr st2"
  have 1: "t \<in> breakeven_set_tickets st1" "breakeven_modifications t st1 = breakeven_modifications t st"
    using assms by (simp_all add: st1_def breakeven_modifications_def)
  have 2: "t \<in> breakeven_set_tickets st2" "breakeven_modifications t st2 = breakeven_modifications t st"
    using 1 breakeven_step_set [of st1 cfg v ut p entry sl_opt tp_opt risk rr]
      breakeven_step_keeps [OF 1(1), of cfg v ut p entry sl_opt tp_opt risk rr]
    by (auto simp: st2_def)
  have 3: "t \<in> breakeven_set_tickets st3" "breakeven_modifications t st3 = breakeven_modifications t st"
    using 2 by (simp_all add: st3_def partial_tp_step_set partial_tp_step_keeps)
  show ?thesis
    using 3 unfolding blocks(4) st1_def [symmetric] st2_def [symmetric] st3_def [symmetric]
    by (simp add: trailing_step_set trailing_step_keeps)
qed

lemma manage_open_positions_keeps:
  assumes "t \<in> breakeven_set_tickets st"
  shows "t \<in> breakeven_set_tickets (manage_open_positions cfg v ut m ps st)
         \<and> breakeven_modifications t (manage_open_positions cfg v ut m ps st) = breakeven_modifications t st"
  using assms
proof (induction ps arbitrary: st)
  case Nil
  then show ?case by simp
next
  case (Cons p ps)
  from manage_position_keeps [OF Cons.prems]
  have step: "t \<in> breakeven_set_tickets (manage_position cfg v ut m p st)"
    "breakeven_modifications t (manage_position cfg v ut m p st) = breakeven_modifications t st"
    by simp_all
  from Cons.IH [OF step(1)] step(2) show ?case by simp
qed

lemma manage_cycles_keeps:
  assumes "t \<in> breakeven_set_tickets st"
  shows "t \<in> breakeven_set_tickets (manage_cycles cfg v ut m cycles st)
         \<and> breakeven_modifications t (manage_cycles cfg v ut m cycles st) = breakeven_modifications t st"
  using assms
proof (induction cycles arbitrary: st)
  case Nil
  then show ?case by simp
next
  case (Cons ps cycles)
  from manage_open_positions_keeps [OF Cons.prems]
  have step: "t \<in> breakeven_set_tickets (manage_open_positions cfg v ut m ps st)"
    "breakeven_modifications t (manage_open_positions cfg v ut m ps st) = breakeven_modifications t st"
    by simp_all
  from Cons.IH [OF step(1)] step(2) show ?case by simp
qed


lemma manage_position_trailing:
  "\<exists>news. sent (manage_position cfg v ut m p st) = sent st @ news
      \<and> (\<forall>(origin, req) \<in> set news. origin = Trailing \<longrightarrow> tightens p req)"
proof (cases cfg v ut m p st rule: manage_position_cases)
  case no_tick
  then show ?thesis by simp
next
  case (blocks tk price entry sl_opt tp_opt risk rr)
  define st1 where "st1 = st\<lparr>ticks_asked := Suc (ticks_asked st)\<rparr>"
  define st2 where "st2 = breakeven_step cfg v ut p entry sl_opt tp_opt risk rr st1"
  define st3 where "st3 = partial_tp_step cfg v p tk (pos_volume p) risk rr st2"
  define st4 where "st4 = trailing_step cfg v ut m p price entry sl_opt tp_opt risk st3"
  have 1: "sent st1 = sent st" by (simp add: st1_def)
  obtain n2 where 2: "sent st2 = sent st1 @ n2" "\<forall>(origin, req) \<in> set n2. origin = Breakeven"
    using breakeven_step_sent [of cfg v ut p entry sl_opt tp_opt risk rr st1]
    unfolding st2_def [symmetric] by (cases "sent st2 = sent st1") auto
  obtain n3 where 3: "sent st3 = sent st2 @ n3" "\<forall>(origin, req) \<in> set n3. origin = PartialTP"
    using partial_tp_step_sent [of cfg v p tk "pos_volume p" risk rr st2]
    unfolding st3_def [symmetric] by (cases "sent st3 = sent st2") auto
  obtain n4 where 4: "sent st4 = sent st3 @ n4"
    "\<forall>(origin, req) \<in> set n4. origin = Trailing \<longrightarrow> tightens p req"
    using trailing_step_sent [OF blocks(2,1,3), of cfg v ut m price tp_opt st3]
    unfolding st4_def [symmetric] by (cases "sent st4 = sent st3") auto
  have "manage_position cfg v ut m p st = st4"
    unfolding blocks(4) st4_def st3_def st2_def st1_def ..
  moreover have "sent st4 = sent st @ (n2 @ n3 @ n4)"
    using 1 2(1) 3(1) 4(1) by simp
  moreover have "\<forall>(origin, req) \<in> set (n2 @ n3 @ n4). origin = Trailing \<longrightarrow> tightens p req"
    using 2(2) 3(2) 4(2) by auto
  ultimately show ?thesis by metis
qed

lemma manage_open_positions_trailing:
  "\<exists>news. sent (manage_open_positions cfg v ut m ps st) = sent st @ news
      \<and> (\<forall>(origin, req) \<in> set news. origin = Trailing \<longrightarrow> (\<exists>p \<in> set ps. tightens p req))"
proof (induction ps arbitrary: st)
  case Nil
  then show ?case by simp
next
  case (Cons p ps)
  obtain n1 where 1: "sent (manage_position cfg v ut m p st) = sent st @ n1"
    "\<forall>(origin, req) \<in> set n1. origin = Trailing \<longrightarrow> tightens p req"
    using manage_position_trailing by blast
  obtain n2 where 2: "sent (manage_open_positions cfg v ut m ps (manage_position cfg v ut m p st))
      = sent (manage_position cfg v ut m p st) @ n2"
    "\<forall>(origin, req) \<in> set n2. origin = Trailing \<longrightarrow> (\<exists>p \<in> set ps. tightens p req)"
    using Cons.IH by blast
  have "sent (manage_open_positions cfg v ut m (p # ps) st) = sent st @ (n1 @ n2)"
    using 1(1) 2(1) by simp
  moreover have "\<forall>(origin, req) \<in> set (n1 @ n2).
      origin = Trailing \<longrightarrow> (\<exists>q \<in> set (p # ps). tightens q req)"
    using 1(2) 2(2) by fastforce
  ultimately show ?case by blast
qed

text \<open>
  Scenario D of the specification: a long position opened at 1.1000 with its stop at
  1.0950.  At a price of 1.1015 nothing is sent; at 1.1050 the stop is moved to the
  entry, the ticket is flagged, and the trailing block then moves the stop on.
\<close>

lemmas manage_simps =
  manage_position_def symbol_info_tick_def initial_state_def default_config_def Let_def
  nonzero_def breakeven_step_def breakeven_send_def order_send_def partial_tp_step_def
  trailing_step_def trailing_send_def opt_or_def

lemma scenario_D_below_threshold:
  "manage_open_positions default_config
     \<lparr>mt5_symbol_info = (\<lambda>s. None),
      mt5_symbol_info_tick = (\<lambda>n. Some \<lparr>bid = 11015 / 10000, ask = 11015 / 10000\<rparr>),
      mt5_order_send = (\<lambda>n. Returns None), TRADE_RETCODE_DONE = Some 10009,
      ORDER_FILLING_IOC = Some 1, ORDER_FILLING_FOK = Some 0, ORDER_FILLING_RETURN = Some 2\<rparr>
     True (1 / 2) [\<lparr>pos_ticket = 7, pos_symbol = ''EURUSD'', pos_type = POSITION_TYPE_BUY,
      pos_price_open = 11 / 10, pos_sl = 1095 / 1000, pos_tp = 0, pos_volume = 1 / 10\<rparr>] initial_state
   = initial_state\<lparr>ticks_asked := 1\<rparr>"
  by (simp add: manage_simps)

lemma scenario_D_at_threshold:
  "manage_open_positions default_config \<lparr>mt5_symbol_info = (\<lambda>s. None),
      mt5_symbol_info_tick = (\<lambda>n. Some \<lparr>bid = 1105 / 1000, ask = 1105 / 1000\<rparr>),
      mt5_order_send = (\<lambda>n. Returns None), TRADE_RETCODE_DONE = Some 10009,
      ORDER_FILLING_IOC = Some 1, ORDER_FILLING_FOK = Some 0, ORDER_FILLING_RETURN = Some 2\<rparr> True (1 / 2) [\<lparr>pos_ticket = 7, pos_symbol = ''EURUSD'', pos_type = POSITION_TYPE_BUY,
      pos_price_open = 11 / 10, pos_sl = 1095 / 1000, pos_tp = 0, pos_volume = 1 / 10\<rparr>] initial_state
   = initial_state\<lparr>ticks_asked := 1, breakeven_set_tickets := {7},
       sent := [(Breakeven, SltpRequest 7 (11 / 10) None),
                (Trailing, SltpRequest 7 (11025 / 10000) None)]\<rparr>"
  by (simp add: manage_simps)

text \<open>
  C1: once a ticket is in the break-even set, it stays there through every later cycle
  of \<open>manage_open_positions\<close>, and the break-even modifications sent for it are the
  ones sent before: no later cycle sends another one, whatever the venue answers and
  whatever the prices are.
\<close>

theorem C1_breakeven_one_shot:
  assumes "t \<in> breakeven_set_tickets st"
  shows "t \<in> breakeven_set_tickets (manage_cycles cfg v use_trailing trailing_r_mult cycles st)
         \<and> breakeven_modifications t (manage_cycles cfg v use_trailing trailing_r_mult cycles st)
             = breakeven_modifications t st"
  using assms by (rule manage_cycles_keeps)

theorem C1_breakeven_one_shot_witness:
  "7 \<in> breakeven_set_tickets
         (manage_open_positions default_config \<lparr>mt5_symbol_info = (\<lambda>s. None),
      mt5_symbol_info_tick = (\<lambda>n. Some \<lparr>bid = 1105 / 1000, ask = 1105 / 1000\<rparr>),
      mt5_order_send = (\<lambda>n. Returns None), TRADE_RETCODE_DONE = Some 10009,
      ORDER_FILLING_IOC = Some 1, ORDER_FILLING_FOK = Some 0, ORDER_FILLING_RETURN = Some 2\<rparr> True (1 / 2) [\<lparr>pos_ticket = 7, pos_symbol = ''EURUSD'', pos_type = POSITION_TYPE_BUY,
      pos_price_open = 11 / 10, pos_sl = 1095 / 1000, pos_tp = 0, pos_volume = 1 / 10\<rparr>] initial_state)
   \<and> breakeven_modifications 7
        (manage_cycles default_config \<lparr>mt5_symbol_info = (\<lambda>s. None),
      mt5_symbol_info_tick = (\<lambda>n. Some \<lparr>bid = 1105 / 1000, ask = 1105 / 1000\<rparr>),
      mt5_order_send = (\<lambda>n. Returns None), TRADE_RETCODE_DONE = Some 10009,
      ORDER_FILLING_IOC = Some 1, ORDER_FILLING_FOK = Some 0, ORDER_FILLING_RETURN = Some 2\<rparr> True (1 / 2) [[\<lparr>pos_ticket = 7, pos_symbol = ''EURUSD'', pos_type = POSITION_TYPE_BUY,
      pos_price_open = 11 / 10, pos_sl = 1095 / 1000, pos_tp = 0, pos_volume = 1 / 10\<rparr>], [\<lparr>pos_ticket = 7, pos_symbol = ''EURUSD'', pos_type = POSITION_TYPE_BUY,
      pos_price_open = 11 / 10, pos_sl = 1095 / 1000, pos_tp = 0, pos_volume = 1 / 10\<rparr>]]
           (manage_open_positions default_config \<lparr>mt5_symbol_info = (\<lambda>s. None),
      mt5_symbol_info_tick = (\<lambda>n. Some \<lparr>bid = 1105 / 1000, ask = 1105 / 1000\<rparr>),
      mt5_order_send = (\<lambda>n. Returns None), TRADE_RETCODE_DONE = Some 10009,
      ORDER_FILLING_IOC = Some 1, ORDER_FILLING_FOK = Some 0, ORDER_FILLING_RETURN = Some 2\<rparr> True (1 / 2) [\<lparr>pos_ticket = 7, pos_symbol = ''EURUSD'', pos_type = POSITION_TYPE_BUY,
      pos_price_open = 11 / 10, pos_sl = 1095 / 1000, pos_tp = 0, pos_volume = 1 / 10\<rparr>] initial_state))
      = [(Breakeven, SltpRequest 7 (11 / 10) None)]"
  using C1_breakeven_one_shot
    [of 7 "manage_open_positions default_config \<lparr>mt5_symbol_info = (\<lambda>s. None),
      mt5_symbol_info_tick = (\<lambda>n. Some \<lparr>bid = 1105 / 1000, ask = 1105 / 1000\<rparr>),
      mt5_order_send = (\<lambda>n. Returns None), TRADE_RETCODE_DONE = Some 10009,
      ORDER_FILLING_IOC = Some 1, ORDER_FILLING_FOK = Some 0, ORDER_FILLING_RETURN = Some 2\<rparr> True (1 / 2) [\<lparr>pos_ticket = 7, pos_symbol = ''EURUSD'', pos_type = POSITION_TYPE_BUY,
      pos_price_open = 11 / 10, pos_sl = 1095 / 1000, pos_tp = 0, pos_volume = 1 / 10\<rparr>] initial_state"
        default_config "\<lparr>mt5_symbol_info = (\<lambda>s. None),
      mt5_symbol_info_tick = (\<lambda>n. Some \<lparr>bid = 1105 / 1000, ask = 1105 / 1000\<rparr>),
      mt5_order_send = (\<lambda>n. Returns None), TRADE_RETCODE_DONE = Some 10009,
      ORDER_FILLING_IOC = Some 1, ORDER_FILLING_FOK = Some 0, ORDER_FILLING_RETURN = Some 2\<rparr>" True "1 / 2" "[[\<lparr>pos_ticket = 7, pos_symbol = ''EURUSD'', pos_type = POSITION_TYPE_BUY,
      pos_price_open = 11 / 10, pos_sl = 1095 / 1000, pos_tp = 0, pos_volume = 1 / 10\<rparr>], [\<lparr>pos_ticket = 7, pos_symbol = ''EURUSD'', pos_type = POSITION_TYPE_BUY,
      pos_price_open = 11 / 10, pos_sl = 1095 / 1000, pos_tp = 0, pos_volume = 1 / 10\<rparr>]]"]
  unfolding scenario_D_at_threshold
  by (simp add: breakeven_modifications_def)

text \<open>
  C3: every stop modification that the trailing block sends in a cycle is for one of
  the positions of that cycle, a position with a stop and a positive entry-to-stop
  distance; it moves the stop by more than \<open>1e-8\<close>, and not against the position:
  not below the position's stop for a long position, not above it for a short one.
  The requests of the cycle are appended to those sent before.
\<close>

theorem C3_trailing_never_loosens:
  "take (length (sent st)) (sent (manage_open_positions cfg v use_trailing trailing_r_mult ps st))
     = sent st
   \<and> (\<forall>(origin, req) \<in> set (drop (length (sent st))
          (sent (manage_open_positions cfg v use_trailing trailing_r_mult ps st))).
        origin = Trailing \<longrightarrow> (\<exists>p \<in> set ps. tightens p req))"
  using manage_open_positions_trailing [of cfg v use_trailing trailing_r_mult ps st] by auto

theorem C3_trailing_never_loosens_witness:
  "(Trailing, SltpRequest 7 (11025 / 10000) None)
     \<in> set (drop (length (sent initial_state))
         (sent (manage_open_positions default_config \<lparr>mt5_symbol_info = (\<lambda>s. None),
      mt5_symbol_info_tick = (\<lambda>n. Some \<lparr>bid = 1105 / 1000, ask = 1105 / 1000\<rparr>),
      mt5_order_send = (\<lambda>n. Returns None), TRADE_RETCODE_DONE = Some 10009,
      ORDER_FILLING_IOC = Some 1, ORDER_FILLING_FOK = Some 0, ORDER_FILLING_RETURN = Some 2\<rparr> True (1 / 2) [\<lparr>pos_ticket = 7, pos_symbol = ''EURUSD'', pos_type = POSITION_TYPE_BUY,
      pos_price_open = 11 / 10, pos_sl = 1095 / 1000, pos_tp = 0, pos_volume = 1 / 10\<rparr>] initial_state)))
   \<and> tightens \<lparr>pos_ticket = 7, pos_symbol = ''EURUSD'', pos_type = POSITION_TYPE_BUY,
      pos_price_open = 11 / 10, pos_sl = 1095 / 1000, pos_tp = 0, pos_volume = 1 / 10\<rparr> (SltpRequest 7 (11025 / 10000) None)"
  using C3_trailing_never_loosens [of initial_state default_config "\<lparr>mt5_symbol_info = (\<lambda>s. None),
      mt5_symbol_info_tick = (\<lambda>n. Some \<lparr>bid = 1105 / 1000, ask = 1105 / 1000\<rparr>),
      mt5_order_send = (\<lambda>n. Returns None), TRADE_RETCODE_DONE = Some 10009,
      ORDER_FILLING_IOC = Some 1, ORDER_FILLING_FOK = Some 0, ORDER_FILLING_RETURN = Some 2\<rparr>" True "1 / 2" "[\<lparr>pos_ticket = 7, pos_symbol = ''EURUSD'', pos_type = POSITION_TYPE_BUY,
      pos_price_open = 11 / 10, pos_sl = 1095 / 1000, pos_tp = 0, pos_volume = 1 / 10\<rparr>]"]
  unfolding scenario_D_at_threshold
  by (simp add: initial_state_def)

section \<open>Properties of the execution engine\<close>

lemma build_order_request_cases:
  obtains (no_tick) "build_order_request v plan vo fm st
                       = (Inl RuntimeError, st\<lparr>ticks_asked := Suc (ticks_asked st)\<rparr>)"
      "mt5_symbol_info_tick v (ticks_asked st) = None"
  | (built) s vol ot pr sl' tp' c where
      "build_order_request v plan vo fm st
         = (Inr (DealRequest s vol ot pr sl' tp' c fm), st\<lparr>ticks_asked := Suc (ticks_asked st)\<rparr>)"
      "mt5_symbol_info_tick v (ticks_asked st) \<noteq> None"
  by (cases "mt5_symbol_info_tick v (ticks_asked st)")
    (auto simp: build_order_request_def symbol_info_tick_def Let_def)

lemma build_order_request_ok:
  assumes "mt5_symbol_info_tick v (ticks_asked st) \<noteq> None"
  obtains s vol ot pr sl' tp' c where
      "build_order_request v plan vo fm st
         = (Inr (DealRequest s vol ot pr sl' tp' c fm), st\<lparr>ticks_asked := Suc (ticks_asked st)\<rparr>)"
  using assms by (cases "mt5_symbol_info_tick v (ticks_asked st)")
    (auto simp: build_order_request_def symbol_info_tick_def Let_def)

text \<open>One pass of the loop body: either nothing is sent and the loop goes on, or one
  request with the mode is sent and the loop stops or goes on.\<close>

lemma fallback_fillings_step:
  obtains (skip) st1 where "sent st1 = sent st"
      "fallback_fillings v plan vol_ok (fm # fms) st = fallback_fillings v plan vol_ok fms st1"
      "mt5_symbol_info_tick v (ticks_asked st) = None"
      "coordinator_view st1 = coordinator_view st" "events st1 = events st"
  | (stop) st2 req where "sent st2 = sent st @ [(Fallback, req)]" "filling_of (Fallback, req) = Some fm"
      "fallback_fillings v plan vol_ok (fm # fms) st
         = (if is_success v (returned (mt5_order_send v (length (sent st))))
            then map_option extract_ticket_from_result (returned (mt5_order_send v (length (sent st))))
            else None, st2)"
      "is_success v (returned (mt5_order_send v (length (sent st))))
       \<or> (\<exists>r. returned (mt5_order_send v (length (sent st))) = Some r \<and> \<not> unsupported_filling r)"
      "mt5_symbol_info_tick v (ticks_asked st) \<noteq> None"
      "coordinator_view st2 = coordinator_view st" "events st2 = events st"
  | (continue) st2 req where "sent st2 = sent st @ [(Fallback, req)]" "filling_of (Fallback, req) = Some fm"
      "ticks_asked st2 = Suc (ticks_asked st)"
      "fallback_fillings v plan vol_ok (fm # fms) st = fallback_fillings v plan vol_ok fms st2"
      "\<not> is_success v (returned (mt5_order_send v (length (sent st))))"
      "mt5_symbol_info_tick v (ticks_asked st) \<noteq> None"
      "coordinator_view st2 = coordinator_view st" "events st2 = events st"
proof (cases rule: build_order_request_cases [where v = v and plan = plan and vo = "Some vol_ok"
      and fm = "Some fm" and st = st])
  case no_tick
  show ?thesis
    by (rule skip [of "st\<lparr>ticks_asked := Suc (ticks_asked st)\<rparr>"])
      (simp_all add: no_tick coordinator_view_def)
next
  case (built s vol ot pr sl' tp' c)
  define req where "req = DealRequest s vol ot pr sl' tp' c (Some fm)"
  define st1 where "st1 = st\<lparr>ticks_asked := Suc (ticks_asked st)\<rparr>"
  define st2 where "st2 = st1\<lparr>sent := sent st1 @ [(Fallback, req)]\<rparr>"
  have b: "build_order_request v plan (Some vol_ok) (Some fm) st = (Inr req, st1)"
    using built(1) by (simp add: req_def st1_def)
  have s: "order_send v Fallback req st1 = (mt5_order_send v (length (sent st)), st2)"
    by (simp add: order_send_def st2_def st1_def)
  have sent2: "sent st2 = sent st @ [(Fallback, req)]" by (simp add: st2_def st1_def)
  have fo: "filling_of (Fallback, req) = Some fm" by (simp add: filling_of_def req_def)
  have ta: "ticks_asked st2 = Suc (ticks_asked st)" by (simp add: st2_def st1_def)
  have fr: "coordinator_view st2 = coordinator_view st" "events st2 = events st"
    by (simp_all add: st2_def st1_def coordinator_view_def)
  let ?r = "returned (mt5_order_send v (length (sent st)))"
  show ?thesis
  proof (cases "is_success v ?r")
    case True
    show ?thesis
      by (rule stop [OF sent2 fo]) (simp_all add: b s True built(2) fr)
  next
    case False
    show ?thesis
    proof (cases ?r)
      case None
      show ?thesis
        by (rule continue [OF sent2 fo ta]) (simp_all add: b s None is_success_def built(2) fr)
    next
      case (Some r)
      have ns: "\<not> is_success v (Some r)" using False Some by simp
      show ?thesis
      proof (cases "unsupported_filling r")
        case True
        show ?thesis
          by (rule continue [OF sent2 fo ta]) (simp_all add: b s Some ns True built(2) fr)
      next
        case u: False
        show ?thesis
          by (rule stop [OF sent2 fo]) (simp_all add: b s Some ns u built(2) fr)
      qed
    qed
  qed
qed


lemma fallback_fillings_news:
  assumes "distinct fms"
  shows "\<exists>news used. sent (snd (fallback_fillings v plan vol_ok fms st)) = sent st @ news
     \<and> (\<forall>e \<in> set news. fst e = Fallback)
     \<and> map filling_of news = map Some used \<and> distinct used \<and> set used \<subseteq> set fms"
  using assms
proof (induction fms arbitrary: st)
  case Nil
  show ?case by simp
next
  case (Cons fm fms)
  then have d: "distinct fms" "fm \<notin> set fms" by simp_all
  show ?case
  proof (cases rule: fallback_fillings_step [where v = v and plan = plan and vol_ok = vol_ok
      and fm = fm and fms = fms and st = st])
    case (skip st1)
    obtain news used where "sent (snd (fallback_fillings v plan vol_ok fms st1)) = sent st1 @ news"
      "\<forall>e \<in> set news. fst e = Fallback" "map filling_of news = map Some used" "distinct used"
      "set used \<subseteq> set fms"
      using Cons.IH [OF d(1), of st1] by blast
    then show ?thesis unfolding skip(2) skip(1) by (intro exI [of _ news] exI [of _ used]) auto
  next
    case (stop st2 req)
    show ?thesis unfolding stop(3)
      by (intro exI [of _ "[(Fallback, req)]"] exI [of _ "[fm]"]) (simp add: stop(1,2))
  next
    case (continue st2 req)
    obtain news used where n: "sent (snd (fallback_fillings v plan vol_ok fms st2)) = sent st2 @ news"
      "\<forall>e \<in> set news. fst e = Fallback" "map filling_of news = map Some used" "distinct used"
      "set used \<subseteq> set fms"
      using Cons.IH [OF d(1), of st2] by blast
    show ?thesis unfolding continue(4)
      using n d(2) continue(1,2)
      by (intro exI [of _ "(Fallback, req) # news"] exI [of _ "fm # used"]) auto
  qed
qed

lemma fallback_fillings_stops:
  assumes "length (sent st) \<le> i" and "i < length (sent (snd (fallback_fillings v plan vol_ok fms st)))"
    and "is_success v (returned (mt5_order_send v i))"
  shows "Suc i = length (sent (snd (fallback_fillings v plan vol_ok fms st)))
         \<and> fst (fallback_fillings v plan vol_ok fms st)
             = map_option extract_ticket_from_result (returned (mt5_order_send v i))"
  using assms
proof (induction fms arbitrary: st)
  case Nil
  then show ?case by simp
next
  case (Cons fm fms)
  show ?case
  proof (cases rule: fallback_fillings_step [where v = v and plan = plan and vol_ok = vol_ok
      and fm = fm and fms = fms and st = st])
    case (skip st1)
    show ?thesis unfolding skip(2)
      using Cons.prems unfolding skip(2) by (intro Cons.IH) (simp_all add: skip(1))
  next
    case (stop st2 req)
    have "i = length (sent st)" using Cons.prems(1,2) unfolding stop(3) by (simp add: stop(1))
    then show ?thesis using Cons.prems(3) unfolding stop(3) by (simp add: stop(1))
  next
    case (continue st2 req)
    have "i \<noteq> length (sent st)" using Cons.prems(3) continue(5) by auto
    then have "length (sent st2) \<le> i" using Cons.prems(1) by (simp add: continue(1))
    then show ?thesis unfolding continue(4)
      using Cons.prems(2,3) unfolding continue(4) by (intro Cons.IH)
  qed
qed

lemma fallback_first_succeeds:
  assumes "mt5_symbol_info_tick v (ticks_asked st) \<noteq> None"
    and "is_success v (returned (mt5_order_send v (length (sent st))))"
  shows "fst (fallback_fillings v plan vol_ok (fm # fms) st)
           = map_option extract_ticket_from_result (returned (mt5_order_send v (length (sent st))))
         \<and> length (sent (snd (fallback_fillings v plan vol_ok (fm # fms) st))) = length (sent st) + 1"
proof (cases rule: fallback_fillings_step [where v = v and plan = plan and vol_ok = vol_ok
      and fm = fm and fms = fms and st = st])
  case (skip st1)
  then show ?thesis using assms(1) by simp
next
  case (stop st2 req)
  show ?thesis unfolding stop(3) using assms(2) by (simp add: stop(1))
next
  case (continue st2 req)
  then show ?thesis using assms(2) by simp
qed

lemma fallback_second_succeeds:
  assumes "mt5_symbol_info_tick v (ticks_asked st) \<noteq> None"
    and "mt5_symbol_info_tick v (Suc (ticks_asked st)) \<noteq> None"
    and "\<not> is_success v (returned (mt5_order_send v (length (sent st))))"
    and "case returned (mt5_order_send v (length (sent st))) of
           None \<Rightarrow> True | Some r \<Rightarrow> unsupported_filling r"
    and "is_success v (returned (mt5_order_send v (length (sent st) + 1)))"
  shows "fst (fallback_fillings v plan vol_ok (fm1 # fm2 # fms) st)
           = map_option extract_ticket_from_result (returned (mt5_order_send v (length (sent st) + 1)))
         \<and> length (sent (snd (fallback_fillings v plan vol_ok (fm1 # fm2 # fms) st))) = length (sent st) + 2"
proof (cases rule: fallback_fillings_step [where v = v and plan = plan and vol_ok = vol_ok
      and fm = fm1 and fms = "fm2 # fms" and st = st])
  case (skip st1)
  then show ?thesis using assms(1) by simp
next
  case (stop st2 req)
  then show ?thesis using assms(3,4) by auto
next
  case (continue st2 req)
  have "mt5_symbol_info_tick v (ticks_asked st2) \<noteq> None"
    "is_success v (returned (mt5_order_send v (length (sent st2))))"
    using assms(2,5) by (simp_all add: continue(1,3))
  from fallback_first_succeeds [OF this, of plan vol_ok fm2 fms]
  show ?thesis unfolding continue(4) by (simp add: continue(1))
qed


lemma set_unique: "set (unique xs) = set xs"
  by (induction xs rule: unique.induct) auto

lemma distinct_unique: "distinct (unique xs)"
  by (induction xs rule: unique.induct) (auto simp: set_unique)

lemma distinct_filling_candidates: "distinct (filling_candidates v)"
  by (simp add: filling_candidates_def distinct_unique)

lemma place_trade_cases:
  obtains (refused) st1 where "sent st1 = sent st" "place_trade cfg v plan st = (None, st1)"
      "coordinator_view st1 = coordinator_view st" "events st1 = events st @ [OPEN plan]"
  | (filled) st3 req where "sent st3 = sent st @ [(Entry, req)]"
      "is_success v (returned (mt5_order_send v (length (sent st))))"
      "place_trade cfg v plan st
         = (map_option extract_ticket_from_result (returned (mt5_order_send v (length (sent st)))), st3)"
      "coordinator_view st3 = coordinator_view st" "events st3 = events st @ [OPEN plan]"
  | (rejected) st3 req where "sent st3 = sent st @ [(Entry, req)]"
      "\<not> is_success v (returned (mt5_order_send v (length (sent st))))"
      "place_trade cfg v plan st = (None, st3)"
      "coordinator_view st3 = coordinator_view st" "events st3 = events st @ [OPEN plan]"
  | (fallback) st3 req vol_ok where "sent st3 = sent st @ [(Entry, req)]"
      "\<not> is_success v (returned (mt5_order_send v (length (sent st))))"
      "place_trade cfg v plan st = fallback_fillings v plan vol_ok (filling_candidates v) st3"
      "coordinator_view st3 = coordinator_view st" "events st3 = events st @ [OPEN plan]"
proof -
  define st0 where "st0 = st\<lparr>events := events st @ [OPEN plan]\<rparr>"
  define st1 where "st1 = st0\<lparr>ticks_asked := Suc (ticks_asked st0)\<rparr>"
  have s0: "sent st0 = sent st" "sent st1 = sent st" by (simp_all add: st0_def st1_def)
  have f0: "coordinator_view st0 = coordinator_view st" "events st0 = events st @ [OPEN plan]"
    "coordinator_view st1 = coordinator_view st" "events st1 = events st @ [OPEN plan]"
    by (simp_all add: st0_def st1_def coordinator_view_def)
  let ?submit = "\<lambda>si. (case build_order_request v plan (Some (adjusted_volume plan si)) None st1 of
           (Inl e, st2) \<Rightarrow> (None, st2)
         | (Inr req, st2) \<Rightarrow>
             (case order_send v Entry req st2 of
                (out, st3) \<Rightarrow>
                  let res = returned out
                  in if is_success v res
                     then (map_option extract_ticket_from_result res, st3)
                     else
                       (case res of
                          Some r \<Rightarrow>
                            if unsupported_filling r
                            then fallback_fillings v plan (adjusted_volume plan si)
                                   (filling_candidates v) st3
                            else (None, st3)
                        | None \<Rightarrow>
                            fallback_fillings v plan (adjusted_volume plan si)
                              (filling_candidates v) st3)))"
  have "place_trade cfg v plan st = (None, st0) \<or> place_trade cfg v plan st = (None, st1)
        \<or> (\<exists>si. place_trade cfg v plan st = ?submit si)"
  proof (cases "NOTIFY_ONLY cfg \<or> \<not> TRADE_ENABLED cfg \<or> plan_lots plan > FAT_FINGER_MAX_LOTS cfg")
    case True
    then have "place_trade cfg v plan st = (None, st0)"
      by (auto simp: place_trade_def Let_def st0_def)
    then show ?thesis by simp
  next
    case open_: False
    show ?thesis
    proof (cases "mt5_symbol_info v (plan_symbol plan)")
      case None
      then have "place_trade cfg v plan st = (None, st1)"
        using open_ by (simp add: place_trade_def Let_def symbol_info_tick_def st0_def st1_def)
      then show ?thesis by simp
    next
      case (Some si)
      show ?thesis
      proof (cases "\<not> getattr (trade_allowed si) True
          \<or> adjusted_volume plan si < py_or (getattr (volume_min si) (1 / 100)) (1 / 100)
          \<or> adjusted_volume plan si > py_or (getattr (volume_max si) (max (plan_lots plan) 100))
                                       (max (plan_lots plan) 100)")
        case True
        then have "place_trade cfg v plan st = (None, st1)"
          using open_ Some
          by (auto simp: place_trade_def Let_def symbol_info_tick_def st0_def st1_def)
        then show ?thesis by simp
      next
        case False
        then have "place_trade cfg v plan st = ?submit si"
          using open_ Some
          by (simp add: place_trade_def Let_def symbol_info_tick_def st0_def st1_def)
        then show ?thesis by blast
      qed
    qed
  qed
  then consider (a) "place_trade cfg v plan st = (None, st0)" | (b) "place_trade cfg v plan st = (None, st1)"
    | (c) si where "place_trade cfg v plan st = ?submit si"
    by blast
  then show ?thesis
  proof cases
    case a
    show ?thesis by (rule refused [OF s0(1) a f0(1,2)])
  next
    case b
    show ?thesis by (rule refused [OF s0(2) b f0(3,4)])
  next
    case (c si)
    show ?thesis
    proof (cases rule: build_order_request_cases [where v = v and plan = plan
          and vo = "Some (adjusted_volume plan si)" and fm = None and st = st1])
      case no_tick
      show ?thesis
        by (rule refused [of "st1\<lparr>ticks_asked := Suc (ticks_asked st1)\<rparr>"])
          (use f0 in \<open>simp_all add: c no_tick s0 coordinator_view_def\<close>)
    next
      case (built s vol ot pr sl' tp' cm)
      define req where "req = DealRequest s vol ot pr sl' tp' cm None"
      define st2 where "st2 = st1\<lparr>ticks_asked := Suc (ticks_asked st1)\<rparr>"
      define st3 where "st3 = st2\<lparr>sent := sent st2 @ [(Entry, req)]\<rparr>"
      have sent3: "sent st3 = sent st @ [(Entry, req)]" by (simp add: st3_def st2_def s0)
      have f3: "coordinator_view st3 = coordinator_view st" "events st3 = events st @ [OPEN plan]"
        using f0(3,4) by (simp_all add: st3_def st2_def coordinator_view_def)
      have os: "order_send v Entry req st2 = (mt5_order_send v (length (sent st)), st3)"
        by (simp add: order_send_def st3_def st2_def s0)
      let ?r = "returned (mt5_order_send v (length (sent st)))"
      have pt: "place_trade cfg v plan st =
          (if is_success v ?r then (map_option extract_ticket_from_result ?r, st3)
           else (case ?r of
                   Some r \<Rightarrow> if unsupported_filling r
                     then fallback_fillings v plan (adjusted_volume plan si) (filling_candidates v) st3
                     else (None, st3)
                 | None \<Rightarrow> fallback_fillings v plan (adjusted_volume plan si) (filling_candidates v) st3))"
        unfolding c built(1) by (simp add: req_def [symmetric] st2_def [symmetric] os Let_def)
      show ?thesis
      proof (cases "is_success v ?r")
        case True
        show ?thesis by (rule filled [OF sent3 True _ f3]) (simp add: pt True)
      next
        case False
        show ?thesis
        proof (cases ?r)
          case None
          show ?thesis
            by (rule fallback [OF sent3 False _ f3, of "adjusted_volume plan si"])
              (simp add: pt None is_success_def)
        next
          case (Some r)
          have ns: "\<not> is_success v (Some r)" using False Some by simp
          show ?thesis
          proof (cases "unsupported_filling r")
            case True
            show ?thesis
              by (rule fallback [OF sent3 False _ f3, of "adjusted_volume plan si"])
                (simp add: pt Some ns True)
          next
            case u: False
            show ?thesis by (rule rejected [OF sent3 False _ f3]) (simp add: pt Some ns u)
          qed
        qed
      qed
    qed
  qed
qed


lemma place_trade_modes_once:
  "\<exists>news used. sent (snd (place_trade cfg v plan st)) = sent st @ news
     \<and> map filling_of (filter (\<lambda>e. fst e = Fallback) news) = map Some used
     \<and> distinct used \<and> set used \<subseteq> set (filling_candidates v)"
proof (cases rule: place_trade_cases [where cfg = cfg and v = v and plan = plan and st = st])
  case (refused st1)
  show ?thesis unfolding refused(2)
    by (intro exI [of _ "[]"]) (simp add: refused(1))
next
  case (filled st3 req)
  show ?thesis unfolding filled(3)
    by (intro exI [of _ "[(Entry, req)]"] exI [of _ "[]"]) (simp add: filled(1))
next
  case (rejected st3 req)
  show ?thesis unfolding rejected(3)
    by (intro exI [of _ "[(Entry, req)]"] exI [of _ "[]"]) (simp add: rejected(1))
next
  case (fallback st3 req vol_ok)
  obtain news used where n:
    "sent (snd (fallback_fillings v plan vol_ok (filling_candidates v) st3)) = sent st3 @ news"
    "\<forall>e \<in> set news. fst e = Fallback" "map filling_of news = map Some used" "distinct used"
    "set used \<subseteq> set (filling_candidates v)"
    using fallback_fillings_news [OF distinct_filling_candidates, where plan = plan
        and vol_ok = vol_ok and st = st3] by blast
  have "filter (\<lambda>e. fst e = Fallback) news = news" using n(2) by (simp add: filter_id_conv)
  then show ?thesis unfolding fallback(3) using n
    by (intro exI [of _ "(Entry, req) # news"] exI [of _ used]) (simp add: fallback(1))
qed

lemma place_trade_stops:
  assumes "length (sent st) \<le> i" and "i < length (sent (snd (place_trade cfg v plan st)))"
    and "is_success v (returned (mt5_order_send v i))"
  shows "Suc i = length (sent (snd (place_trade cfg v plan st)))
         \<and> fst (place_trade cfg v plan st)
             = map_option extract_ticket_from_result (returned (mt5_order_send v i))"
proof (cases rule: place_trade_cases [where cfg = cfg and v = v and plan = plan and st = st])
  case (refused st1)
  then show ?thesis using assms(1,2) by simp
next
  case (filled st3 req)
  have "i = length (sent st)" using assms(1,2) unfolding filled(3) by (simp add: filled(1))
  then show ?thesis unfolding filled(3) by (simp add: filled(1))
next
  case (rejected st3 req)
  have "i = length (sent st)" using assms(1,2) unfolding rejected(3) by (simp add: rejected(1))
  then show ?thesis using rejected(2) assms(3) by simp
next
  case (fallback st3 req vol_ok)
  have "i \<noteq> length (sent st)" using fallback(2) assms(3) by auto
  then have "length (sent st3) \<le> i" using assms(1) by (simp add: fallback(1))
  then show ?thesis unfolding fallback(3)
    using assms(2,3) unfolding fallback(3) by (intro fallback_fillings_stops)
qed

lemma place_trade_falls_back:
  assumes "\<not> NOTIFY_ONLY cfg" and "TRADE_ENABLED cfg"
    and "plan_lots plan \<le> FAT_FINGER_MAX_LOTS cfg"
    and "mt5_symbol_info v (plan_symbol plan) = Some si"
    and "getattr (trade_allowed si) True"
    and "py_or (getattr (volume_min si) (1 / 100)) (1 / 100) \<le> adjusted_volume plan si"
    and "adjusted_volume plan si
           \<le> py_or (getattr (volume_max si) (max (plan_lots plan) 100)) (max (plan_lots plan) 100)"
    and "mt5_symbol_info_tick v (Suc (ticks_asked st)) \<noteq> None"
    and "returned (mt5_order_send v (length (sent st))) = Some r0"
    and "\<not> is_success v (Some r0)" and "unsupported_filling r0"
  obtains st3 req where "sent st3 = sent st @ [(Entry, req)]"
    "ticks_asked st3 = ticks_asked st + 2"
    "place_trade cfg v plan st
       = fallback_fillings v plan (adjusted_volume plan si) (filling_candidates v) st3"
proof -
  define st1 where "st1 = st\<lparr>events := events st @ [OPEN plan], ticks_asked := Suc (ticks_asked st)\<rparr>"
  have t1: "mt5_symbol_info_tick v (ticks_asked st1) \<noteq> None"
    using assms(8) by (simp add: st1_def)
  obtain s vol ot pr sl' tp' cm where b:
    "build_order_request v plan (Some (adjusted_volume plan si)) None st1
       = (Inr (DealRequest s vol ot pr sl' tp' cm None), st1\<lparr>ticks_asked := Suc (ticks_asked st1)\<rparr>)"
    using build_order_request_ok [OF t1] by blast
  define req where "req = DealRequest s vol ot pr sl' tp' cm None"
  define st2 where "st2 = st1\<lparr>ticks_asked := Suc (ticks_asked st1)\<rparr>"
  define st3 where "st3 = st2\<lparr>sent := sent st2 @ [(Entry, req)]\<rparr>"
  have os: "order_send v Entry req st2 = (mt5_order_send v (length (sent st)), st3)"
    by (simp add: order_send_def st3_def st2_def st1_def)
  have b': "build_order_request v plan (Some (adjusted_volume plan si)) None st1 = (Inr req, st2)"
    using b by (simp add: req_def st2_def)
  have "place_trade cfg v plan st
       = fallback_fillings v plan (adjusted_volume plan si) (filling_candidates v) st3"
    using assms(1-7,10,11)
    by (simp add: place_trade_def Let_def symbol_info_tick_def st1_def [symmetric] b' os assms(9)
        not_less [symmetric])
  moreover have "sent st3 = sent st @ [(Entry, req)]" "ticks_asked st3 = ticks_asked st + 2"
    by (simp_all add: st3_def st2_def st1_def)
  ultimately show ?thesis using that by blast
qed


lemma floor_log10_pow10: "\<lfloor>log 10 (1 / 10 ^ k)\<rfloor> = - int k"
proof -
  have "log 10 (1 / 10 ^ k) = - real k"
    by (simp add: log_divide log_nat_power)
  also have "\<dots> = of_int (- int k)" by simp
  finally show ?thesis by (simp only: floor_of_int)
qed

lemma round_volume_to_step_example:
  "round_volume_to_step (1 / 100) (1 / 100) 100 (1 / 100) = 1 / 100"
  using floor_log10_pow10 [of 2]
  by (simp add: round_volume_to_step_def Let_def py_round_def round_half_even_def)

lemma adjusted_volume_example:
  "adjusted_volume \<lparr>plan_symbol = ''EURUSD'', plan_direction = ''long'', plan_entry_price = 11 / 10,
      plan_sl = 109 / 100, plan_tp = 111 / 100, plan_lots = 1 / 100, plan_tf_entry = ''M5'',
      plan_score = 0, plan_comment = ''swing''\<rparr>
     \<lparr>trade_tick_value = Some 1, trade_tick_size = Some (1 / 100000),
      trade_contract_size = Some 100000, volume_step = Some (1 / 100),
      volume_min = Some (1 / 100), volume_max = Some 100, trade_allowed = Some True\<rparr> = 1 / 100"
  by (simp add: adjusted_volume_def getattr_def py_or_def round_volume_to_step_example)

lemma filling_candidates_example: "filling_candidates \<lparr>mt5_symbol_info = (\<lambda>s. Some \<lparr>trade_tick_value = Some 1, trade_tick_size = Some (1 / 100000),
          trade_contract_size = Some 100000, volume_step = Some (1 / 100),
          volume_min = Some (1 / 100), volume_max = Some 100, trade_allowed = Some True\<rparr>),
      mt5_symbol_info_tick = (\<lambda>n. Some \<lparr>bid = 11 / 10, ask = 11001 / 10000\<rparr>),
      mt5_order_send = (\<lambda>n. if n = 2
         then Returns (Some \<lparr>res_retcode = 10009, res_comment = ''done'', res_deal = 77, res_order = 78\<rparr>)
         else Returns (Some \<lparr>res_retcode = 10030, res_comment = ''Unsupported filling mode'',
                              res_deal = 0, res_order = 0\<rparr>)),
      TRADE_RETCODE_DONE = Some 10009,
      ORDER_FILLING_IOC = Some 1, ORDER_FILLING_FOK = Some 0, ORDER_FILLING_RETURN = Some 2\<rparr> = [1, 0, 2]"
  by (simp add: filling_candidates_def List.map_filter_def)

lemma place_trade_scenario_C:
  "place_trade default_config \<lparr>mt5_symbol_info = (\<lambda>s. Some \<lparr>trade_tick_value = Some 1, trade_tick_size = Some (1 / 100000),
          trade_contract_size = Some 100000, volume_step = Some (1 / 100),
          volume_min = Some (1 / 100), volume_max = Some 100, trade_allowed = Some True\<rparr>),
      mt5_symbol_info_tick = (\<lambda>n. Some \<lparr>bid = 11 / 10, ask = 11001 / 10000\<rparr>),
      mt5_order_send = (\<lambda>n. if n = 2
         then Returns (Some \<lparr>res_retcode = 10009, res_comment = ''done'', res_deal = 77, res_order = 78\<rparr>)
         else Returns (Some \<lparr>res_retcode = 10030, res_comment = ''Unsupported filling mode'',
                              res_deal = 0, res_order = 0\<rparr>)),
      TRADE_RETCODE_DONE = Some 10009,
      ORDER_FILLING_IOC = Some 1, ORDER_FILLING_FOK = Some 0, ORDER_FILLING_RETURN = Some 2\<rparr> \<lparr>plan_symbol = ''EURUSD'', plan_direction = ''long'', plan_entry_price = 11 / 10,
      plan_sl = 109 / 100, plan_tp = 111 / 100, plan_lots = 1 / 100, plan_tf_entry = ''M5'',
      plan_score = 0, plan_comment = ''swing''\<rparr> initial_state 
   = (Some 77, initial_state\<lparr>events := [OPEN \<lparr>plan_symbol = ''EURUSD'', plan_direction = ''long'', plan_entry_price = 11 / 10,
      plan_sl = 109 / 100, plan_tp = 111 / 100, plan_lots = 1 / 100, plan_tf_entry = ''M5'',
      plan_score = 0, plan_comment = ''swing''\<rparr>], ticks_asked := 4,
        sent := [(Entry, DealRequest ''EURUSD'' (1 / 100) ORDER_TYPE_BUY (11001 / 10000) (109 / 100) (111 / 100) ''swing'' None),
                 (Fallback, DealRequest ''EURUSD'' (1 / 100) ORDER_TYPE_BUY (11001 / 10000) (109 / 100) (111 / 100) ''swing'' (Some 1)),
                 (Fallback, DealRequest ''EURUSD'' (1 / 100) ORDER_TYPE_BUY (11001 / 10000) (109 / 100) (111 / 100) ''swing'' (Some 0))]\<rparr>)"
  by (simp add: place_trade_def default_config_def initial_state_def symbol_info_tick_def
      adjusted_volume_example getattr_def py_or_def build_order_request_def order_send_def Let_def
      returned_def is_success_def unsupported_filling_def filling_candidates_example
      extract_ticket_from_result_def is_long_def lower_def lower_char_def)

text \<open>
  C2, as stated, on a venue with the filling constants of MetaTrader5 (IOC 1, FOK 0,
  RETURN 2) that rejects the default submission and the IOC submission with retcode
  10030 and accepts the FOK submission: the second alternate mode succeeds, the ticket of
  that attempt is returned, and three submissions are recorded, not two.
\<close>

theorem C2_filling_fallback_counterexample:
  "filling_candidates \<lparr>mt5_symbol_info = (\<lambda>s. Some \<lparr>trade_tick_value = Some 1, trade_tick_size = Some (1 / 100000),
          trade_contract_size = Some 100000, volume_step = Some (1 / 100),
          volume_min = Some (1 / 100), volume_max = Some 100, trade_allowed = Some True\<rparr>),
      mt5_symbol_info_tick = (\<lambda>n. Some \<lparr>bid = 11 / 10, ask = 11001 / 10000\<rparr>),
      mt5_order_send = (\<lambda>n. if n = 2
         then Returns (Some \<lparr>res_retcode = 10009, res_comment = ''done'', res_deal = 77, res_order = 78\<rparr>)
         else Returns (Some \<lparr>res_retcode = 10030, res_comment = ''Unsupported filling mode'',
                              res_deal = 0, res_order = 0\<rparr>)),
      TRADE_RETCODE_DONE = Some 10009,
      ORDER_FILLING_IOC = Some 1, ORDER_FILLING_FOK = Some 0, ORDER_FILLING_RETURN = Some 2\<rparr> = [1, 0, 2]
   \<and> map filling_of (sent (snd (place_trade default_config \<lparr>mt5_symbol_info = (\<lambda>s. Some \<lparr>trade_tick_value = Some 1, trade_tick_size = Some (1 / 100000),
          trade_contract_size = Some 100000, volume_step = Some (1 / 100),
          volume_min = Some (1 / 100), volume_max = Some 100, trade_allowed = Some True\<rparr>),
      mt5_symbol_info_tick = (\<lambda>n. Some \<lparr>bid = 11 / 10, ask = 11001 / 10000\<rparr>),
      mt5_order_send = (\<lambda>n. if n = 2
         then Returns (Some \<lparr>res_retcode = 10009, res_comment = ''done'', res_deal = 77, res_order = 78\<rparr>)
         else Returns (Some \<lparr>res_retcode = 10030, res_comment = ''Unsupported filling mode'',
                              res_deal = 0, res_order = 0\<rparr>)),
      TRADE_RETCODE_DONE = Some 10009,
      ORDER_FILLING_IOC = Some 1, ORDER_FILLING_FOK = Some 0, ORDER_FILLING_RETURN = Some 2\<rparr> \<lparr>plan_symbol = ''EURUSD'', plan_direction = ''long'', plan_entry_price = 11 / 10,
      plan_sl = 109 / 100, plan_tp = 111 / 100, plan_lots = 1 / 100, plan_tf_entry = ''M5'',
      plan_score = 0, plan_comment = ''swing''\<rparr> initial_state)))
       = [None, Some 1, Some 0]
   \<and> fst (place_trade default_config \<lparr>mt5_symbol_info = (\<lambda>s. Some \<lparr>trade_tick_value = Some 1, trade_tick_size = Some (1 / 100000),
          trade_contract_size = Some 100000, volume_step = Some (1 / 100),
          volume_min = Some (1 / 100), volume_max = Some 100, trade_allowed = Some True\<rparr>),
      mt5_symbol_info_tick = (\<lambda>n. Some \<lparr>bid = 11 / 10, ask = 11001 / 10000\<rparr>),
      mt5_order_send = (\<lambda>n. if n = 2
         then Returns (Some \<lparr>res_retcode = 10009, res_comment = ''done'', res_deal = 77, res_order = 78\<rparr>)
         else Returns (Some \<lparr>res_retcode = 10030, res_comment = ''Unsupported filling mode'',
                              res_deal = 0, res_order = 0\<rparr>)),
      TRADE_RETCODE_DONE = Some 10009,
      ORDER_FILLING_IOC = Some 1, ORDER_FILLING_FOK = Some 0, ORDER_FILLING_RETURN = Some 2\<rparr> \<lparr>plan_symbol = ''EURUSD'', plan_direction = ''long'', plan_entry_price = 11 / 10,
      plan_sl = 109 / 100, plan_tp = 111 / 100, plan_lots = 1 / 100, plan_tf_entry = ''M5'',
      plan_score = 0, plan_comment = ''swing''\<rparr> initial_state) = Some 77
   \<and> length (sent (snd (place_trade default_config \<lparr>mt5_symbol_info = (\<lambda>s. Some \<lparr>trade_tick_value = Some 1, trade_tick_size = Some (1 / 100000),
          trade_contract_size = Some 100000, volume_step = Some (1 / 100),
          volume_min = Some (1 / 100), volume_max = Some 100, trade_allowed = Some True\<rparr>),
      mt5_symbol_info_tick = (\<lambda>n. Some \<lparr>bid = 11 / 10, ask = 11001 / 10000\<rparr>),
      mt5_order_send = (\<lambda>n. if n = 2
         then Returns (Some \<lparr>res_retcode = 10009, res_comment = ''done'', res_deal = 77, res_order = 78\<rparr>)
         else Returns (Some \<lparr>res_retcode = 10030, res_comment = ''Unsupported filling mode'',
                              res_deal = 0, res_order = 0\<rparr>)),
      TRADE_RETCODE_DONE = Some 10009,
      ORDER_FILLING_IOC = Some 1, ORDER_FILLING_FOK = Some 0, ORDER_FILLING_RETURN = Some 2\<rparr> \<lparr>plan_symbol = ''EURUSD'', plan_direction = ''long'', plan_entry_price = 11 / 10,
      plan_sl = 109 / 100, plan_tp = 111 / 100, plan_lots = 1 / 100, plan_tf_entry = ''M5'',
      plan_score = 0, plan_comment = ''swing''\<rparr> initial_state))) \<noteq> 2"
  unfolding place_trade_scenario_C
  by (simp add: filling_candidates_example filling_of_def)

text \<open>
  C2, amended: when the order reaches the venue, the default submission is rejected as
  an unsupported filling mode and at least two alternate modes are known, then
  \<^item> if the first alternate submission succeeds, its ticket is returned and exactly two
    submissions are recorded;
  \<^item> if the first alternate submission fails for the filling mode (or returns nothing)
    and the second succeeds, the ticket of the second is returned and exactly three
    submissions are recorded;
  \<^item> the filling modes of the fallback submissions are distinct candidates: each
    alternate mode is tried at most once;
  \<^item> a successful submission is the last one: the loop stops at the first success.
\<close>

theorem C2_filling_fallback_amended:
  assumes "\<not> NOTIFY_ONLY cfg" and "TRADE_ENABLED cfg"
    and "plan_lots plan \<le> FAT_FINGER_MAX_LOTS cfg"
    and "mt5_symbol_info v (plan_symbol plan) = Some si"
    and "getattr (trade_allowed si) True"
    and "py_or (getattr (volume_min si) (1 / 100)) (1 / 100) \<le> adjusted_volume plan si"
    and "adjusted_volume plan si
           \<le> py_or (getattr (volume_max si) (max (plan_lots plan) 100)) (max (plan_lots plan) 100)"
    and ticks: "\<forall>n. mt5_symbol_info_tick v n \<noteq> None"
    and "returned (mt5_order_send v (length (sent st))) = Some r0"
    and "\<not> is_success v (Some r0)" and "unsupported_filling r0"
    and cands: "filling_candidates v = f1 # f2 # rest"
  shows "(is_success v (returned (mt5_order_send v (length (sent st) + 1)))
          \<longrightarrow> fst (place_trade cfg v plan st)
                = map_option extract_ticket_from_result
                    (returned (mt5_order_send v (length (sent st) + 1)))
              \<and> length (sent (snd (place_trade cfg v plan st))) = length (sent st) + 2)
       \<and> (\<not> is_success v (returned (mt5_order_send v (length (sent st) + 1)))
          \<and> (case returned (mt5_order_send v (length (sent st) + 1)) of
                None \<Rightarrow> True | Some r \<Rightarrow> unsupported_filling r)
          \<and> is_success v (returned (mt5_order_send v (length (sent st) + 2)))
          \<longrightarrow> fst (place_trade cfg v plan st)
                = map_option extract_ticket_from_result
                    (returned (mt5_order_send v (length (sent st) + 2)))
              \<and> length (sent (snd (place_trade cfg v plan st))) = length (sent st) + 3)
       \<and> (\<exists>news used. sent (snd (place_trade cfg v plan st)) = sent st @ news
             \<and> map filling_of (filter (\<lambda>e. fst e = Fallback) news) = map Some used
             \<and> distinct used \<and> set used \<subseteq> set (filling_candidates v))
       \<and> (\<forall>i. length (sent st) \<le> i \<and> i < length (sent (snd (place_trade cfg v plan st)))
              \<and> is_success v (returned (mt5_order_send v i))
            \<longrightarrow> Suc i = length (sent (snd (place_trade cfg v plan st))))"
proof -
  obtain st3 req where st3: "sent st3 = sent st @ [(Entry, req)]"
    "ticks_asked st3 = ticks_asked st + 2"
    "place_trade cfg v plan st
       = fallback_fillings v plan (adjusted_volume plan si) (filling_candidates v) st3"
    using place_trade_falls_back [OF assms(1-7) ticks [rule_format] assms(9-11)] by blast
  have t: "mt5_symbol_info_tick v (ticks_asked st3) \<noteq> None"
    "mt5_symbol_info_tick v (Suc (ticks_asked st3)) \<noteq> None"
    using ticks by simp_all
  have len: "length (sent st3) = length (sent st) + 1" by (simp add: st3(1))
  have first: "fst (place_trade cfg v plan st)
                = map_option extract_ticket_from_result
                    (returned (mt5_order_send v (length (sent st) + 1)))
              \<and> length (sent (snd (place_trade cfg v plan st))) = length (sent st) + 2"
    if "is_success v (returned (mt5_order_send v (length (sent st) + 1)))"
    using fallback_first_succeeds [OF t(1), of plan "adjusted_volume plan si" f1 "f2 # rest"] that
    unfolding st3(3) cands len by simp
  have second: "fst (place_trade cfg v plan st)
                = map_option extract_ticket_from_result
                    (returned (mt5_order_send v (length (sent st) + 2)))
              \<and> length (sent (snd (place_trade cfg v plan st))) = length (sent st) + 3"
    if "\<not> is_success v (returned (mt5_order_send v (length (sent st) + 1)))"
      and "case returned (mt5_order_send v (length (sent st) + 1)) of
             None \<Rightarrow> True | Some r \<Rightarrow> unsupported_filling r"
      and "is_success v (returned (mt5_order_send v (length (sent st) + 2)))"
    using fallback_second_succeeds [OF t, of plan "adjusted_volume plan si" f1 f2 rest] that
    unfolding st3(3) cands len by (simp add: add.assoc)
  show ?thesis
    using first second place_trade_modes_once [of cfg v plan st]
      place_trade_stops [of st _ cfg v plan]
    by blast
qed

theorem C2_filling_fallback_amended_witness:
  "fst (place_trade default_config \<lparr>mt5_symbol_info = (\<lambda>s. Some \<lparr>trade_tick_value = Some 1, trade_tick_size = Some (1 / 100000),
          trade_contract_size = Some 100000, volume_step = Some (1 / 100),
          volume_min = Some (1 / 100), volume_max = Some 100, trade_allowed = Some True\<rparr>),
      mt5_symbol_info_tick = (\<lambda>n. Some \<lparr>bid = 11 / 10, ask = 11001 / 10000\<rparr>),
      mt5_order_send = (\<lambda>n. if n = 2
         then Returns (Some \<lparr>res_retcode = 10009, res_comment = ''done'', res_deal = 77, res_order = 78\<rparr>)
         else Returns (Some \<lparr>res_retcode = 10030, res_comment = ''Unsupported filling mode'',
                              res_deal = 0, res_order = 0\<rparr>)),
      TRADE_RETCODE_DONE = Some 10009,
      ORDER_FILLING_IOC = Some 1, ORDER_FILLING_FOK = Some 0, ORDER_FILLING_RETURN = Some 2\<rparr> \<lparr>plan_symbol = ''EURUSD'', plan_direction = ''long'', plan_entry_price = 11 / 10,
      plan_sl = 109 / 100, plan_tp = 111 / 100, plan_lots = 1 / 100, plan_tf_entry = ''M5'',
      plan_score = 0, plan_comment = ''swing''\<rparr> initial_state) = Some 77
   \<and> length (sent (snd (place_trade default_config \<lparr>mt5_symbol_info = (\<lambda>s. Some \<lparr>trade_tick_value = Some 1, trade_tick_size = Some (1 / 100000),
          trade_contract_size = Some 100000, volume_step = Some (1 / 100),
          volume_min = Some (1 / 100), volume_max = Some 100, trade_allowed = Some True\<rparr>),
      mt5_symbol_info_tick = (\<lambda>n. Some \<lparr>bid = 11 / 10, ask = 11001 / 10000\<rparr>),
      mt5_order_send = (\<lambda>n. if n = 2
         then Returns (Some \<lparr>res_retcode = 10009, res_comment = ''done'', res_deal = 77, res_order = 78\<rparr>)
         else Returns (Some \<lparr>res_retcode = 10030, res_comment = ''Unsupported filling mode'',
                              res_deal = 0, res_order = 0\<rparr>)),
      TRADE_RETCODE_DONE = Some 10009,
      ORDER_FILLING_IOC = Some 1, ORDER_FILLING_FOK = Some 0, ORDER_FILLING_RETURN = Some 2\<rparr> \<lparr>plan_symbol = ''EURUSD'', plan_direction = ''long'', plan_entry_price = 11 / 10,
      plan_sl = 109 / 100, plan_tp = 111 / 100, plan_lots = 1 / 100, plan_tf_entry = ''M5'',
      plan_score = 0, plan_comment = ''swing''\<rparr> initial_state))) = 3"
  using C2_filling_fallback_amended
    [where cfg = default_config and v = "\<lparr>mt5_symbol_info = (\<lambda>s. Some \<lparr>trade_tick_value = Some 1, trade_tick_size = Some (1 / 100000),
          trade_contract_size = Some 100000, volume_step = Some (1 / 100),
          volume_min = Some (1 / 100), volume_max = Some 100, trade_allowed = Some True\<rparr>),
      mt5_symbol_info_tick = (\<lambda>n. Some \<lparr>bid = 11 / 10, ask = 11001 / 10000\<rparr>),
      mt5_order_send = (\<lambda>n. if n = 2
         then Returns (Some \<lparr>res_retcode = 10009, res_comment = ''done'', res_deal = 77, res_order = 78\<rparr>)
         else Returns (Some \<lparr>res_retcode = 10030, res_comment = ''Unsupported filling mode'',
                              res_deal = 0, res_order = 0\<rparr>)),
      TRADE_RETCODE_DONE = Some 10009,
      ORDER_FILLING_IOC = Some 1, ORDER_FILLING_FOK = Some 0, ORDER_FILLING_RETURN = Some 2\<rparr>" and plan = "\<lparr>plan_symbol = ''EURUSD'', plan_direction = ''long'', plan_entry_price = 11 / 10,
      plan_sl = 109 / 100, plan_tp = 111 / 100, plan_lots = 1 / 100, plan_tf_entry = ''M5'',
      plan_score = 0, plan_comment = ''swing''\<rparr>" and st = initial_state
       and si = "\<lparr>trade_tick_value = Some 1, trade_tick_size = Some (1 / 100000),
      trade_contract_size = Some 100000, volume_step = Some (1 / 100),
      volume_min = Some (1 / 100), volume_max = Some 100, trade_allowed = Some True\<rparr>"
       and ?r0.0 = "\<lparr>res_retcode = 10030, res_comment = ''Unsupported filling mode'',
                  res_deal = 0, res_order = 0\<rparr>"
       and ?f1.0 = 1 and ?f2.0 = 0 and rest = "[2]"]
  by (simp add: default_config_def initial_state_def adjusted_volume_example
      filling_candidates_example getattr_def py_or_def returned_def is_success_def
      unsupported_filling_def extract_ticket_from_result_def)

section \<open>Properties of the execution coordinator\<close>

lemma fallback_fillings_frame:
  "coordinator_view (snd (fallback_fillings v plan vol_ok fms st)) = coordinator_view st
   \<and> events (snd (fallback_fillings v plan vol_ok fms st)) = events st"
proof (induction fms arbitrary: st)
  case Nil
  show ?case by simp
next
  case (Cons fm fms)
  show ?case
  proof (cases rule: fallback_fillings_step [where v = v and plan = plan and vol_ok = vol_ok
      and fm = fm and fms = fms and st = st])
    case (skip st1)
    show ?thesis unfolding skip(2) using Cons.IH [of st1] by (simp add: skip(4,5))
  next
    case (stop st2 req)
    show ?thesis unfolding stop(3) by (simp add: stop(6,7))
  next
    case (continue st2 req)
    show ?thesis unfolding continue(4) using Cons.IH [of st2] by (simp add: continue(7,8))
  qed
qed

lemma place_trade_frame:
  "coordinator_view (snd (place_trade cfg v plan st)) = coordinator_view st
   \<and> events (snd (place_trade cfg v plan st)) = events st @ [OPEN plan]"
proof (cases rule: place_trade_cases [where cfg = cfg and v = v and plan = plan and st = st])
  case (refused st1)
  show ?thesis unfolding refused(2) by (simp add: refused(3,4))
next
  case (filled st3 req)
  show ?thesis unfolding filled(3) by (simp add: filled(4,5))
next
  case (rejected st3 req)
  show ?thesis unfolding rejected(3) by (simp add: rejected(4,5))
next
  case (fallback st3 req vol_ok)
  show ?thesis unfolding fallback(3)
    using fallback_fillings_frame [of v plan vol_ok "filling_candidates v" st3]
    by (simp add: fallback(4,5))
qed

lemma place_trade_fields:
  "last_signal (snd (place_trade cfg v plan st)) = last_signal st"
  "last_plan_signature (snd (place_trade cfg v plan st)) = last_plan_signature st"
  "started (snd (place_trade cfg v plan st)) = started st"
  "journal_logged_signature (snd (place_trade cfg v plan st)) = journal_logged_signature st"
  using place_trade_frame [of cfg v plan st] by (simp_all add: coordinator_view_def)

text \<open>execute_plan\<close>

lemma execute_plan_sets_signal:
  "last_signal (snd (execute_plan cfg v env plan st)) (plan_symbol plan) = Some True"
  by (simp add: execute_plan_def Let_def split: prod.splits option.splits)

lemma execute_plan_other_signal:
  assumes "s \<noteq> plan_symbol plan"
  shows "last_signal (snd (execute_plan cfg v env plan st)) s = last_signal st s"
proof -
  define plan' where "plan' = (case loaded_comment env of
                    Inr c \<Rightarrow> if c \<noteq> [] then plan\<lparr>plan_comment := c\<rparr> else plan
                  | Inl e \<Rightarrow> plan)"
  have "last_signal (snd (place_trade cfg v plan' st)) = last_signal st"
    by (rule place_trade_fields)
  then show ?thesis using assms
    by (auto simp: execute_plan_def Let_def plan'_def [symmetric] split: prod.splits option.splits)
qed

lemma execute_plan_last_plan_signature:
  "last_plan_signature (snd (execute_plan cfg v env plan st)) = last_plan_signature st"
proof -
  define plan' where "plan' = (case loaded_comment env of
                    Inr c \<Rightarrow> if c \<noteq> [] then plan\<lparr>plan_comment := c\<rparr> else plan
                  | Inl e \<Rightarrow> plan)"
  have "last_plan_signature (snd (place_trade cfg v plan' st)) = last_plan_signature st"
    by (rule place_trade_fields)
  then show ?thesis
    by (auto simp: execute_plan_def Let_def plan'_def [symmetric] split: prod.splits option.splits)
qed

lemma execute_plan_suppressed:
  assumes "last_signal st (plan_symbol plan) = Some True"
  shows "fst (execute_plan cfg v env plan st) = None"
    and "sent (snd (execute_plan cfg v env plan st)) = sent st"
    and "events (snd (execute_plan cfg v env plan st))
          = events st @ [PLAN_SKIP (plan_symbol plan)
               (if started st (plan_symbol plan) = Some True then ''no_rising_edge''
                else ''startup_protection'')]"
  using assms
  by (auto simp: execute_plan_def Let_def split: option.splits)

lemma execute_plan_one_event:
  "\<exists>e. events (snd (execute_plan cfg v env plan st)) = events st @ [e]"
proof -
  define plan' where "plan' = (case loaded_comment env of
                    Inr c \<Rightarrow> if c \<noteq> [] then plan\<lparr>plan_comment := c\<rparr> else plan
                  | Inl e \<Rightarrow> plan)"
  have "events (snd (place_trade cfg v plan' st)) = events st @ [OPEN plan']"
    using place_trade_frame by simp
  then show ?thesis
    by (auto simp: execute_plan_def Let_def plan'_def [symmetric] split: prod.splits option.splits)
qed


lemma tick_symbol_frame:
  "sent (tick_symbol cfg s st) = sent st"
  "events (tick_symbol cfg s st) = events st"
  "last_signal (tick_symbol cfg s st) = last_signal st"
  "last_plan_signature (tick_symbol cfg s st) = last_plan_signature st"
  by (simp_all add: tick_symbol_def Let_def)

lemma symbol_cycle_duplicate:
  assumes "last_plan_signature st s = Some (plan_signature p)"
  shows "symbol_cycle cfg v env s (Plan p) st = tick_symbol cfg s st"
  using assms by (simp add: symbol_cycle_def Let_def tick_symbol_frame)

lemma symbol_cycle_fresh:
  assumes "last_plan_signature st s \<noteq> Some (plan_signature p)"
  shows "symbol_cycle cfg v env s (Plan p) st =
           (if truthy (fst (execute_plan cfg v env p (tick_symbol cfg s st)))
            then (snd (execute_plan cfg v env p (tick_symbol cfg s st)))
                   \<lparr>last_plan_signature :=
                      (last_plan_signature (snd (execute_plan cfg v env p (tick_symbol cfg s st))))
                        (s \<mapsto> plan_signature p)\<rparr>
            else snd (execute_plan cfg v env p (tick_symbol cfg s st)))"
  using assms by (simp add: symbol_cycle_def Let_def tick_symbol_frame split: prod.splits)

lemma symbol_cycle_suppressed:
  assumes "plan_symbol p = s" and "last_signal st s = Some True"
  shows "sent (symbol_cycle cfg v env s (Plan p) st) = sent st
         \<and> execution_attempts (symbol_cycle cfg v env s (Plan p) st) = execution_attempts st"
proof (cases "last_plan_signature st s = Some (plan_signature p)")
  case True
  then show ?thesis
    by (simp add: symbol_cycle_duplicate tick_symbol_frame execution_attempts_def)
next
  case False
  define st1 where "st1 = tick_symbol cfg s st"
  have flag: "last_signal st1 (plan_symbol p) = Some True"
    using assms by (simp add: st1_def tick_symbol_frame)
  have "fst (execute_plan cfg v env p st1) = None"
    "sent (snd (execute_plan cfg v env p st1)) = sent st"
    "execution_attempts (snd (execute_plan cfg v env p st1)) = execution_attempts st"
    using execute_plan_suppressed [OF flag, of cfg v env]
    by (simp_all add: st1_def tick_symbol_frame execution_attempts_def)
  then show ?thesis
    by (simp add: symbol_cycle_fresh [OF False] st1_def [symmetric] truthy_def)
qed

lemma symbol_cycle_after_plan:
  assumes "plan_symbol p = s"
  shows "last_signal (symbol_cycle cfg v env s (Plan p) st) s = Some True
         \<or> last_plan_signature (symbol_cycle cfg v env s (Plan p) st) s = Some (plan_signature p)"
proof (cases "last_plan_signature st s = Some (plan_signature p)")
  case True
  then show ?thesis by (simp add: symbol_cycle_duplicate tick_symbol_frame)
next
  case False
  have "last_signal (snd (execute_plan cfg v env p (tick_symbol cfg s st))) s = Some True"
    using execute_plan_sets_signal [of cfg v env p] assms by simp
  then show ?thesis
    by (simp add: symbol_cycle_fresh [OF False])
qed

lemma symbol_cycle_attempts:
  "length (execution_attempts (symbol_cycle cfg v env s built st)) \<le> length (execution_attempts st) + 1"
proof (cases built)
  case (Plan p)
  obtain e where "events (snd (execute_plan cfg v env p (tick_symbol cfg s st))) = events st @ [e]"
    using execute_plan_one_event [of cfg v env p "tick_symbol cfg s st"]
    by (auto simp: tick_symbol_frame)
  then show ?thesis using Plan
    by (cases "last_plan_signature st s = Some (plan_signature p)")
      (simp_all add: symbol_cycle_fresh symbol_cycle_duplicate tick_symbol_frame
        execution_attempts_def)
qed (simp_all add: symbol_cycle_def Let_def tick_symbol_frame execution_attempts_def clear_signal_def)

lemma execute_plan_sent:
  "sent (snd (execute_plan cfg v env plan st)) = sent st
   \<or> (\<exists>plan'. sent (snd (execute_plan cfg v env plan st))
                 = sent (snd (place_trade cfg v plan' st)))"
proof -
  define plan' where "plan' = (case loaded_comment env of
                    Inr c \<Rightarrow> if c \<noteq> [] then plan\<lparr>plan_comment := c\<rparr> else plan
                  | Inl e \<Rightarrow> plan)"
  have "sent (snd (execute_plan cfg v env plan st)) = sent st
      \<or> sent (snd (execute_plan cfg v env plan st)) = sent (snd (place_trade cfg v plan' st))"
    by (auto simp: execute_plan_def Let_def plan'_def [symmetric] split: prod.splits option.splits)
  then show ?thesis by blast
qed

lemma symbol_cycle_sent:
  "sent (symbol_cycle cfg v env s built st) = sent st
   \<or> (\<exists>plan' st'. sent st' = sent st
        \<and> sent (symbol_cycle cfg v env s built st) = sent (snd (place_trade cfg v plan' st')))"
proof (cases built)
  case (Plan p)
  show ?thesis
  proof (cases "last_plan_signature st s = Some (plan_signature p)")
    case True
    then show ?thesis using Plan by (simp add: symbol_cycle_duplicate tick_symbol_frame)
  next
    case False
    have "sent (symbol_cycle cfg v env s built st)
            = sent (snd (execute_plan cfg v env p (tick_symbol cfg s st)))"
      using Plan by (simp add: symbol_cycle_fresh [OF False])
    moreover have "sent (tick_symbol cfg s st) = sent st" by (simp add: tick_symbol_frame)
    ultimately show ?thesis
      using execute_plan_sent [of cfg v env p "tick_symbol cfg s st"] by metis
  qed
qed (simp_all add: symbol_cycle_def Let_def tick_symbol_frame clear_signal_def)

text \<open>
  The venue's answer to the \<open>i\<close>-th call of \<^verbatim>\<open>order_send\<close> is \<open>mt5_order_send v i\<close>.
  Among the submissions of one cycle, an accepted one is the last: \<^verbatim>\<open>place_trade\<close>
  returns at the first success.
\<close>

lemma symbol_cycle_one_success:
  assumes "length (sent st) \<le> i" and "i < length (sent (symbol_cycle cfg v env s built st))"
    and "is_success v (returned (mt5_order_send v i))"
  shows "Suc i = length (sent (symbol_cycle cfg v env s built st))"
proof -
  from symbol_cycle_sent [of cfg v env s built st] assms(1,2)
  obtain plan' st' where p: "sent st' = sent st"
    "sent (symbol_cycle cfg v env s built st) = sent (snd (place_trade cfg v plan' st'))"
    by auto
  show ?thesis
    using place_trade_stops [of st' i cfg v plan'] assms unfolding p by simp
qed

text \<open>
  A run under the default configuration, for one instrument.  Four cycles without a plan
  end the warm-up (\<^verbatim>\<open>STARTUP_PROTECTION_CYCLES\<close> is 3) and leave the last-signal flag
  cleared.  Then comes a plan, with no position open and no cooldown pending; the venue
  rejects the first submission and the IOC retry for the filling mode and accepts the
  FOK retry with deal 77.  The cycle sends three orders, records the plan's signature as
  acted on, and the next cycle with the same plan only advances the cycle counter.
\<close>

lemma started_after_warm_up:
  "(symbol_cycle default_config v env ''EURUSD'' NoPlan
     (symbol_cycle default_config v env ''EURUSD'' NoPlan
        (symbol_cycle default_config v env ''EURUSD'' NoPlan
           (symbol_cycle default_config v env ''EURUSD'' NoPlan initial_state))))
   = (initial_state\<lparr>bars_seen := [''EURUSD'' \<mapsto> 4], started := [''EURUSD'' \<mapsto> True],
        last_signal := [''EURUSD'' \<mapsto> False]\<rparr>)"
  by (simp add: symbol_cycle_def tick_symbol_def clear_signal_def initial_state_def
      default_config_def Let_def)

lemma first_plan_after_warm_up:
  "symbol_cycle default_config \<lparr>mt5_symbol_info = (\<lambda>s. Some \<lparr>trade_tick_value = Some 1, trade_tick_size = Some (1 / 100000),
          trade_contract_size = Some 100000, volume_step = Some (1 / 100),
          volume_min = Some (1 / 100), volume_max = Some 100, trade_allowed = Some True\<rparr>),
      mt5_symbol_info_tick = (\<lambda>n. Some \<lparr>bid = 11 / 10, ask = 11001 / 10000\<rparr>),
      mt5_order_send = (\<lambda>n. if n = 2
         then Returns (Some \<lparr>res_retcode = 10009, res_comment = ''done'', res_deal = 77, res_order = 78\<rparr>)
         else Returns (Some \<lparr>res_retcode = 10030, res_comment = ''Unsupported filling mode'',
                              res_deal = 0, res_order = 0\<rparr>)),
      TRADE_RETCODE_DONE = Some 10009,
      ORDER_FILLING_IOC = Some 1, ORDER_FILLING_FOK = Some 0, ORDER_FILLING_RETURN = Some 2\<rparr> \<lparr>loaded_comment = Inr [], open_positions = Inr 0, clock = 1000, clock_opened = 1001\<rparr> ''EURUSD'' (Plan \<lparr>plan_symbol = ''EURUSD'', plan_direction = ''long'', plan_entry_price = 11 / 10,
      plan_sl = 109 / 100, plan_tp = 111 / 100, plan_lots = 1 / 100, plan_tf_entry = ''M5'',
      plan_score = 0, plan_comment = ''swing''\<rparr>)
      (initial_state\<lparr>bars_seen := [''EURUSD'' \<mapsto> 4], started := [''EURUSD'' \<mapsto> True],
        last_signal := [''EURUSD'' \<mapsto> False]\<rparr>)
   = (initial_state\<lparr>sent := [(Entry, DealRequest ''EURUSD'' (1 / 100) ORDER_TYPE_BUY (11001 / 10000) (109 / 100) (111 / 100) ''swing'' None),
                 (Fallback, DealRequest ''EURUSD'' (1 / 100) ORDER_TYPE_BUY (11001 / 10000) (109 / 100) (111 / 100) ''swing'' (Some 1)),
                 (Fallback, DealRequest ''EURUSD'' (1 / 100) ORDER_TYPE_BUY (11001 / 10000) (109 / 100) (111 / 100) ''swing'' (Some 0))],
        ticks_asked := 4, events := [OPEN \<lparr>plan_symbol = ''EURUSD'', plan_direction = ''long'', plan_entry_price = 11 / 10,
      plan_sl = 109 / 100, plan_tp = 111 / 100, plan_lots = 1 / 100, plan_tf_entry = ''M5'',
      plan_score = 0, plan_comment = ''swing''\<rparr>], journal := [(\<lparr>plan_symbol = ''EURUSD'', plan_direction = ''long'', plan_entry_price = 11 / 10,
      plan_sl = 109 / 100, plan_tp = 111 / 100, plan_lots = 1 / 100, plan_tf_entry = ''M5'',
      plan_score = 0, plan_comment = ''swing''\<rparr>, 77)],
        bars_seen := [''EURUSD'' \<mapsto> 5], started := [''EURUSD'' \<mapsto> True],
        last_signal := [''EURUSD'' \<mapsto> True], last_open_time := [''EURUSD'' \<mapsto> 1001],
        journal_logged_signature := [''EURUSD'' \<mapsto> (''EURUSD'', ''long'', 11 / 10)],
        last_plan_signature := [''EURUSD'' \<mapsto> (''EURUSD'', ''long'', 11 / 10)]\<rparr>)"
  by (simp add: symbol_cycle_def tick_symbol_def execute_plan_def has_open_trade_def
      can_open_now_def plan_signature_def py_round_def round_half_even_def truthy_def
      place_trade_def default_config_def initial_state_def symbol_info_tick_def
      adjusted_volume_example getattr_def py_or_def build_order_request_def order_send_def Let_def
      returned_def is_success_def unsupported_filling_def filling_candidates_example
      extract_ticket_from_result_def is_long_def lower_def lower_char_def)

lemma second_plan_after_warm_up:
  "symbol_cycle default_config \<lparr>mt5_symbol_info = (\<lambda>s. Some \<lparr>trade_tick_value = Some 1, trade_tick_size = Some (1 / 100000),
          trade_contract_size = Some 100000, volume_step = Some (1 / 100),
          volume_min = Some (1 / 100), volume_max = Some 100, trade_allowed = Some True\<rparr>),
      mt5_symbol_info_tick = (\<lambda>n. Some \<lparr>bid = 11 / 10, ask = 11001 / 10000\<rparr>),
      mt5_order_send = (\<lambda>n. if n = 2
         then Returns (Some \<lparr>res_retcode = 10009, res_comment = ''done'', res_deal = 77, res_order = 78\<rparr>)
         else Returns (Some \<lparr>res_retcode = 10030, res_comment = ''Unsupported filling mode'',
                              res_deal = 0, res_order = 0\<rparr>)),
      TRADE_RETCODE_DONE = Some 10009,
      ORDER_FILLING_IOC = Some 1, ORDER_FILLING_FOK = Some 0, ORDER_FILLING_RETURN = Some 2\<rparr> \<lparr>loaded_comment = Inr [], open_positions = Inr 0, clock = 1000, clock_opened = 1001\<rparr> ''EURUSD'' (Plan \<lparr>plan_symbol = ''EURUSD'', plan_direction = ''long'', plan_entry_price = 11 / 10,
      plan_sl = 109 / 100, plan_tp = 111 / 100, plan_lots = 1 / 100, plan_tf_entry = ''M5'',
      plan_score = 0, plan_comment = ''swing''\<rparr>)
      (initial_state\<lparr>sent := [(Entry, DealRequest ''EURUSD'' (1 / 100) ORDER_TYPE_BUY (11001 / 10000) (109 / 100) (111 / 100) ''swing'' None),
                 (Fallback, DealRequest ''EURUSD'' (1 / 100) ORDER_TYPE_BUY (11001 / 10000) (109 / 100) (111 / 100) ''swing'' (Some 1)),
                 (Fallback, DealRequest ''EURUSD'' (1 / 100) ORDER_TYPE_BUY (11001 / 10000) (109 / 100) (111 / 100) ''swing'' (Some 0))],
        ticks_asked := 4, events := [OPEN \<lparr>plan_symbol = ''EURUSD'', plan_direction = ''long'', plan_entry_price = 11 / 10,
      plan_sl = 109 / 100, plan_tp = 111 / 100, plan_lots = 1 / 100, plan_tf_entry = ''M5'',
      plan_score = 0, plan_comment = ''swing''\<rparr>], journal := [(\<lparr>plan_symbol = ''EURUSD'', plan_direction = ''long'', plan_entry_price = 11 / 10,
      plan_sl = 109 / 100, plan_tp = 111 / 100, plan_lots = 1 / 100, plan_tf_entry = ''M5'',
      plan_score = 0, plan_comment = ''swing''\<rparr>, 77)],
        bars_seen := [''EURUSD'' \<mapsto> 5], started := [''EURUSD'' \<mapsto> True],
        last_signal := [''EURUSD'' \<mapsto> True], last_open_time := [''EURUSD'' \<mapsto> 1001],
        journal_logged_signature := [''EURUSD'' \<mapsto> (''EURUSD'', ''long'', 11 / 10)],
        last_plan_signature := [''EURUSD'' \<mapsto> (''EURUSD'', ''long'', 11 / 10)]\<rparr>)
   = (initial_state\<lparr>sent := [(Entry, DealRequest ''EURUSD'' (1 / 100) ORDER_TYPE_BUY (11001 / 10000) (109 / 100) (111 / 100) ''swing'' None),
                 (Fallback, DealRequest ''EURUSD'' (1 / 100) ORDER_TYPE_BUY (11001 / 10000) (109 / 100) (111 / 100) ''swing'' (Some 1)),
                 (Fallback, DealRequest ''EURUSD'' (1 / 100) ORDER_TYPE_BUY (11001 / 10000) (109 / 100) (111 / 100) ''swing'' (Some 0))],
        ticks_asked := 4, events := [OPEN \<lparr>plan_symbol = ''EURUSD'', plan_direction = ''long'', plan_entry_price = 11 / 10,
      plan_sl = 109 / 100, plan_tp = 111 / 100, plan_lots = 1 / 100, plan_tf_entry = ''M5'',
      plan_score = 0, plan_comment = ''swing''\<rparr>], journal := [(\<lparr>plan_symbol = ''EURUSD'', plan_direction = ''long'', plan_entry_price = 11 / 10,
      plan_sl = 109 / 100, plan_tp = 111 / 100, plan_lots = 1 / 100, plan_tf_entry = ''M5'',
      plan_score = 0, plan_comment = ''swing''\<rparr>, 77)],
        bars_seen := [''EURUSD'' \<mapsto> 5], started := [''EURUSD'' \<mapsto> True],
        last_signal := [''EURUSD'' \<mapsto> True], last_open_time := [''EURUSD'' \<mapsto> 1001],
        journal_logged_signature := [''EURUSD'' \<mapsto> (''EURUSD'', ''long'', 11 / 10)],
        last_plan_signature := [''EURUSD'' \<mapsto> (''EURUSD'', ''long'', 11 / 10)]\<rparr>)\<lparr>bars_seen := [''EURUSD'' \<mapsto> 6]\<rparr>"
  by (simp add: symbol_cycle_def tick_symbol_def plan_signature_def py_round_def
      round_half_even_def default_config_def initial_state_def Let_def)

text \<open>
  C6, as stated: \<open>sent\<close> is the log of all calls of \<^verbatim>\<open>order_send\<close> since the start.
  After the warm-up, two consecutive cycles bring the same plan, hence the same
  signature.  The log of the run then holds three order submissions, the entry and two
  retries with another filling mode, all made by the first of the two cycles: two
  consecutive plans with the same signature produce three order submissions, not at
  most one.
\<close>

theorem C6_debounce_counterexample:
  "map fst (sent (symbol_cycle default_config \<lparr>mt5_symbol_info = (\<lambda>s. Some \<lparr>trade_tick_value = Some 1, trade_tick_size = Some (1 / 100000),
          trade_contract_size = Some 100000, volume_step = Some (1 / 100),
          volume_min = Some (1 / 100), volume_max = Some 100, trade_allowed = Some True\<rparr>),
      mt5_symbol_info_tick = (\<lambda>n. Some \<lparr>bid = 11 / 10, ask = 11001 / 10000\<rparr>),
      mt5_order_send = (\<lambda>n. if n = 2
         then Returns (Some \<lparr>res_retcode = 10009, res_comment = ''done'', res_deal = 77, res_order = 78\<rparr>)
         else Returns (Some \<lparr>res_retcode = 10030, res_comment = ''Unsupported filling mode'',
                              res_deal = 0, res_order = 0\<rparr>)),
      TRADE_RETCODE_DONE = Some 10009,
      ORDER_FILLING_IOC = Some 1, ORDER_FILLING_FOK = Some 0, ORDER_FILLING_RETURN = Some 2\<rparr> \<lparr>loaded_comment = Inr [], open_positions = Inr 0, clock = 1000, clock_opened = 1001\<rparr> ''EURUSD'' (Plan \<lparr>plan_symbol = ''EURUSD'', plan_direction = ''long'', plan_entry_price = 11 / 10,
      plan_sl = 109 / 100, plan_tp = 111 / 100, plan_lots = 1 / 100, plan_tf_entry = ''M5'',
      plan_score = 0, plan_comment = ''swing''\<rparr>)
      (symbol_cycle default_config \<lparr>mt5_symbol_info = (\<lambda>s. Some \<lparr>trade_tick_value = Some 1, trade_tick_size = Some (1 / 100000),
          trade_contract_size = Some 100000, volume_step = Some (1 / 100),
          volume_min = Some (1 / 100), volume_max = Some 100, trade_allowed = Some True\<rparr>),
      mt5_symbol_info_tick = (\<lambda>n. Some \<lparr>bid = 11 / 10, ask = 11001 / 10000\<rparr>),
      mt5_order_send = (\<lambda>n. if n = 2
         then Returns (Some \<lparr>res_retcode = 10009, res_comment = ''done'', res_deal = 77, res_order = 78\<rparr>)
         else Returns (Some \<lparr>res_retcode = 10030, res_comment = ''Unsupported filling mode'',
                              res_deal = 0, res_order = 0\<rparr>)),
      TRADE_RETCODE_DONE = Some 10009,
      ORDER_FILLING_IOC = Some 1, ORDER_FILLING_FOK = Some 0, ORDER_FILLING_RETURN = Some 2\<rparr> \<lparr>loaded_comment = Inr [], open_positions = Inr 0, clock = 1000, clock_opened = 1001\<rparr> ''EURUSD'' (Plan \<lparr>plan_symbol = ''EURUSD'', plan_direction = ''long'', plan_entry_price = 11 / 10,
      plan_sl = 109 / 100, plan_tp = 111 / 100, plan_lots = 1 / 100, plan_tf_entry = ''M5'',
      plan_score = 0, plan_comment = ''swing''\<rparr>)
      (symbol_cycle default_config \<lparr>mt5_symbol_info = (\<lambda>s. Some \<lparr>trade_tick_value = Some 1, trade_tick_size = Some (1 / 100000),
          trade_contract_size = Some 100000, volume_step = Some (1 / 100),
          volume_min = Some (1 / 100), volume_max = Some 100, trade_allowed = Some True\<rparr>),
      mt5_symbol_info_tick = (\<lambda>n. Some \<lparr>bid = 11 / 10, ask = 11001 / 10000\<rparr>),
      mt5_order_send = (\<lambda>n. if n = 2
         then Returns (Some \<lparr>res_retcode = 10009, res_comment = ''done'', res_deal = 77, res_order = 78\<rparr>)
         else Returns (Some \<lparr>res_retcode = 10030, res_comment = ''Unsupported filling mode'',
                              res_deal = 0, res_order = 0\<rparr>)),
      TRADE_RETCODE_DONE = Some 10009,
      ORDER_FILLING_IOC = Some 1, ORDER_FILLING_FOK = Some 0, ORDER_FILLING_RETURN = Some 2\<rparr> \<lparr>loaded_comment = Inr [], open_positions = Inr 0, clock = 1000, clock_opened = 1001\<rparr> ''EURUSD'' NoPlan
      (symbol_cycle default_config \<lparr>mt5_symbol_info = (\<lambda>s. Some \<lparr>trade_tick_value = Some 1, trade_tick_size = Some (1 / 100000),
          trade_contract_size = Some 100000, volume_step = Some (1 / 100),
          volume_min = Some (1 / 100), volume_max = Some 100, trade_allowed = Some True\<rparr>),
      mt5_symbol_info_tick = (\<lambda>n. Some \<lparr>bid = 11 / 10, ask = 11001 / 10000\<rparr>),
      mt5_order_send = (\<lambda>n. if n = 2
         then Returns (Some \<lparr>res_retcode = 10009, res_comment = ''done'', res_deal = 77, res_order = 78\<rparr>)
         else Returns (Some \<lparr>res_retcode = 10030, res_comment = ''Unsupported filling mode'',
                              res_deal = 0, res_order = 0\<rparr>)),
      TRADE_RETCODE_DONE = Some 10009,
      ORDER_FILLING_IOC = Some 1, ORDER_FILLING_FOK = Some 0, ORDER_FILLING_RETURN = Some 2\<rparr> \<lparr>loaded_comment = Inr [], open_positions = Inr 0, clock = 1000, clock_opened = 1001\<rparr> ''EURUSD'' NoPlan
      (symbol_cycle default_config \<lparr>mt5_symbol_info = (\<lambda>s. Some \<lparr>trade_tick_value = Some 1, trade_tick_size = Some (1 / 100000),
          trade_contract_size = Some 100000, volume_step = Some (1 / 100),
          volume_min = Some (1 / 100), volume_max = Some 100, trade_allowed = Some True\<rparr>),
      mt5_symbol_info_tick = (\<lambda>n. Some \<lparr>bid = 11 / 10, ask = 11001 / 10000\<rparr>),
      mt5_order_send = (\<lambda>n. if n = 2
         then Returns (Some \<lparr>res_retcode = 10009, res_comment = ''done'', res_deal = 77, res_order = 78\<rparr>)
         else Returns (Some \<lparr>res_retcode = 10030, res_comment = ''Unsupported filling mode'',
                              res_deal = 0, res_order = 0\<rparr>)),
      TRADE_RETCODE_DONE = Some 10009,
      ORDER_FILLING_IOC = Some 1, ORDER_FILLING_FOK = Some 0, ORDER_FILLING_RETURN = Some 2\<rparr> \<lparr>loaded_comment = Inr [], open_positions = Inr 0, clock = 1000, clock_opened = 1001\<rparr> ''EURUSD'' NoPlan
      (symbol_cycle default_config \<lparr>mt5_symbol_info = (\<lambda>s. Some \<lparr>trade_tick_value = Some 1, trade_tick_size = Some (1 / 100000),
          trade_contract_size = Some 100000, volume_step = Some (1 / 100),
          volume_min = Some (1 / 100), volume_max = Some 100, trade_allowed = Some True\<rparr>),
      mt5_symbol_info_tick = (\<lambda>n. Some \<lparr>bid = 11 / 10, ask = 11001 / 10000\<rparr>),
      mt5_order_send = (\<lambda>n. if n = 2
         then Returns (Some \<lparr>res_retcode = 10009, res_comment = ''done'', res_deal = 77, res_order = 78\<rparr>)
         else Returns (Some \<lparr>res_retcode = 10030, res_comment = ''Unsupported filling mode'',
                              res_deal = 0, res_order = 0\<rparr>)),
      TRADE_RETCODE_DONE = Some 10009,
      ORDER_FILLING_IOC = Some 1, ORDER_FILLING_FOK = Some 0, ORDER_FILLING_RETURN = Some 2\<rparr> \<lparr>loaded_comment = Inr [], open_positions = Inr 0, clock = 1000, clock_opened = 1001\<rparr> ''EURUSD'' NoPlan
      initial_state)))))))
   = [Entry, Fallback, Fallback]"
  unfolding started_after_warm_up first_plan_after_warm_up second_plan_after_warm_up
  by simp

text \<open>
  C6, amended: take two consecutive plans \<open>p1\<close> and \<open>p2\<close> for instrument \<open>s\<close> with the
  same signature, and any state \<open>st1\<close> in which the instrument's last-signal flag and last
  acted-on signature are as the cycle of \<open>p1\<close> left them (the cycles of the other
  instruments and the position management in between do not touch them, see
  \<open>symbol_cycle_keeps_signal\<close> and \<open>manage_open_positions_coordinator\<close>).  The
  cycle of \<open>p1\<close> makes at most one execution attempt, that is one call of
  \<^verbatim>\<open>place_trade\<close>; the attempt may submit several orders through the filling-mode
  fallback, and a submission that the venue accepts is the last one of the cycle, so at
  most one is accepted.  The cycle of \<open>p2\<close> makes no attempt and submits nothing.  A plan
  whose signature is the last acted-on signature of its instrument is skipped before
  \<open>execute_plan\<close>: only the cycle counter advances.
\<close>

theorem C6_debounce_amended:
  assumes "plan_symbol p1 = s" and "plan_symbol p2 = s"
    and "plan_signature p1 = plan_signature p2"
    and "last_signal st1 s = last_signal (symbol_cycle cfg v env1 s (Plan p1) st0) s"
    and "last_plan_signature st1 s
           = last_plan_signature (symbol_cycle cfg v env1 s (Plan p1) st0) s"
  shows "length (execution_attempts (symbol_cycle cfg v env1 s (Plan p1) st0))
           \<le> length (execution_attempts st0) + 1
         \<and> (length (sent st0) \<le> i
              \<and> i < length (sent (symbol_cycle cfg v env1 s (Plan p1) st0))
              \<and> is_success v (returned (mt5_order_send v i))
              \<longrightarrow> Suc i = length (sent (symbol_cycle cfg v env1 s (Plan p1) st0)))
         \<and> sent (symbol_cycle cfg v env2 s (Plan p2) st1) = sent st1
         \<and> execution_attempts (symbol_cycle cfg v env2 s (Plan p2) st1) = execution_attempts st1
         \<and> (last_plan_signature st s = Some (plan_signature p)
              \<longrightarrow> symbol_cycle cfg v env s (Plan p) st = tick_symbol cfg s st)"
proof -
  consider (flag) "last_signal st1 s = Some True"
    | (dup) "last_plan_signature st1 s = Some (plan_signature p2)"
    using symbol_cycle_after_plan [OF assms(1), of cfg v env1 st0] assms(3-5) by auto
  then have "sent (symbol_cycle cfg v env2 s (Plan p2) st1) = sent st1
         \<and> execution_attempts (symbol_cycle cfg v env2 s (Plan p2) st1) = execution_attempts st1"
  proof cases
    case flag
    then show ?thesis using symbol_cycle_suppressed [OF assms(2)] by simp
  next
    case dup
    then show ?thesis
      by (simp add: symbol_cycle_duplicate tick_symbol_frame execution_attempts_def)
  qed
  then show ?thesis
    using symbol_cycle_attempts symbol_cycle_duplicate symbol_cycle_one_success by simp
qed

theorem C6_debounce_amended_witness:
  "plan_symbol \<lparr>plan_symbol = ''EURUSD'', plan_direction = ''long'', plan_entry_price = 11 / 10,
      plan_sl = 109 / 100, plan_tp = 111 / 100, plan_lots = 1 / 100, plan_tf_entry = ''M5'',
      plan_score = 0, plan_comment = ''swing''\<rparr> = ''EURUSD''
   \<and> execution_attempts (initial_state\<lparr>bars_seen := [''EURUSD'' \<mapsto> 4], started := [''EURUSD'' \<mapsto> True],
        last_signal := [''EURUSD'' \<mapsto> False]\<rparr>) = []
   \<and> sent (initial_state\<lparr>bars_seen := [''EURUSD'' \<mapsto> 4], started := [''EURUSD'' \<mapsto> True],
        last_signal := [''EURUSD'' \<mapsto> False]\<rparr>) = []
   \<and> execution_attempts (symbol_cycle default_config \<lparr>mt5_symbol_info = (\<lambda>s. Some \<lparr>trade_tick_value = Some 1, trade_tick_size = Some (1 / 100000),
          trade_contract_size = Some 100000, volume_step = Some (1 / 100),
          volume_min = Some (1 / 100), volume_max = Some 100, trade_allowed = Some True\<rparr>),
      mt5_symbol_info_tick = (\<lambda>n. Some \<lparr>bid = 11 / 10, ask = 11001 / 10000\<rparr>),
      mt5_order_send = (\<lambda>n. if n = 2
         then Returns (Some \<lparr>res_retcode = 10009, res_comment = ''done'', res_deal = 77, res_order = 78\<rparr>)
         else Returns (Some \<lparr>res_retcode = 10030, res_comment = ''Unsupported filling mode'',
                              res_deal = 0, res_order = 0\<rparr>)),
      TRADE_RETCODE_DONE = Some 10009,
      ORDER_FILLING_IOC = Some 1, ORDER_FILLING_FOK = Some 0, ORDER_FILLING_RETURN = Some 2\<rparr> \<lparr>loaded_comment = Inr [], open_positions = Inr 0, clock = 1000, clock_opened = 1001\<rparr> ''EURUSD'' (Plan \<lparr>plan_symbol = ''EURUSD'', plan_direction = ''long'', plan_entry_price = 11 / 10,
      plan_sl = 109 / 100, plan_tp = 111 / 100, plan_lots = 1 / 100, plan_tf_entry = ''M5'',
      plan_score = 0, plan_comment = ''swing''\<rparr>)
      (initial_state\<lparr>bars_seen := [''EURUSD'' \<mapsto> 4], started := [''EURUSD'' \<mapsto> True],
        last_signal := [''EURUSD'' \<mapsto> False]\<rparr>))
     = [OPEN \<lparr>plan_symbol = ''EURUSD'', plan_direction = ''long'', plan_entry_price = 11 / 10,
      plan_sl = 109 / 100, plan_tp = 111 / 100, plan_lots = 1 / 100, plan_tf_entry = ''M5'',
      plan_score = 0, plan_comment = ''swing''\<rparr>]
   \<and> last_plan_signature (symbol_cycle default_config \<lparr>mt5_symbol_info = (\<lambda>s. Some \<lparr>trade_tick_value = Some 1, trade_tick_size = Some (1 / 100000),
          trade_contract_size = Some 100000, volume_step = Some (1 / 100),
          volume_min = Some (1 / 100), volume_max = Some 100, trade_allowed = Some True\<rparr>),
      mt5_symbol_info_tick = (\<lambda>n. Some \<lparr>bid = 11 / 10, ask = 11001 / 10000\<rparr>),
      mt5_order_send = (\<lambda>n. if n = 2
         then Returns (Some \<lparr>res_retcode = 10009, res_comment = ''done'', res_deal = 77, res_order = 78\<rparr>)
         else Returns (Some \<lparr>res_retcode = 10030, res_comment = ''Unsupported filling mode'',
                              res_deal = 0, res_order = 0\<rparr>)),
      TRADE_RETCODE_DONE = Some 10009,
      ORDER_FILLING_IOC = Some 1, ORDER_FILLING_FOK = Some 0, ORDER_FILLING_RETURN = Some 2\<rparr> \<lparr>loaded_comment = Inr [], open_positions = Inr 0, clock = 1000, clock_opened = 1001\<rparr> ''EURUSD'' (Plan \<lparr>plan_symbol = ''EURUSD'', plan_direction = ''long'', plan_entry_price = 11 / 10,
      plan_sl = 109 / 100, plan_tp = 111 / 100, plan_lots = 1 / 100, plan_tf_entry = ''M5'',
      plan_score = 0, plan_comment = ''swing''\<rparr>)
      (initial_state\<lparr>bars_seen := [''EURUSD'' \<mapsto> 4], started := [''EURUSD'' \<mapsto> True],
        last_signal := [''EURUSD'' \<mapsto> False]\<rparr>)) ''EURUSD''
     = Some (plan_signature \<lparr>plan_symbol = ''EURUSD'', plan_direction = ''long'', plan_entry_price = 11 / 10,
      plan_sl = 109 / 100, plan_tp = 111 / 100, plan_lots = 1 / 100, plan_tf_entry = ''M5'',
      plan_score = 0, plan_comment = ''swing''\<rparr>)
   \<and> 2 < length (sent (symbol_cycle default_config \<lparr>mt5_symbol_info = (\<lambda>s. Some \<lparr>trade_tick_value = Some 1, trade_tick_size = Some (1 / 100000),
          trade_contract_size = Some 100000, volume_step = Some (1 / 100),
          volume_min = Some (1 / 100), volume_max = Some 100, trade_allowed = Some True\<rparr>),
      mt5_symbol_info_tick = (\<lambda>n. Some \<lparr>bid = 11 / 10, ask = 11001 / 10000\<rparr>),
      mt5_order_send = (\<lambda>n. if n = 2
         then Returns (Some \<lparr>res_retcode = 10009, res_comment = ''done'', res_deal = 77, res_order = 78\<rparr>)
         else Returns (Some \<lparr>res_retcode = 10030, res_comment = ''Unsupported filling mode'',
                              res_deal = 0, res_order = 0\<rparr>)),
      TRADE_RETCODE_DONE = Some 10009,
      ORDER_FILLING_IOC = Some 1, ORDER_FILLING_FOK = Some 0, ORDER_FILLING_RETURN = Some 2\<rparr> \<lparr>loaded_comment = Inr [], open_positions = Inr 0, clock = 1000, clock_opened = 1001\<rparr> ''EURUSD'' (Plan \<lparr>plan_symbol = ''EURUSD'', plan_direction = ''long'', plan_entry_price = 11 / 10,
      plan_sl = 109 / 100, plan_tp = 111 / 100, plan_lots = 1 / 100, plan_tf_entry = ''M5'',
      plan_score = 0, plan_comment = ''swing''\<rparr>)
      (initial_state\<lparr>bars_seen := [''EURUSD'' \<mapsto> 4], started := [''EURUSD'' \<mapsto> True],
        last_signal := [''EURUSD'' \<mapsto> False]\<rparr>)))
   \<and> is_success \<lparr>mt5_symbol_info = (\<lambda>s. Some \<lparr>trade_tick_value = Some 1, trade_tick_size = Some (1 / 100000),
          trade_contract_size = Some 100000, volume_step = Some (1 / 100),
          volume_min = Some (1 / 100), volume_max = Some 100, trade_allowed = Some True\<rparr>),
      mt5_symbol_info_tick = (\<lambda>n. Some \<lparr>bid = 11 / 10, ask = 11001 / 10000\<rparr>),
      mt5_order_send = (\<lambda>n. if n = 2
         then Returns (Some \<lparr>res_retcode = 10009, res_comment = ''done'', res_deal = 77, res_order = 78\<rparr>)
         else Returns (Some \<lparr>res_retcode = 10030, res_comment = ''Unsupported filling mode'',
                              res_deal = 0, res_order = 0\<rparr>)),
      TRADE_RETCODE_DONE = Some 10009,
      ORDER_FILLING_IOC = Some 1, ORDER_FILLING_FOK = Some 0, ORDER_FILLING_RETURN = Some 2\<rparr>
       (returned (mt5_order_send \<lparr>mt5_symbol_info = (\<lambda>s. Some \<lparr>trade_tick_value = Some 1, trade_tick_size = Some (1 / 100000),
          trade_contract_size = Some 100000, volume_step = Some (1 / 100),
          volume_min = Some (1 / 100), volume_max = Some 100, trade_allowed = Some True\<rparr>),
      mt5_symbol_info_tick = (\<lambda>n. Some \<lparr>bid = 11 / 10, ask = 11001 / 10000\<rparr>),
      mt5_order_send = (\<lambda>n. if n = 2
         then Returns (Some \<lparr>res_retcode = 10009, res_comment = ''done'', res_deal = 77, res_order = 78\<rparr>)
         else Returns (Some \<lparr>res_retcode = 10030, res_comment = ''Unsupported filling mode'',
                              res_deal = 0, res_order = 0\<rparr>)),
      TRADE_RETCODE_DONE = Some 10009,
      ORDER_FILLING_IOC = Some 1, ORDER_FILLING_FOK = Some 0, ORDER_FILLING_RETURN = Some 2\<rparr> 2))
   \<and> Suc 2 = length (sent (symbol_cycle default_config \<lparr>mt5_symbol_info = (\<lambda>s. Some \<lparr>trade_tick_value = Some 1, trade_tick_size = Some (1 / 100000),
          trade_contract_size = Some 100000, volume_step = Some (1 / 100),
          volume_min = Some (1 / 100), volume_max = Some 100, trade_allowed = Some True\<rparr>),
      mt5_symbol_info_tick = (\<lambda>n. Some \<lparr>bid = 11 / 10, ask = 11001 / 10000\<rparr>),
      mt5_order_send = (\<lambda>n. if n = 2
         then Returns (Some \<lparr>res_retcode = 10009, res_comment = ''done'', res_deal = 77, res_order = 78\<rparr>)
         else Returns (Some \<lparr>res_retcode = 10030, res_comment = ''Unsupported filling mode'',
                              res_deal = 0, res_order = 0\<rparr>)),
      TRADE_RETCODE_DONE = Some 10009,
      ORDER_FILLING_IOC = Some 1, ORDER_FILLING_FOK = Some 0, ORDER_FILLING_RETURN = Some 2\<rparr> \<lparr>loaded_comment = Inr [], open_positions = Inr 0, clock = 1000, clock_opened = 1001\<rparr> ''EURUSD'' (Plan \<lparr>plan_symbol = ''EURUSD'', plan_direction = ''long'', plan_entry_price = 11 / 10,
      plan_sl = 109 / 100, plan_tp = 111 / 100, plan_lots = 1 / 100, plan_tf_entry = ''M5'',
      plan_score = 0, plan_comment = ''swing''\<rparr>)
      (initial_state\<lparr>bars_seen := [''EURUSD'' \<mapsto> 4], started := [''EURUSD'' \<mapsto> True],
        last_signal := [''EURUSD'' \<mapsto> False]\<rparr>)))
   \<and> sent (symbol_cycle default_config \<lparr>mt5_symbol_info = (\<lambda>s. Some \<lparr>trade_tick_value = Some 1, trade_tick_size = Some (1 / 100000),
          trade_contract_size = Some 100000, volume_step = Some (1 / 100),
          volume_min = Some (1 / 100), volume_max = Some 100, trade_allowed = Some True\<rparr>),
      mt5_symbol_info_tick = (\<lambda>n. Some \<lparr>bid = 11 / 10, ask = 11001 / 10000\<rparr>),
      mt5_order_send = (\<lambda>n. if n = 2
         then Returns (Some \<lparr>res_retcode = 10009, res_comment = ''done'', res_deal = 77, res_order = 78\<rparr>)
         else Returns (Some \<lparr>res_retcode = 10030, res_comment = ''Unsupported filling mode'',
                              res_deal = 0, res_order = 0\<rparr>)),
      TRADE_RETCODE_DONE = Some 10009,
      ORDER_FILLING_IOC = Some 1, ORDER_FILLING_FOK = Some 0, ORDER_FILLING_RETURN = Some 2\<rparr> \<lparr>loaded_comment = Inr [], open_positions = Inr 0, clock = 1000, clock_opened = 1001\<rparr> ''EURUSD'' (Plan \<lparr>plan_symbol = ''EURUSD'', plan_direction = ''long'', plan_entry_price = 11 / 10,
      plan_sl = 109 / 100, plan_tp = 111 / 100, plan_lots = 1 / 100, plan_tf_entry = ''M5'',
      plan_score = 0, plan_comment = ''swing''\<rparr>)
      (symbol_cycle default_config \<lparr>mt5_symbol_info = (\<lambda>s. Some \<lparr>trade_tick_value = Some 1, trade_tick_size = Some (1 / 100000),
          trade_contract_size = Some 100000, volume_step = Some (1 / 100),
          volume_min = Some (1 / 100), volume_max = Some 100, trade_allowed = Some True\<rparr>),
      mt5_symbol_info_tick = (\<lambda>n. Some \<lparr>bid = 11 / 10, ask = 11001 / 10000\<rparr>),
      mt5_order_send = (\<lambda>n. if n = 2
         then Returns (Some \<lparr>res_retcode = 10009, res_comment = ''done'', res_deal = 77, res_order = 78\<rparr>)
         else Returns (Some \<lparr>res_retcode = 10030, res_comment = ''Unsupported filling mode'',
                              res_deal = 0, res_order = 0\<rparr>)),
      TRADE_RETCODE_DONE = Some 10009,
      ORDER_FILLING_IOC = Some 1, ORDER_FILLING_FOK = Some 0, ORDER_FILLING_RETURN = Some 2\<rparr> \<lparr>loaded_comment = Inr [], open_positions = Inr 0, clock = 1000, clock_opened = 1001\<rparr> ''EURUSD'' (Plan \<lparr>plan_symbol = ''EURUSD'', plan_direction = ''long'', plan_entry_price = 11 / 10,
      plan_sl = 109 / 100, plan_tp = 111 / 100, plan_lots = 1 / 100, plan_tf_entry = ''M5'',
      plan_score = 0, plan_comment = ''swing''\<rparr>)
      (initial_state\<lparr>bars_seen := [''EURUSD'' \<mapsto> 4], started := [''EURUSD'' \<mapsto> True],
        last_signal := [''EURUSD'' \<mapsto> False]\<rparr>)))
     = sent (symbol_cycle default_config \<lparr>mt5_symbol_info = (\<lambda>s. Some \<lparr>trade_tick_value = Some 1, trade_tick_size = Some (1 / 100000),
          trade_contract_size = Some 100000, volume_step = Some (1 / 100),
          volume_min = Some (1 / 100), volume_max = Some 100, trade_allowed = Some True\<rparr>),
      mt5_symbol_info_tick = (\<lambda>n. Some \<lparr>bid = 11 / 10, ask = 11001 / 10000\<rparr>),
      mt5_order_send = (\<lambda>n. if n = 2
         then Returns (Some \<lparr>res_retcode = 10009, res_comment = ''done'', res_deal = 77, res_order = 78\<rparr>)
         else Returns (Some \<lparr>res_retcode = 10030, res_comment = ''Unsupported filling mode'',
                              res_deal = 0, res_order = 0\<rparr>)),
      TRADE_RETCODE_DONE = Some 10009,
      ORDER_FILLING_IOC = Some 1, ORDER_FILLING_FOK = Some 0, ORDER_FILLING_RETURN = Some 2\<rparr> \<lparr>loaded_comment = Inr [], open_positions = Inr 0, clock = 1000, clock_opened = 1001\<rparr> ''EURUSD'' (Plan \<lparr>plan_symbol = ''EURUSD'', plan_direction = ''long'', plan_entry_price = 11 / 10,
      plan_sl = 109 / 100, plan_tp = 111 / 100, plan_lots = 1 / 100, plan_tf_entry = ''M5'',
      plan_score = 0, plan_comment = ''swing''\<rparr>)
      (initial_state\<lparr>bars_seen := [''EURUSD'' \<mapsto> 4], started := [''EURUSD'' \<mapsto> True],
        last_signal := [''EURUSD'' \<mapsto> False]\<rparr>))
   \<and> execution_attempts (symbol_cycle default_config \<lparr>mt5_symbol_info = (\<lambda>s. Some \<lparr>trade_tick_value = Some 1, trade_tick_size = Some (1 / 100000),
          trade_contract_size = Some 100000, volume_step = Some (1 / 100),
          volume_min = Some (1 / 100), volume_max = Some 100, trade_allowed = Some True\<rparr>),
      mt5_symbol_info_tick = (\<lambda>n. Some \<lparr>bid = 11 / 10, ask = 11001 / 10000\<rparr>),
      mt5_order_send = (\<lambda>n. if n = 2
         then Returns (Some \<lparr>res_retcode = 10009, res_comment = ''done'', res_deal = 77, res_order = 78\<rparr>)
         else Returns (Some \<lparr>res_retcode = 10030, res_comment = ''Unsupported filling mode'',
                              res_deal = 0, res_order = 0\<rparr>)),
      TRADE_RETCODE_DONE = Some 10009,
      ORDER_FILLING_IOC = Some 1, ORDER_FILLING_FOK = Some 0, ORDER_FILLING_RETURN = Some 2\<rparr> \<lparr>loaded_comment = Inr [], open_positions = Inr 0, clock = 1000, clock_opened = 1001\<rparr> ''EURUSD'' (Plan \<lparr>plan_symbol = ''EURUSD'', plan_direction = ''long'', plan_entry_price = 11 / 10,
      plan_sl = 109 / 100, plan_tp = 111 / 100, plan_lots = 1 / 100, plan_tf_entry = ''M5'',
      plan_score = 0, plan_comment = ''swing''\<rparr>)
      (symbol_cycle default_config \<lparr>mt5_symbol_info = (\<lambda>s. Some \<lparr>trade_tick_value = Some 1, trade_tick_size = Some (1 / 100000),
          trade_contract_size = Some 100000, volume_step = Some (1 / 100),
          volume_min = Some (1 / 100), volume_max = Some 100, trade_allowed = Some True\<rparr>),
      mt5_symbol_info_tick = (\<lambda>n. Some \<lparr>bid = 11 / 10, ask = 11001 / 10000\<rparr>),
      mt5_order_send = (\<lambda>n. if n = 2
         then Returns (Some \<lparr>res_retcode = 10009, res_comment = ''done'', res_deal = 77, res_order = 78\<rparr>)
         else Returns (Some \<lparr>res_retcode = 10030, res_comment = ''Unsupported filling mode'',
                              res_deal = 0, res_order = 0\<rparr>)),
      TRADE_RETCODE_DONE = Some 10009,
      ORDER_FILLING_IOC = Some 1, ORDER_FILLING_FOK = Some 0, ORDER_FILLING_RETURN = Some 2\<rparr> \<lparr>loaded_comment = Inr [], open_positions = Inr 0, clock = 1000, clock_opened = 1001\<rparr> ''EURUSD'' (Plan \<lparr>plan_symbol = ''EURUSD'', plan_direction = ''long'', plan_entry_price = 11 / 10,
      plan_sl = 109 / 100, plan_tp = 111 / 100, plan_lots = 1 / 100, plan_tf_entry = ''M5'',
      plan_score = 0, plan_comment = ''swing''\<rparr>)
      (initial_state\<lparr>bars_seen := [''EURUSD'' \<mapsto> 4], started := [''EURUSD'' \<mapsto> True],
        last_signal := [''EURUSD'' \<mapsto> False]\<rparr>)))
     = execution_attempts (symbol_cycle default_config \<lparr>mt5_symbol_info = (\<lambda>s. Some \<lparr>trade_tick_value = Some 1, trade_tick_size = Some (1 / 100000),
          trade_contract_size = Some 100000, volume_step = Some (1 / 100),
          volume_min = Some (1 / 100), volume_max = Some 100, trade_allowed = Some True\<rparr>),
      mt5_symbol_info_tick = (\<lambda>n. Some \<lparr>bid = 11 / 10, ask = 11001 / 10000\<rparr>),
      mt5_order_send = (\<lambda>n. if n = 2
         then Returns (Some \<lparr>res_retcode = 10009, res_comment = ''done'', res_deal = 77, res_order = 78\<rparr>)
         else Returns (Some \<lparr>res_retcode = 10030, res_comment = ''Unsupported filling mode'',
                              res_deal = 0, res_order = 0\<rparr>)),
      TRADE_RETCODE_DONE = Some 10009,
      ORDER_FILLING_IOC = Some 1, ORDER_FILLING_FOK = Some 0, ORDER_FILLING_RETURN = Some 2\<rparr> \<lparr>loaded_comment = Inr [], open_positions = Inr 0, clock = 1000, clock_opened = 1001\<rparr> ''EURUSD'' (Plan \<lparr>plan_symbol = ''EURUSD'', plan_direction = ''long'', plan_entry_price = 11 / 10,
      plan_sl = 109 / 100, plan_tp = 111 / 100, plan_lots = 1 / 100, plan_tf_entry = ''M5'',
      plan_score = 0, plan_comment = ''swing''\<rparr>)
      (initial_state\<lparr>bars_seen := [''EURUSD'' \<mapsto> 4], started := [''EURUSD'' \<mapsto> True],
        last_signal := [''EURUSD'' \<mapsto> False]\<rparr>))
   \<and> symbol_cycle default_config \<lparr>mt5_symbol_info = (\<lambda>s. Some \<lparr>trade_tick_value = Some 1, trade_tick_size = Some (1 / 100000),
          trade_contract_size = Some 100000, volume_step = Some (1 / 100),
          volume_min = Some (1 / 100), volume_max = Some 100, trade_allowed = Some True\<rparr>),
      mt5_symbol_info_tick = (\<lambda>n. Some \<lparr>bid = 11 / 10, ask = 11001 / 10000\<rparr>),
      mt5_order_send = (\<lambda>n. if n = 2
         then Returns (Some \<lparr>res_retcode = 10009, res_comment = ''done'', res_deal = 77, res_order = 78\<rparr>)
         else Returns (Some \<lparr>res_retcode = 10030, res_comment = ''Unsupported filling mode'',
                              res_deal = 0, res_order = 0\<rparr>)),
      TRADE_RETCODE_DONE = Some 10009,
      ORDER_FILLING_IOC = Some 1, ORDER_FILLING_FOK = Some 0, ORDER_FILLING_RETURN = Some 2\<rparr> \<lparr>loaded_comment = Inr [], open_positions = Inr 0, clock = 1000, clock_opened = 1001\<rparr> ''EURUSD'' (Plan \<lparr>plan_symbol = ''EURUSD'', plan_direction = ''long'', plan_entry_price = 11 / 10,
      plan_sl = 109 / 100, plan_tp = 111 / 100, plan_lots = 1 / 100, plan_tf_entry = ''M5'',
      plan_score = 0, plan_comment = ''swing''\<rparr>)
      (symbol_cycle default_config \<lparr>mt5_symbol_info = (\<lambda>s. Some \<lparr>trade_tick_value = Some 1, trade_tick_size = Some (1 / 100000),
          trade_contract_size = Some 100000, volume_step = Some (1 / 100),
          volume_min = Some (1 / 100), volume_max = Some 100, trade_allowed = Some True\<rparr>),
      mt5_symbol_info_tick = (\<lambda>n. Some \<lparr>bid = 11 / 10, ask = 11001 / 10000\<rparr>),
      mt5_order_send = (\<lambda>n. if n = 2
         then Returns (Some \<lparr>res_retcode = 10009, res_comment = ''done'', res_deal = 77, res_order = 78\<rparr>)
         else Returns (Some \<lparr>res_retcode = 10030, res_comment = ''Unsupported filling mode'',
                              res_deal = 0, res_order = 0\<rparr>)),
      TRADE_RETCODE_DONE = Some 10009,
      ORDER_FILLING_IOC = Some 1, ORDER_FILLING_FOK = Some 0, ORDER_FILLING_RETURN = Some 2\<rparr> \<lparr>loaded_comment = Inr [], open_positions = Inr 0, clock = 1000, clock_opened = 1001\<rparr> ''EURUSD'' (Plan \<lparr>plan_symbol = ''EURUSD'', plan_direction = ''long'', plan_entry_price = 11 / 10,
      plan_sl = 109 / 100, plan_tp = 111 / 100, plan_lots = 1 / 100, plan_tf_entry = ''M5'',
      plan_score = 0, plan_comment = ''swing''\<rparr>)
      (initial_state\<lparr>bars_seen := [''EURUSD'' \<mapsto> 4], started := [''EURUSD'' \<mapsto> True],
        last_signal := [''EURUSD'' \<mapsto> False]\<rparr>))
     = tick_symbol default_config ''EURUSD'' (symbol_cycle default_config \<lparr>mt5_symbol_info = (\<lambda>s. Some \<lparr>trade_tick_value = Some 1, trade_tick_size = Some (1 / 100000),
          trade_contract_size = Some 100000, volume_step = Some (1 / 100),
          volume_min = Some (1 / 100), volume_max = Some 100, trade_allowed = Some True\<rparr>),
      mt5_symbol_info_tick = (\<lambda>n. Some \<lparr>bid = 11 / 10, ask = 11001 / 10000\<rparr>),
      mt5_order_send = (\<lambda>n. if n = 2
         then Returns (Some \<lparr>res_retcode = 10009, res_comment = ''done'', res_deal = 77, res_order = 78\<rparr>)
         else Returns (Some \<lparr>res_retcode = 10030, res_comment = ''Unsupported filling mode'',
                              res_deal = 0, res_order = 0\<rparr>)),
      TRADE_RETCODE_DONE = Some 10009,
      ORDER_FILLING_IOC = Some 1, ORDER_FILLING_FOK = Some 0, ORDER_FILLING_RETURN = Some 2\<rparr> \<lparr>loaded_comment = Inr [], open_positions = Inr 0, clock = 1000, clock_opened = 1001\<rparr> ''EURUSD'' (Plan \<lparr>plan_symbol = ''EURUSD'', plan_direction = ''long'', plan_entry_price = 11 / 10,
      plan_sl = 109 / 100, plan_tp = 111 / 100, plan_lots = 1 / 100, plan_tf_entry = ''M5'',
      plan_score = 0, plan_comment = ''swing''\<rparr>)
      (initial_state\<lparr>bars_seen := [''EURUSD'' \<mapsto> 4], started := [''EURUSD'' \<mapsto> True],
        last_signal := [''EURUSD'' \<mapsto> False]\<rparr>))"
  using C6_debounce_amended
    [where ?p1.0 = "\<lparr>plan_symbol = ''EURUSD'', plan_direction = ''long'', plan_entry_price = 11 / 10,
      plan_sl = 109 / 100, plan_tp = 111 / 100, plan_lots = 1 / 100, plan_tf_entry = ''M5'',
      plan_score = 0, plan_comment = ''swing''\<rparr>"
       and ?p2.0 = "\<lparr>plan_symbol = ''EURUSD'', plan_direction = ''long'', plan_entry_price = 11 / 10,
      plan_sl = 109 / 100, plan_tp = 111 / 100, plan_lots = 1 / 100, plan_tf_entry = ''M5'',
      plan_score = 0, plan_comment = ''swing''\<rparr>"
       and p = "\<lparr>plan_symbol = ''EURUSD'', plan_direction = ''long'', plan_entry_price = 11 / 10,
      plan_sl = 109 / 100, plan_tp = 111 / 100, plan_lots = 1 / 100, plan_tf_entry = ''M5'',
      plan_score = 0, plan_comment = ''swing''\<rparr>"
       and s = "''EURUSD''" and cfg = default_config
       and v = "\<lparr>mt5_symbol_info = (\<lambda>s. Some \<lparr>trade_tick_value = Some 1, trade_tick_size = Some (1 / 100000),
          trade_contract_size = Some 100000, volume_step = Some (1 / 100),
          volume_min = Some (1 / 100), volume_max = Some 100, trade_allowed = Some True\<rparr>),
      mt5_symbol_info_tick = (\<lambda>n. Some \<lparr>bid = 11 / 10, ask = 11001 / 10000\<rparr>),
      mt5_order_send = (\<lambda>n. if n = 2
         then Returns (Some \<lparr>res_retcode = 10009, res_comment = ''done'', res_deal = 77, res_order = 78\<rparr>)
         else Returns (Some \<lparr>res_retcode = 10030, res_comment = ''Unsupported filling mode'',
                              res_deal = 0, res_order = 0\<rparr>)),
      TRADE_RETCODE_DONE = Some 10009,
      ORDER_FILLING_IOC = Some 1, ORDER_FILLING_FOK = Some 0, ORDER_FILLING_RETURN = Some 2\<rparr>"
       and ?env1.0 = "\<lparr>loaded_comment = Inr [], open_positions = Inr 0, clock = 1000, clock_opened = 1001\<rparr>"
       and ?env2.0 = "\<lparr>loaded_comment = Inr [], open_positions = Inr 0, clock = 1000, clock_opened = 1001\<rparr>"
       and env = "\<lparr>loaded_comment = Inr [], open_positions = Inr 0, clock = 1000, clock_opened = 1001\<rparr>"
       and ?st0.0 = "(initial_state\<lparr>bars_seen := [''EURUSD'' \<mapsto> 4], started := [''EURUSD'' \<mapsto> True],
        last_signal := [''EURUSD'' \<mapsto> False]\<rparr>)"
       and ?st1.0 = "(symbol_cycle default_config \<lparr>mt5_symbol_info = (\<lambda>s. Some \<lparr>trade_tick_value = Some 1, trade_tick_size = Some (1 / 100000),
          trade_contract_size = Some 100000, volume_step = Some (1 / 100),
          volume_min = Some (1 / 100), volume_max = Some 100, trade_allowed = Some True\<rparr>),
      mt5_symbol_info_tick = (\<lambda>n. Some \<lparr>bid = 11 / 10, ask = 11001 / 10000\<rparr>),
      mt5_order_send = (\<lambda>n. if n = 2
         then Returns (Some \<lparr>res_retcode = 10009, res_comment = ''done'', res_deal = 77, res_order = 78\<rparr>)
         else Returns (Some \<lparr>res_retcode = 10030, res_comment = ''Unsupported filling mode'',
                              res_deal = 0, res_order = 0\<rparr>)),
      TRADE_RETCODE_DONE = Some 10009,
      ORDER_FILLING_IOC = Some 1, ORDER_FILLING_FOK = Some 0, ORDER_FILLING_RETURN = Some 2\<rparr> \<lparr>loaded_comment = Inr [], open_positions = Inr 0, clock = 1000, clock_opened = 1001\<rparr> ''EURUSD'' (Plan \<lparr>plan_symbol = ''EURUSD'', plan_direction = ''long'', plan_entry_price = 11 / 10,
      plan_sl = 109 / 100, plan_tp = 111 / 100, plan_lots = 1 / 100, plan_tf_entry = ''M5'',
      plan_score = 0, plan_comment = ''swing''\<rparr>)
      (initial_state\<lparr>bars_seen := [''EURUSD'' \<mapsto> 4], started := [''EURUSD'' \<mapsto> True],
        last_signal := [''EURUSD'' \<mapsto> False]\<rparr>))"
       and st = "(symbol_cycle default_config \<lparr>mt5_symbol_info = (\<lambda>s. Some \<lparr>trade_tick_value = Some 1, trade_tick_size = Some (1 / 100000),
          trade_contract_size = Some 100000, volume_step = Some (1 / 100),
          volume_min = Some (1 / 100), volume_max = Some 100, trade_allowed = Some True\<rparr>),
      mt5_symbol_info_tick = (\<lambda>n. Some \<lparr>bid = 11 / 10, ask = 11001 / 10000\<rparr>),
      mt5_order_send = (\<lambda>n. if n = 2
         then Returns (Some \<lparr>res_retcode = 10009, res_comment = ''done'', res_deal = 77, res_order = 78\<rparr>)
         else Returns (Some \<lparr>res_retcode = 10030, res_comment = ''Unsupported filling mode'',
                              res_deal = 0, res_order = 0\<rparr>)),
      TRADE_RETCODE_DONE = Some 10009,
      ORDER_FILLING_IOC = Some 1, ORDER_FILLING_FOK = Some 0, ORDER_FILLING_RETURN = Some 2\<rparr> \<lparr>loaded_comment = Inr [], open_positions = Inr 0, clock = 1000, clock_opened = 1001\<rparr> ''EURUSD'' (Plan \<lparr>plan_symbol = ''EURUSD'', plan_direction = ''long'', plan_entry_price = 11 / 10,
      plan_sl = 109 / 100, plan_tp = 111 / 100, plan_lots = 1 / 100, plan_tf_entry = ''M5'',
      plan_score = 0, plan_comment = ''swing''\<rparr>)
      (initial_state\<lparr>bars_seen := [''EURUSD'' \<mapsto> 4], started := [''EURUSD'' \<mapsto> True],
        last_signal := [''EURUSD'' \<mapsto> False]\<rparr>))"
       and i = 2]
  unfolding first_plan_after_warm_up
  by (simp add: initial_state_def execution_attempts_def plan_signature_def py_round_def
      round_half_even_def is_success_def returned_def getattr_def tick_symbol_def Let_def)

lemma manage_position_coordinator:
  "last_signal (manage_position cfg v ut m p st) = last_signal st
   \<and> last_plan_signature (manage_position cfg v ut m p st) = last_plan_signature st"
proof (cases cfg v ut m p st rule: manage_position_cases)
  case no_tick
  then show ?thesis by simp
next
  case (blocks tk price entry sl_opt tp_opt risk rr)
  have b: "last_signal (breakeven_step cfg v ut p entry sl_opt tp_opt risk rr x) = last_signal x
    \<and> last_plan_signature (breakeven_step cfg v ut p entry sl_opt tp_opt risk rr x) = last_plan_signature x" for x
    by (simp add: breakeven_step_def breakeven_send_def order_send_def split: send_outcome.splits)
  have q: "last_signal (partial_tp_step cfg v p tk (pos_volume p) risk rr x) = last_signal x
    \<and> last_plan_signature (partial_tp_step cfg v p tk (pos_volume p) risk rr x) = last_plan_signature x" for x
    by (simp add: partial_tp_step_def order_send_def Let_def split: send_outcome.splits)
  have t: "last_signal (trailing_step cfg v ut m p price entry sl_opt tp_opt risk x) = last_signal x
    \<and> last_plan_signature (trailing_step cfg v ut m p price entry sl_opt tp_opt risk x) = last_plan_signature x" for x
    by (simp add: trailing_step_def trailing_send_def order_send_def
        split: send_outcome.splits option.splits prod.splits)
  show ?thesis unfolding blocks(4) by (simp add: b q t)
qed

lemma manage_open_positions_coordinator:
  "last_signal (manage_open_positions cfg v ut m ps st) = last_signal st
   \<and> last_plan_signature (manage_open_positions cfg v ut m ps st) = last_plan_signature st"
  by (induction ps arbitrary: st) (simp_all add: manage_position_coordinator)

lemma symbol_cycle_keeps_signal:
  assumes "last_signal st s = Some True" and "\<not> (s' = s \<and> built = NoPlan)"
  shows "last_signal (symbol_cycle cfg v env s' built st) s = Some True"
proof (cases built)
  case BuildRaises
  then show ?thesis using assms(1) by (simp add: symbol_cycle_def Let_def tick_symbol_frame)
next
  case NoPlan
  then have "s' \<noteq> s" using assms(2) by simp
  then show ?thesis using assms(1) NoPlan
    by (simp add: symbol_cycle_def Let_def tick_symbol_frame clear_signal_def)
next
  case (Plan p)
  show ?thesis
  proof (cases "last_plan_signature st s' = Some (plan_signature p)")
    case True
    then show ?thesis using assms(1) Plan by (simp add: symbol_cycle_duplicate tick_symbol_frame)
  next
    case False
    have "last_signal (snd (execute_plan cfg v env p (tick_symbol cfg s' st))) s = Some True"
    proof (cases "s = plan_symbol p")
      case True
      then show ?thesis by (simp add: execute_plan_sets_signal)
    next
      case ne: False
      then show ?thesis using assms(1)
        by (simp add: execute_plan_other_signal tick_symbol_frame)
    qed
    then show ?thesis using Plan by (simp add: symbol_cycle_fresh [OF False])
  qed
qed

lemma symbol_cycle_no_plan: "last_signal (symbol_cycle cfg v env s NoPlan st) s = Some False"
  by (simp add: symbol_cycle_def Let_def clear_signal_def)

lemma warm_up_first_call:
  "execute_plan default_config \<lparr>mt5_symbol_info = (\<lambda>s. Some \<lparr>trade_tick_value = Some 1, trade_tick_size = Some (1 / 100000),
          trade_contract_size = Some 100000, volume_step = Some (1 / 100),
          volume_min = Some (1 / 100), volume_max = Some 100, trade_allowed = Some True\<rparr>),
      mt5_symbol_info_tick = (\<lambda>n. Some \<lparr>bid = 11 / 10, ask = 11001 / 10000\<rparr>),
      mt5_order_send = (\<lambda>n. if n = 2
         then Returns (Some \<lparr>res_retcode = 10009, res_comment = ''done'', res_deal = 77, res_order = 78\<rparr>)
         else Returns (Some \<lparr>res_retcode = 10030, res_comment = ''Unsupported filling mode'',
                              res_deal = 0, res_order = 0\<rparr>)),
      TRADE_RETCODE_DONE = Some 10009,
      ORDER_FILLING_IOC = Some 1, ORDER_FILLING_FOK = Some 0, ORDER_FILLING_RETURN = Some 2\<rparr> \<lparr>loaded_comment = Inr [], open_positions = Inr 0, clock = 1000, clock_opened = 1001\<rparr> \<lparr>plan_symbol = ''EURUSD'', plan_direction = ''long'', plan_entry_price = 11 / 10,
      plan_sl = 109 / 100, plan_tp = 111 / 100, plan_lots = 1 / 100, plan_tf_entry = ''M5'',
      plan_score = 0, plan_comment = ''swing''\<rparr> initial_state
   = (None, initial_state\<lparr>events := [PLAN_SKIP ''EURUSD'' ''startup_protection''],
        journal := [(\<lparr>plan_symbol = ''EURUSD'', plan_direction = ''long'', plan_entry_price = 11 / 10,
      plan_sl = 109 / 100, plan_tp = 111 / 100, plan_lots = 1 / 100, plan_tf_entry = ''M5'',
      plan_score = 0, plan_comment = ''swing''\<rparr>, 0)],
        journal_logged_signature := [''EURUSD'' \<mapsto> (''EURUSD'', ''long'', 11 / 10)],
        last_signal := [''EURUSD'' \<mapsto> True]\<rparr>)"
  by (simp add: execute_plan_def initial_state_def Let_def plan_signature_def py_round_def
      round_half_even_def truthy_def)

lemma warm_up_second_call:
  "execute_plan default_config \<lparr>mt5_symbol_info = (\<lambda>s. Some \<lparr>trade_tick_value = Some 1, trade_tick_size = Some (1 / 100000),
          trade_contract_size = Some 100000, volume_step = Some (1 / 100),
          volume_min = Some (1 / 100), volume_max = Some 100, trade_allowed = Some True\<rparr>),
      mt5_symbol_info_tick = (\<lambda>n. Some \<lparr>bid = 11 / 10, ask = 11001 / 10000\<rparr>),
      mt5_order_send = (\<lambda>n. if n = 2
         then Returns (Some \<lparr>res_retcode = 10009, res_comment = ''done'', res_deal = 77, res_order = 78\<rparr>)
         else Returns (Some \<lparr>res_retcode = 10030, res_comment = ''Unsupported filling mode'',
                              res_deal = 0, res_order = 0\<rparr>)),
      TRADE_RETCODE_DONE = Some 10009,
      ORDER_FILLING_IOC = Some 1, ORDER_FILLING_FOK = Some 0, ORDER_FILLING_RETURN = Some 2\<rparr> \<lparr>loaded_comment = Inr [], open_positions = Inr 0, clock = 1000, clock_opened = 1001\<rparr> \<lparr>plan_symbol = ''EURUSD'', plan_direction = ''long'', plan_entry_price = 11 / 10,
      plan_sl = 109 / 100, plan_tp = 111 / 100, plan_lots = 1 / 100, plan_tf_entry = ''M5'',
      plan_score = 0, plan_comment = ''swing''\<rparr>
     (initial_state\<lparr>events := [PLAN_SKIP ''EURUSD'' ''startup_protection''],
        journal := [(\<lparr>plan_symbol = ''EURUSD'', plan_direction = ''long'', plan_entry_price = 11 / 10,
      plan_sl = 109 / 100, plan_tp = 111 / 100, plan_lots = 1 / 100, plan_tf_entry = ''M5'',
      plan_score = 0, plan_comment = ''swing''\<rparr>, 0)],
        journal_logged_signature := [''EURUSD'' \<mapsto> (''EURUSD'', ''long'', 11 / 10)],
        last_signal := [''EURUSD'' \<mapsto> True]\<rparr>)
   = (None, initial_state\<lparr>events := [PLAN_SKIP ''EURUSD'' ''startup_protection'',
                                       PLAN_SKIP ''EURUSD'' ''startup_protection''],
        journal := [(\<lparr>plan_symbol = ''EURUSD'', plan_direction = ''long'', plan_entry_price = 11 / 10,
      plan_sl = 109 / 100, plan_tp = 111 / 100, plan_lots = 1 / 100, plan_tf_entry = ''M5'',
      plan_score = 0, plan_comment = ''swing''\<rparr>, 0)],
        journal_logged_signature := [''EURUSD'' \<mapsto> (''EURUSD'', ''long'', 11 / 10)],
        last_signal := [''EURUSD'' \<mapsto> True]\<rparr>)"
  by (simp add: execute_plan_def initial_state_def Let_def plan_signature_def py_round_def
      round_half_even_def truthy_def)

text \<open>
  C10, as stated, during warm-up: the first call of \<open>execute_plan\<close> in the initial
  state skips the plan for start-up protection and sets the flag; the next call finds
  the flag set and skips again, and the reason logged is \<open>startup_protection\<close>, not
  \<open>no_rising_edge\<close>: the warm-up test comes first in the \<^verbatim>\<open>if\<close> chain.
\<close>

theorem C10_rising_edge_counterexample:
  "last_signal (snd (execute_plan default_config \<lparr>mt5_symbol_info = (\<lambda>s. Some \<lparr>trade_tick_value = Some 1, trade_tick_size = Some (1 / 100000),
          trade_contract_size = Some 100000, volume_step = Some (1 / 100),
          volume_min = Some (1 / 100), volume_max = Some 100, trade_allowed = Some True\<rparr>),
      mt5_symbol_info_tick = (\<lambda>n. Some \<lparr>bid = 11 / 10, ask = 11001 / 10000\<rparr>),
      mt5_order_send = (\<lambda>n. if n = 2
         then Returns (Some \<lparr>res_retcode = 10009, res_comment = ''done'', res_deal = 77, res_order = 78\<rparr>)
         else Returns (Some \<lparr>res_retcode = 10030, res_comment = ''Unsupported filling mode'',
                              res_deal = 0, res_order = 0\<rparr>)),
      TRADE_RETCODE_DONE = Some 10009,
      ORDER_FILLING_IOC = Some 1, ORDER_FILLING_FOK = Some 0, ORDER_FILLING_RETURN = Some 2\<rparr> \<lparr>loaded_comment = Inr [], open_positions = Inr 0, clock = 1000, clock_opened = 1001\<rparr> \<lparr>plan_symbol = ''EURUSD'', plan_direction = ''long'', plan_entry_price = 11 / 10,
      plan_sl = 109 / 100, plan_tp = 111 / 100, plan_lots = 1 / 100, plan_tf_entry = ''M5'',
      plan_score = 0, plan_comment = ''swing''\<rparr> initial_state)) ''EURUSD''
     = Some True
   \<and> events (snd (execute_plan default_config \<lparr>mt5_symbol_info = (\<lambda>s. Some \<lparr>trade_tick_value = Some 1, trade_tick_size = Some (1 / 100000),
          trade_contract_size = Some 100000, volume_step = Some (1 / 100),
          volume_min = Some (1 / 100), volume_max = Some 100, trade_allowed = Some True\<rparr>),
      mt5_symbol_info_tick = (\<lambda>n. Some \<lparr>bid = 11 / 10, ask = 11001 / 10000\<rparr>),
      mt5_order_send = (\<lambda>n. if n = 2
         then Returns (Some \<lparr>res_retcode = 10009, res_comment = ''done'', res_deal = 77, res_order = 78\<rparr>)
         else Returns (Some \<lparr>res_retcode = 10030, res_comment = ''Unsupported filling mode'',
                              res_deal = 0, res_order = 0\<rparr>)),
      TRADE_RETCODE_DONE = Some 10009,
      ORDER_FILLING_IOC = Some 1, ORDER_FILLING_FOK = Some 0, ORDER_FILLING_RETURN = Some 2\<rparr> \<lparr>loaded_comment = Inr [], open_positions = Inr 0, clock = 1000, clock_opened = 1001\<rparr> \<lparr>plan_symbol = ''EURUSD'', plan_direction = ''long'', plan_entry_price = 11 / 10,
      plan_sl = 109 / 100, plan_tp = 111 / 100, plan_lots = 1 / 100, plan_tf_entry = ''M5'',
      plan_score = 0, plan_comment = ''swing''\<rparr>
                    (snd (execute_plan default_config \<lparr>mt5_symbol_info = (\<lambda>s. Some \<lparr>trade_tick_value = Some 1, trade_tick_size = Some (1 / 100000),
          trade_contract_size = Some 100000, volume_step = Some (1 / 100),
          volume_min = Some (1 / 100), volume_max = Some 100, trade_allowed = Some True\<rparr>),
      mt5_symbol_info_tick = (\<lambda>n. Some \<lparr>bid = 11 / 10, ask = 11001 / 10000\<rparr>),
      mt5_order_send = (\<lambda>n. if n = 2
         then Returns (Some \<lparr>res_retcode = 10009, res_comment = ''done'', res_deal = 77, res_order = 78\<rparr>)
         else Returns (Some \<lparr>res_retcode = 10030, res_comment = ''Unsupported filling mode'',
                              res_deal = 0, res_order = 0\<rparr>)),
      TRADE_RETCODE_DONE = Some 10009,
      ORDER_FILLING_IOC = Some 1, ORDER_FILLING_FOK = Some 0, ORDER_FILLING_RETURN = Some 2\<rparr> \<lparr>loaded_comment = Inr [], open_positions = Inr 0, clock = 1000, clock_opened = 1001\<rparr> \<lparr>plan_symbol = ''EURUSD'', plan_direction = ''long'', plan_entry_price = 11 / 10,
      plan_sl = 109 / 100, plan_tp = 111 / 100, plan_lots = 1 / 100, plan_tf_entry = ''M5'',
      plan_score = 0, plan_comment = ''swing''\<rparr> initial_state))))
     = events (snd (execute_plan default_config \<lparr>mt5_symbol_info = (\<lambda>s. Some \<lparr>trade_tick_value = Some 1, trade_tick_size = Some (1 / 100000),
          trade_contract_size = Some 100000, volume_step = Some (1 / 100),
          volume_min = Some (1 / 100), volume_max = Some 100, trade_allowed = Some True\<rparr>),
      mt5_symbol_info_tick = (\<lambda>n. Some \<lparr>bid = 11 / 10, ask = 11001 / 10000\<rparr>),
      mt5_order_send = (\<lambda>n. if n = 2
         then Returns (Some \<lparr>res_retcode = 10009, res_comment = ''done'', res_deal = 77, res_order = 78\<rparr>)
         else Returns (Some \<lparr>res_retcode = 10030, res_comment = ''Unsupported filling mode'',
                              res_deal = 0, res_order = 0\<rparr>)),
      TRADE_RETCODE_DONE = Some 10009,
      ORDER_FILLING_IOC = Some 1, ORDER_FILLING_FOK = Some 0, ORDER_FILLING_RETURN = Some 2\<rparr> \<lparr>loaded_comment = Inr [], open_positions = Inr 0, clock = 1000, clock_opened = 1001\<rparr> \<lparr>plan_symbol = ''EURUSD'', plan_direction = ''long'', plan_entry_price = 11 / 10,
      plan_sl = 109 / 100, plan_tp = 111 / 100, plan_lots = 1 / 100, plan_tf_entry = ''M5'',
      plan_score = 0, plan_comment = ''swing''\<rparr> initial_state))
       @ [PLAN_SKIP ''EURUSD'' ''startup_protection'']
   \<and> ''startup_protection'' \<noteq> ''no_rising_edge''"
  unfolding warm_up_first_call snd_conv warm_up_second_call
  by simp

text \<open>
  C10, amended: every call of \<open>execute_plan\<close> sets the last-signal flag of the plan's
  instrument.  While the flag is set, a plan for the instrument is skipped: no ticket, no
  request to the venue, and one \<open>PLAN_SKIP\<close> line whose reason is \<open>no_rising_edge\<close> once
  the instrument has finished its warm-up and \<open>startup_protection\<close> before.  A set flag
  survives every cycle of every instrument except a cycle of its own instrument in which
  no plan is produced, which resets it; position management leaves it alone.
\<close>

theorem C10_rising_edge_amended:
  "last_signal (snd (execute_plan cfg v env plan st)) (plan_symbol plan) = Some True
   \<and> (last_signal st (plan_symbol plan) = Some True
        \<longrightarrow> fst (execute_plan cfg v env plan st) = None
            \<and> sent (snd (execute_plan cfg v env plan st)) = sent st
            \<and> events (snd (execute_plan cfg v env plan st))
                = events st @ [PLAN_SKIP (plan_symbol plan)
                    (if started st (plan_symbol plan) = Some True then ''no_rising_edge''
                     else ''startup_protection'')])
   \<and> (last_signal st s = Some True \<and> \<not> (s' = s \<and> built = NoPlan)
        \<longrightarrow> last_signal (symbol_cycle cfg v env s' built st) s = Some True)
   \<and> last_signal (symbol_cycle cfg v env s NoPlan st) s = Some False
   \<and> last_signal (manage_open_positions cfg v use_trailing trailing_r_mult ps st) = last_signal st"
  using execute_plan_sets_signal [of cfg v env plan st]
    execute_plan_suppressed [of st plan cfg v env]
    symbol_cycle_keeps_signal [of st s s' built cfg v env]
    symbol_cycle_no_plan [of cfg v env s st]
    manage_open_positions_coordinator [of cfg v use_trailing trailing_r_mult ps st]
  by simp

theorem C10_rising_edge_amended_witness:
  "fst (execute_plan default_config \<lparr>mt5_symbol_info = (\<lambda>s. Some \<lparr>trade_tick_value = Some 1, trade_tick_size = Some (1 / 100000),
          trade_contract_size = Some 100000, volume_step = Some (1 / 100),
          volume_min = Some (1 / 100), volume_max = Some 100, trade_allowed = Some True\<rparr>),
      mt5_symbol_info_tick = (\<lambda>n. Some \<lparr>bid = 11 / 10, ask = 11001 / 10000\<rparr>),
      mt5_order_send = (\<lambda>n. if n = 2
         then Returns (Some \<lparr>res_retcode = 10009, res_comment = ''done'', res_deal = 77, res_order = 78\<rparr>)
         else Returns (Some \<lparr>res_retcode = 10030, res_comment = ''Unsupported filling mode'',
                              res_deal = 0, res_order = 0\<rparr>)),
      TRADE_RETCODE_DONE = Some 10009,
      ORDER_FILLING_IOC = Some 1, ORDER_FILLING_FOK = Some 0, ORDER_FILLING_RETURN = Some 2\<rparr> \<lparr>loaded_comment = Inr [], open_positions = Inr 0, clock = 1000, clock_opened = 1001\<rparr> \<lparr>plan_symbol = ''EURUSD'', plan_direction = ''long'', plan_entry_price = 11 / 10,
      plan_sl = 109 / 100, plan_tp = 111 / 100, plan_lots = 1 / 100, plan_tf_entry = ''M5'',
      plan_score = 0, plan_comment = ''swing''\<rparr> (initial_state\<lparr>events := [PLAN_SKIP ''EURUSD'' ''startup_protection''],
        journal := [(\<lparr>plan_symbol = ''EURUSD'', plan_direction = ''long'', plan_entry_price = 11 / 10,
      plan_sl = 109 / 100, plan_tp = 111 / 100, plan_lots = 1 / 100, plan_tf_entry = ''M5'',
      plan_score = 0, plan_comment = ''swing''\<rparr>, 0)],
        journal_logged_signature := [''EURUSD'' \<mapsto> (''EURUSD'', ''long'', 11 / 10)],
        last_signal := [''EURUSD'' \<mapsto> True]\<rparr>)) = None
   \<and> sent (snd (execute_plan default_config \<lparr>mt5_symbol_info = (\<lambda>s. Some \<lparr>trade_tick_value = Some 1, trade_tick_size = Some (1 / 100000),
          trade_contract_size = Some 100000, volume_step = Some (1 / 100),
          volume_min = Some (1 / 100), volume_max = Some 100, trade_allowed = Some True\<rparr>),
      mt5_symbol_info_tick = (\<lambda>n. Some \<lparr>bid = 11 / 10, ask = 11001 / 10000\<rparr>),
      mt5_order_send = (\<lambda>n. if n = 2
         then Returns (Some \<lparr>res_retcode = 10009, res_comment = ''done'', res_deal = 77, res_order = 78\<rparr>)
         else Returns (Some \<lparr>res_retcode = 10030, res_comment = ''Unsupported filling mode'',
                              res_deal = 0, res_order = 0\<rparr>)),
      TRADE_RETCODE_DONE = Some 10009,
      ORDER_FILLING_IOC = Some 1, ORDER_FILLING_FOK = Some 0, ORDER_FILLING_RETURN = Some 2\<rparr> \<lparr>loaded_comment = Inr [], open_positions = Inr 0, clock = 1000, clock_opened = 1001\<rparr> \<lparr>plan_symbol = ''EURUSD'', plan_direction = ''long'', plan_entry_price = 11 / 10,
      plan_sl = 109 / 100, plan_tp = 111 / 100, plan_lots = 1 / 100, plan_tf_entry = ''M5'',
      plan_score = 0, plan_comment = ''swing''\<rparr> (initial_state\<lparr>events := [PLAN_SKIP ''EURUSD'' ''startup_protection''],
        journal := [(\<lparr>plan_symbol = ''EURUSD'', plan_direction = ''long'', plan_entry_price = 11 / 10,
      plan_sl = 109 / 100, plan_tp = 111 / 100, plan_lots = 1 / 100, plan_tf_entry = ''M5'',
      plan_score = 0, plan_comment = ''swing''\<rparr>, 0)],
        journal_logged_signature := [''EURUSD'' \<mapsto> (''EURUSD'', ''long'', 11 / 10)],
        last_signal := [''EURUSD'' \<mapsto> True]\<rparr>))) = []
   \<and> last_signal (symbol_cycle default_config \<lparr>mt5_symbol_info = (\<lambda>s. Some \<lparr>trade_tick_value = Some 1, trade_tick_size = Some (1 / 100000),
          trade_contract_size = Some 100000, volume_step = Some (1 / 100),
          volume_min = Some (1 / 100), volume_max = Some 100, trade_allowed = Some True\<rparr>),
      mt5_symbol_info_tick = (\<lambda>n. Some \<lparr>bid = 11 / 10, ask = 11001 / 10000\<rparr>),
      mt5_order_send = (\<lambda>n. if n = 2
         then Returns (Some \<lparr>res_retcode = 10009, res_comment = ''done'', res_deal = 77, res_order = 78\<rparr>)
         else Returns (Some \<lparr>res_retcode = 10030, res_comment = ''Unsupported filling mode'',
                              res_deal = 0, res_order = 0\<rparr>)),
      TRADE_RETCODE_DONE = Some 10009,
      ORDER_FILLING_IOC = Some 1, ORDER_FILLING_FOK = Some 0, ORDER_FILLING_RETURN = Some 2\<rparr> \<lparr>loaded_comment = Inr [], open_positions = Inr 0, clock = 1000, clock_opened = 1001\<rparr> ''EURUSD'' BuildRaises (initial_state\<lparr>events := [PLAN_SKIP ''EURUSD'' ''startup_protection''],
        journal := [(\<lparr>plan_symbol = ''EURUSD'', plan_direction = ''long'', plan_entry_price = 11 / 10,
      plan_sl = 109 / 100, plan_tp = 111 / 100, plan_lots = 1 / 100, plan_tf_entry = ''M5'',
      plan_score = 0, plan_comment = ''swing''\<rparr>, 0)],
        journal_logged_signature := [''EURUSD'' \<mapsto> (''EURUSD'', ''long'', 11 / 10)],
        last_signal := [''EURUSD'' \<mapsto> True]\<rparr>)) ''EURUSD''
       = Some True"
  using C10_rising_edge_amended
    [where cfg = default_config and v = "\<lparr>mt5_symbol_info = (\<lambda>s. Some \<lparr>trade_tick_value = Some 1, trade_tick_size = Some (1 / 100000),
          trade_contract_size = Some 100000, volume_step = Some (1 / 100),
          volume_min = Some (1 / 100), volume_max = Some 100, trade_allowed = Some True\<rparr>),
      mt5_symbol_info_tick = (\<lambda>n. Some \<lparr>bid = 11 / 10, ask = 11001 / 10000\<rparr>),
      mt5_order_send = (\<lambda>n. if n = 2
         then Returns (Some \<lparr>res_retcode = 10009, res_comment = ''done'', res_deal = 77, res_order = 78\<rparr>)
         else Returns (Some \<lparr>res_retcode = 10030, res_comment = ''Unsupported filling mode'',
                              res_deal = 0, res_order = 0\<rparr>)),
      TRADE_RETCODE_DONE = Some 10009,
      ORDER_FILLING_IOC = Some 1, ORDER_FILLING_FOK = Some 0, ORDER_FILLING_RETURN = Some 2\<rparr>" and env = "\<lparr>loaded_comment = Inr [], open_positions = Inr 0, clock = 1000, clock_opened = 1001\<rparr>" and plan = "\<lparr>plan_symbol = ''EURUSD'', plan_direction = ''long'', plan_entry_price = 11 / 10,
      plan_sl = 109 / 100, plan_tp = 111 / 100, plan_lots = 1 / 100, plan_tf_entry = ''M5'',
      plan_score = 0, plan_comment = ''swing''\<rparr>"
       and st = "(initial_state\<lparr>events := [PLAN_SKIP ''EURUSD'' ''startup_protection''],
        journal := [(\<lparr>plan_symbol = ''EURUSD'', plan_direction = ''long'', plan_entry_price = 11 / 10,
      plan_sl = 109 / 100, plan_tp = 111 / 100, plan_lots = 1 / 100, plan_tf_entry = ''M5'',
      plan_score = 0, plan_comment = ''swing''\<rparr>, 0)],
        journal_logged_signature := [''EURUSD'' \<mapsto> (''EURUSD'', ''long'', 11 / 10)],
        last_signal := [''EURUSD'' \<mapsto> True]\<rparr>)" and s = "''EURUSD''" and s' = "''EURUSD''" and built = BuildRaises]
  by (simp add: initial_state_def)

end
